theory Spec2Isabelle
  imports Main
begin

unbundle bit_operations_syntax

section \<open>Fragments of the Go standard library used by the connector\<close>

text \<open>
  Go strings are byte sequences: \<^typ>\<open>string\<close>. The functions below follow the
  documentation of the packages \<^verbatim>\<open>strings\<close>, \<^verbatim>\<open>strconv\<close>, \<^verbatim>\<open>fmt\<close>
  and \<^verbatim>\<open>path/filepath\<close> on ASCII input (case mapping and white space of
  non-ASCII runes are not modelled). Every call of \<^verbatim>\<open>strings.Split\<close> in the
  repository passes a one-byte separator, so the separator is a \<^typ>\<open>char\<close>.
\<close>

definition asciiUpper :: string where
  "asciiUpper = ''ABCDEFGHIJKLMNOPQRSTUVWXYZ''"

definition asciiLower :: string where
  "asciiLower = ''abcdefghijklmnopqrstuvwxyz''"

definition toLowerByte :: "char \<Rightarrow> char" where
  "toLowerByte c = (case map_of (zip asciiUpper asciiLower) c of Some d \<Rightarrow> d | None \<Rightarrow> c)"

definition strings_ToLower :: "string \<Rightarrow> string" where
  "strings_ToLower s = map toLowerByte s"

definition strings_HasPrefix :: "string \<Rightarrow> string \<Rightarrow> bool" where
  "strings_HasPrefix s p = (take (length p) s = p)"

fun strings_Contains :: "string \<Rightarrow> string \<Rightarrow> bool" where
  "strings_Contains [] sub = (sub = [])"
| "strings_Contains (c # cs) sub = (strings_HasPrefix (c # cs) sub \<or> strings_Contains cs sub)"

fun strings_Split :: "string \<Rightarrow> char \<Rightarrow> string list" where
  "strings_Split [] sep = [[]]"
| "strings_Split (c # cs) sep =
     (if c = sep then [] # strings_Split cs sep
      else (case strings_Split cs sep of [] \<Rightarrow> [[c]] | p # ps \<Rightarrow> (c # p) # ps))"

definition isSpace :: "char \<Rightarrow> bool" where
  "isSpace c = (c \<in> set [CHR '' '', CHR 0x09, CHR 0x0A, CHR 0x0B, CHR 0x0C, CHR 0x0D])"

definition strings_TrimSpace :: "string \<Rightarrow> string" where
  "strings_TrimSpace s = rev (dropWhile isSpace (rev (dropWhile isSpace s)))"

definition strings_TrimLeft :: "string \<Rightarrow> string \<Rightarrow> string" where
  "strings_TrimLeft s cutset = dropWhile (\<lambda>c. c \<in> set cutset) s"

text \<open>
  \<^verbatim>\<open>strings.Replace(s, old, new, n)\<close> for a non-empty \<open>old\<close>: the first
  \<open>n\<close> non-overlapping occurrences (all of them when the budget is \<open>None\<close>, Go's
  \<open>n < 0\<close>). \<open>skip\<close> counts the bytes of a replaced occurrence still to be dropped.
\<close>

fun replaceFrom :: "string \<Rightarrow> string \<Rightarrow> nat \<Rightarrow> nat option \<Rightarrow> string \<Rightarrow> string" where
  "replaceFrom old new skip n [] = []"
| "replaceFrom old new skip n (c # cs) =
     (if 0 < skip then replaceFrom old new (skip - 1) n cs
      else if n = Some 0 \<or> old = [] then c # replaceFrom old new 0 n cs
      else if strings_HasPrefix (c # cs) old
        then new @ replaceFrom old new (length old - 1) (map_option (\<lambda>k. k - 1) n) cs
      else c # replaceFrom old new 0 n cs)"

definition strings_Replace :: "string \<Rightarrow> string \<Rightarrow> string \<Rightarrow> nat \<Rightarrow> string" where
  "strings_Replace s old new n = replaceFrom old new 0 (Some n) s"

definition strings_ReplaceAll :: "string \<Rightarrow> string \<Rightarrow> string \<Rightarrow> string" where
  "strings_ReplaceAll s old new = replaceFrom old new 0 None s"

text \<open>
  \<^verbatim>\<open>filepath.Split\<close> on a Unix path: the directory ends with the final separator, the
  file is what follows; with no separator the directory is empty.
\<close>

definition filepath_Split :: "string \<Rightarrow> string \<times> string" where
  "filepath_Split p =
     (let file = rev (takeWhile (\<lambda>c. c \<noteq> CHR ''/'') (rev p))
      in (take (length p - length file) p, file))"

subsection \<open>Numbers as text\<close>

function digitsBase :: "nat \<Rightarrow> nat \<Rightarrow> nat list" where
  "digitsBase b n = (if n < b \<or> b < 2 then [n] else digitsBase b (n div b) @ [n mod b])"
  by pat_completeness auto
termination
  by (relation "measure snd") auto

declare digitsBase.simps [simp del]

definition hexDigit :: "nat \<Rightarrow> char" where
  "hexDigit d = ''0123456789abcdef'' ! d"

definition decDigit :: "nat \<Rightarrow> char" where
  "decDigit d = ''0123456789'' ! d"

definition padZero :: "nat \<Rightarrow> string \<Rightarrow> string" where
  "padZero w s = replicate (w - length s) CHR ''0'' @ s"

text \<open>The verbs \<^verbatim>\<open>%04x\<close> and \<^verbatim>\<open>%d\<close> (also \<^verbatim>\<open>%v\<close> of an int) of \<^verbatim>\<open>fmt\<close>.\<close>

definition fmt_04x :: "int \<Rightarrow> string" where
  "fmt_04x n =
     (if n < 0 then CHR ''-'' # padZero 3 (map hexDigit (digitsBase 16 (nat (- n))))
      else padZero 4 (map hexDigit (digitsBase 16 (nat n))))"

definition fmt_d :: "int \<Rightarrow> string" where
  "fmt_d n =
     (if n < 0 then CHR ''-'' # map decDigit (digitsBase 10 (nat (- n)))
      else map decDigit (digitsBase 10 (nat n)))"

datatype error =
    OSError string
  | NumError string string string
  | ErrorsNew string
  | Errorf string "string list"
  | ErrorfWrap string "string list" error

definition isDigit :: "char \<Rightarrow> bool" where
  "isDigit c = (c \<in> set ''0123456789'')"

definition digitVal :: "char \<Rightarrow> nat" where
  "digitVal c = of_char c - 48"

definition parseDigits :: "string \<Rightarrow> nat" where
  "parseDigits s = foldl (\<lambda>n c. n * 10 + digitVal c) 0 s"

text \<open>
  \<^verbatim>\<open>strconv.Atoi\<close> on a 64-bit platform: an optional sign and at least one decimal
  digit, the value within the range of \<^verbatim>\<open>int\<close>.
\<close>

definition strconv_Atoi :: "string \<Rightarrow> error + int" where
  "strconv_Atoi s =
     (let body = (case s of [] \<Rightarrow> [] | c # r \<Rightarrow> if c = CHR ''-'' \<or> c = CHR ''+'' then r else s)
      in if body = [] then Inl (NumError ''Atoi'' s ''invalid syntax'')
         else if list_ex (\<lambda>c. \<not> isDigit c) body then Inl (NumError ''Atoi'' s ''invalid syntax'')
         else (let n = int (parseDigits body);
                   v = (if take 1 s = ''-'' then - n else n)
               in if v < - (2 ^ 63) \<or> 2 ^ 63 \<le> v
                  then Inl (NumError ''Atoi'' s ''value out of range'')
                  else Inr v))"

section \<open>Dynamically typed values\<close>

text \<open>
  The connection descriptor is a \<^verbatim>\<open>map[string]interface{}\<close>. \<open>val\<close> lists the
  dynamic types the code inspects; \<open>VOther\<close> stands for any other dynamic type, \<open>VNil\<close>
  for the nil interface. A Target is a pair (WWPN, LUN) of strings.
\<close>

type_synonym Target = "string \<times> string"

datatype val =
    VNil
  | VStr string
  | VInt int
  | VBool bool
  | VStrs "string list"
  | VIfaces "val list"
  | VTargets "Target list"
  | VStrsMap "(string \<times> string list) list"
  | VIfaceMap "(string \<times> val) list"
  | VOther string

section \<open>LUN normalization (initiator/linuxscsi.go)\<close>

definition formatLunID :: "val \<Rightarrow> error + val" where
  "formatLunID x =
     (case x of
        VInt lunID \<Rightarrow>
          (if lunID < 256 then Inr (VInt lunID)
           else Inr (VStr (''0x'' @ fmt_04x (lunID AND 0xffff)
                            @ fmt_04x (drop_bit 16 lunID AND 0xffff) @ ''00000000'')))
      | VStr s \<Rightarrow>
          (case strconv_Atoi s of
             Inl err \<Rightarrow> Inl (Errorf ''lun_id cannot convert to int: %s'' [s])
           | Inr i \<Rightarrow> Inr (VInt i))
      | _ \<Rightarrow> Inl (Errorf ''lun_id should be int value: %#v'' []))"

fun formatLunIDs :: "val list \<Rightarrow> error + val list" where
  "formatLunIDs [] = Inr []"
| "formatLunIDs (x # xs) =
     (case formatLunID x of
        Inl err \<Rightarrow> Inl err
      | Inr xx \<Rightarrow> (case formatLunIDs xs of Inl err \<Rightarrow> Inl err | Inr processed \<Rightarrow> Inr (xx # processed)))"

definition ProcessLunID :: "val \<Rightarrow> error + val" where
  "ProcessLunID lunIDs =
     (case lunIDs of
        VIfaces ids \<Rightarrow> (case formatLunIDs ids of Inl err \<Rightarrow> Inl err | Inr processed \<Rightarrow> Inr (VIfaces processed))
      | _ \<Rightarrow> formatLunID lunIDs)"


section \<open>The host: interactions and their trace\<close>

text \<open>
  Everything the connector learns about the host comes from a system call or an external
  command, and the host changes under it (a device appears after a rescan). A run is
  modelled against an environment that answers each interaction from the trace of the
  interactions so far; the trace is the state threaded through every function, in the
  order of the calls. \<open>Log\<close> records a call of \<^verbatim>\<open>log.Printf\<close> or
  \<^verbatim>\<open>log.Print\<close> by its format text, \<open>Tick\<close> one wait on the ticker of
  \<^verbatim>\<open>RunWithRetry\<close> (the interval in seconds).
\<close>

datatype event =
    Stat string
  | Exec string "string list"
  | ExecTimeout nat string "string list"
  | EvalSymlinks string
  | Open string
  | Readdirnames string
  | Tick nat
  | Log string

type_synonym trace = "event list"

text \<open>
  \<open>os_Stat\<close>: whether \<^verbatim>\<open>os.Stat\<close> returns no error. \<open>combinedOutput\<close>:
  \<^verbatim>\<open>exec.Command(...).CombinedOutput()\<close>. \<open>timedOutput\<close>: a command started
  with separate buffers and left to finish or be killed at the time limit (seconds):
  the error of \<^verbatim>\<open>Start\<close>, or what standard output and standard error hold.
  \<open>evalSymlinks\<close>: \<^verbatim>\<open>filepath.EvalSymlinks\<close>. \<open>os_Open\<close>: the error of
  \<^verbatim>\<open>os.Open\<close>, if any. \<open>readdirnames\<close>: \<^verbatim>\<open>Readdirnames(-1)\<close> of the
  directory opened. \<open>parseFloatOk\<close>: whether
  \<^verbatim>\<open>strconv.ParseFloat(s, 64)\<close> accepts the text.
\<close>

record env =
  os_Stat :: "trace \<Rightarrow> string \<Rightarrow> bool"
  combinedOutput :: "trace \<Rightarrow> string \<Rightarrow> string list \<Rightarrow> string \<times> error option"
  timedOutput :: "trace \<Rightarrow> nat \<Rightarrow> string \<Rightarrow> string list \<Rightarrow> error + (string \<times> string)"
  evalSymlinks :: "trace \<Rightarrow> string \<Rightarrow> error + string"
  os_Open :: "trace \<Rightarrow> string \<Rightarrow> error option"
  readdirnames :: "trace \<Rightarrow> string \<Rightarrow> error + string list"
  parseFloatOk :: "string \<Rightarrow> bool"

text \<open>A run-time panic (a failed type assertion, an index out of range) ends the call.\<close>

datatype 'a outcome = Returns 'a | Panics string

definition bindP :: "'a outcome \<times> trace \<Rightarrow> ('a \<Rightarrow> trace \<Rightarrow> 'b outcome \<times> trace) \<Rightarrow> 'b outcome \<times> trace" where
  "bindP m f = (case m of (Returns a, tr) \<Rightarrow> f a tr | (Panics msg, tr) \<Rightarrow> (Panics msg, tr))"

definition logPrintf :: "string \<Rightarrow> trace \<Rightarrow> trace" where
  "logPrintf format tr = tr @ [Log format]"

text \<open>Go maps with string keys whose entries are built or counted: association lists.\<close>

fun mapSet :: "string \<Rightarrow> 'v \<Rightarrow> (string \<times> 'v) list \<Rightarrow> (string \<times> 'v) list" where
  "mapSet k v [] = [(k, v)]"
| "mapSet k v ((k', v') # m) = (if k = k' then (k, v) # m else (k', v') # mapSet k v m)"

definition mapGet :: "(string \<times> string) list \<Rightarrow> string \<Rightarrow> string" where
  "mapGet m k = (case map_of m k of None \<Rightarrow> [] | Some v \<Rightarrow> v)"

section \<open>Utilities (package os\_brick)\<close>

definition Execute :: "env \<Rightarrow> string \<Rightarrow> string list \<Rightarrow> trace \<Rightarrow> (string \<times> error option) \<times> trace" where
  "Execute h name arg tr = (combinedOutput h tr name arg, tr @ [Exec name arg])"

definition ExecWithTimeout ::
  "env \<Rightarrow> nat \<Rightarrow> string \<Rightarrow> string list \<Rightarrow> trace \<Rightarrow> (string \<times> error option) \<times> trace" where
  "ExecWithTimeout h timeout name args tr =
     (case timedOutput h tr timeout name args of
        Inl err \<Rightarrow> (([], Some err), tr @ [ExecTimeout timeout name args])
      | Inr (res, stderr) \<Rightarrow>
          (if 0 < length stderr then ((res, Some (ErrorsNew stderr)), tr @ [ExecTimeout timeout name args])
           else ((res, None), tr @ [ExecTimeout timeout name args])))"

definition IsFileExists :: "env \<Rightarrow> string \<Rightarrow> trace \<Rightarrow> bool \<times> trace" where
  "IsFileExists h file tr = (if os_Stat h tr file then (True, tr @ [Stat file]) else (False, tr @ [Stat file]))"

text \<open>
  \<^verbatim>\<open>RunWithRetry\<close>. The callback is a closure: \<open>'c\<close> holds the variables it
  captures and assigns, and a panic inside it ends the whole call. The loop after the
  first call waits on the ticker, gives up once \<open>tries\<close> has reached \<open>maxRetry\<close>,
  and calls again otherwise.
\<close>

function retryLoop ::
  "int \<Rightarrow> nat \<Rightarrow> (int \<Rightarrow> 'c \<times> trace \<Rightarrow> bool outcome \<times> 'c \<times> trace) \<Rightarrow> int \<Rightarrow> 'c \<times> trace
   \<Rightarrow> bool outcome \<times> 'c \<times> trace" where
  "retryLoop maxRetry interval exec tries (c, tr) =
     (if tries \<ge> maxRetry then (Returns False, c, tr @ [Tick interval])
      else (let r = exec tries (c, tr @ [Tick interval])
            in case fst r of
                 Panics msg \<Rightarrow> r
               | Returns True \<Rightarrow> r
               | Returns False \<Rightarrow> retryLoop maxRetry interval exec (tries + 1) (snd r)))"
  by pat_completeness auto
termination
  by (relation "measure (\<lambda>(maxRetry, interval, exec, tries, s). nat (maxRetry - tries))") auto

declare retryLoop.simps [simp del]

definition RunWithRetry ::
  "int \<Rightarrow> nat \<Rightarrow> (int \<Rightarrow> 'c \<times> trace \<Rightarrow> bool outcome \<times> 'c \<times> trace) \<Rightarrow> 'c \<times> trace
   \<Rightarrow> bool outcome \<times> 'c \<times> trace" where
  "RunWithRetry maxRetry interval exec s =
     (let r = exec 1 s
      in case fst r of
           Panics msg \<Rightarrow> r
         | Returns True \<Rightarrow> r
         | Returns False \<Rightarrow> retryLoop maxRetry interval exec 1 (snd r))"

definition filepath_EvalSymlinks :: "env \<Rightarrow> string \<Rightarrow> trace \<Rightarrow> (error + string) \<times> trace" where
  "filepath_EvalSymlinks h path tr = (evalSymlinks h tr path, tr @ [EvalSymlinks path])"

definition CheckValidDevice :: "env \<Rightarrow> string \<Rightarrow> trace \<Rightarrow> bool \<times> trace" where
  "CheckValidDevice h device tr =
     (case Execute h ''dd'' [''if='' @ device, ''of=/dev/null'', ''count=1''] tr of
        ((out, err), tr1) \<Rightarrow>
          (if err \<noteq> None then (False, logPrintf ''failed to access the device on the path '' tr1)
           else (True, tr1)))"

text \<open>
  \<^verbatim>\<open>IsNumeric\<close>: a \<^verbatim>\<open>float64\<close> is carried as the text it was parsed from; no
  control flow depends on its value.
\<close>

datatype float64 = Float string

definition IsNumeric :: "env \<Rightarrow> string \<Rightarrow> bool \<times> float64" where
  "IsNumeric h s = (if parseFloatOk h s then (True, Float s) else (False, Float ''0''))"

section \<open>Fibre Channel host utilities (package initiator)\<close>

text \<open>
  An HBA is a \<^verbatim>\<open>map[string]string\<close>; the connection descriptor is a
  \<^verbatim>\<open>map[string]interface{}\<close>, never iterated, so a partial function. Reading a
  missing key of either gives the zero value.
\<close>

type_synonym HBA = "(string \<times> string) list"

type_synonym props = "string \<rightharpoonup> val"

definition propGet :: "props \<Rightarrow> string \<Rightarrow> val" where
  "propGet m k = (case m k of None \<Rightarrow> VNil | Some v \<Rightarrow> v)"

definition FCHostSysFSPath :: string where
  "FCHostSysFSPath = ''/sys/class/fc_host''"

definition DeviceScanAttemptsDefault :: int where
  "DeviceScanAttemptsDefault = 3"

definition MultipathDeviceActions :: "string list" where
  "MultipathDeviceActions =
     [''unchanged:'', ''reject:'', ''reload:'', ''switchpg:'', ''rename:'', ''create:'', ''resize:'']"

definition HasFCSupport :: "env \<Rightarrow> trace \<Rightarrow> bool \<times> trace" where
  "HasFCSupport h tr = IsFileExists h FCHostSysFSPath tr"

text \<open>The loop of \<^verbatim>\<open>GetFCHBAs\<close> over the lines of the \<^verbatim>\<open>systool\<close> output.\<close>

fun parseHBALines :: "string list \<Rightarrow> HBA list \<Rightarrow> HBA \<Rightarrow> string \<Rightarrow> HBA list" where
  "parseHBALines [] hbas hba lastLine = hbas"
| "parseHBALines (l # ls) hbas hba lastLine =
     (let line = strings_TrimSpace l
      in if line = [] \<and> lastLine = []
         then (if 0 < length hba then parseHBALines ls (hbas @ [hba]) [] line
               else parseHBALines ls hbas hba line)
         else (let val = strings_Split line CHR ''=''
               in if length val = 2
                  then (let key = strings_ReplaceAll (strings_TrimSpace (val ! 0)) '' '' [];
                            value = strings_TrimSpace (val ! 1)
                        in parseHBALines ls hbas (mapSet key (strings_ReplaceAll value [CHR 0x22] []) hba) line)
                  else parseHBALines ls hbas hba line))"

definition GetFCHBAs :: "env \<Rightarrow> trace \<Rightarrow> (error + HBA list) outcome \<times> trace" where
  "GetFCHBAs h tr =
     (case HasFCSupport h tr of
        (False, tr1) \<Rightarrow> (Returns (Inl (Errorf ''fc not supported'' [])), tr1)
      | (True, tr1) \<Rightarrow>
          (case Execute h ''systool'' [''-c'', ''fc_host'', ''-v''] tr1 of
             ((out, Some err), tr2) \<Rightarrow> (Returns (Inl err), tr2)
           | ((out, None), tr2) \<Rightarrow>
               (if out = [] then (Returns (Inr []), tr2)
                else (let split = strings_Split out CHR 0x0A
                      in if length split < 2 then (Panics ''slice bounds out of range'', tr2)
                         else (Returns (Inr (parseHBALines (drop 2 split) [] [] [])), tr2)))))"

definition GetFCHBAsInfo :: "env \<Rightarrow> trace \<Rightarrow> (error + HBA list) outcome \<times> trace" where
  "GetFCHBAsInfo h tr =
     (case GetFCHBAs h tr of
        (Panics msg, tr1) \<Rightarrow> (Panics msg, tr1)
      | (Returns (Inl err), tr1) \<Rightarrow> (Returns (Inl err), tr1)
      | (Returns (Inr hbas), tr1) \<Rightarrow>
          (Returns (Inr (map (\<lambda>hba.
              [(''port_name'', strings_Replace (mapGet hba ''port_name'') ''0x'' [] 1),
               (''node_name'', strings_Replace (mapGet hba ''node_name'') ''0x'' [] 1),
               (''host_device'', mapGet hba ''ClassDevice''),
               (''device_path'', mapGet hba ''ClassDevicepath'')]) hbas)), tr1))"

definition EchoSCSICommand :: "env \<Rightarrow> string \<Rightarrow> string \<Rightarrow> trace \<Rightarrow> error option \<times> trace" where
  "EchoSCSICommand h path content tr =
     (case Execute h ''sh'' [''-c'', ''echo '' @ [CHR 0x27] @ content @ [CHR 0x27] @ '' > '' @ path] tr of
        ((out, err), tr1) \<Rightarrow> (err, tr1))"

text \<open>
  \<^verbatim>\<open>getHBAChannelSCSITargetLun\<close>. \<open>ctlsOfLines\<close> is its inner loop over the lines
  of one \<^verbatim>\<open>grep\<close> output, \<open>scanTargets\<close> its loop over the targets. The set of
  LUNs not found is a Go map used as a set: a list without repetition, in the order of
  insertion (Go leaves the order of iteration open).
\<close>

fun ctlsOfLines :: "string \<Rightarrow> string \<Rightarrow> string list \<Rightarrow> string list list outcome" where
  "ctlsOfLines path lun [] = Returns []"
| "ctlsOfLines path lun (line # rest) =
     (if strings_HasPrefix line path
      then (let segs = strings_Split line CHR ''/''
            in if length segs \<le> 4 then Panics ''index out of range''
               else (case ctlsOfLines path lun rest of
                       Panics msg \<Rightarrow> Panics msg
                     | Returns cs \<Rightarrow> Returns ((drop 1 (strings_Split (segs ! 4) CHR '':'') @ [lun]) # cs)))
      else ctlsOfLines path lun rest)"

definition setAdd :: "string \<Rightarrow> string list \<Rightarrow> string list" where
  "setAdd k ks = (if k \<in> set ks then ks else ks @ [k])"

fun scanTargets ::
  "env \<Rightarrow> string \<Rightarrow> Target list \<Rightarrow> string list list \<Rightarrow> string list \<Rightarrow> trace
   \<Rightarrow> (string list list \<times> string list) outcome \<times> trace" where
  "scanTargets h path [] ctls lunNotFound tr = (Returns (ctls, lunNotFound), tr)"
| "scanTargets h path (t # ts) ctls lunNotFound tr =
     (case Execute h ''sh''
             [''-c'', ''grep -Gil '' @ [CHR 0x22] @ fst t @ [CHR 0x22] @ '' '' @ path @ ''*/port_name''] tr of
        ((out, err), tr1) \<Rightarrow>
          (let tr2 = (if err \<noteq> None
                      then logPrintf ''could not get HBA channel and SCSI target ID, path: %s, resaon:%v'' tr1
                      else tr1);
               lunNotFound1 = (if err \<noteq> None then setAdd (snd t) lunNotFound else lunNotFound)
           in case ctlsOfLines path (snd t) (strings_Split out CHR 0x0A) of
                Panics msg \<Rightarrow> (Panics msg, tr2)
              | Returns cs \<Rightarrow> scanTargets h path ts (ctls @ cs) lunNotFound1 tr2))"

definition getHBAChannelSCSITargetLun ::
  "env \<Rightarrow> HBA \<Rightarrow> props \<Rightarrow> trace \<Rightarrow> (string list list \<times> string list) outcome \<times> trace" where
  "getHBAChannelSCSITargetLun h hba connectionProperties tr =
     (let tr1 = logPrintf ''getHBAChannelSCSITargetLun: HBA: %#v, connProp: %#v'' tr
      in case propGet connectionProperties ''targets'' of
           VTargets targets0 \<Rightarrow>
             (let override =
                    (if connectionProperties ''initiator_target_map'' \<noteq> None
                     then (case connectionProperties ''initiator_target_lun_map'' of
                             Some (VIfaceMap lm) \<Rightarrow> map_of lm (mapGet hba ''port_name'')
                           | _ \<Rightarrow> None)
                     else None);
                  hostDevice0 = mapGet hba ''host_device'';
                  hostDevice = (if map_of hba ''host_device'' \<noteq> None \<and> 4 < length hostDevice0
                                then drop 4 hostDevice0 else hostDevice0);
                  path = ''/sys/class/fc_transport/target'' @ hostDevice @ '':''
              in case override of
                   None \<Rightarrow> scanTargets h path targets0 [] [] tr1
                 | Some (VTargets targets1) \<Rightarrow> scanTargets h path targets1 [] [] tr1
                 | Some _ \<Rightarrow> (Panics ''interface conversion: not []Target'', tr1))
         | _ \<Rightarrow> (Panics ''interface conversion: not []Target'', tr1))"

text \<open>
  \<^verbatim>\<open>RescanHosts\<close>. \<open>scanCtls\<close> is the loop over the triples of one entry,
  \<open>scanProcess\<close> the loop over the entries of \<open>process\<close>, \<open>rescanLoop\<close> the loop
  over the HBAs: the loop over \<open>process\<close> stands inside it, as in the source. An entry
  pairs an HBA with its triples; the two dynamic types the source gives the triples
  (\<^verbatim>\<open>[][]string\<close> and \<^verbatim>\<open>[]interface{}\<close>) are scanned by the same statements. The
  list \<open>newHBAs\<close> is computed for a log line only and left out.
\<close>

fun scanCtls :: "env \<Rightarrow> HBA \<Rightarrow> string list list \<Rightarrow> trace \<Rightarrow> unit outcome \<times> trace" where
  "scanCtls h hba [] tr = (Returns (), tr)"
| "scanCtls h hba (c # cs) tr =
     (if length c < 3 then (Panics ''index out of range'', tr)
      else (let tr1 = logPrintf ''scanning host:%v, wwnn:%s, c:%v, t:%v, l:%v'' tr
            in case EchoSCSICommand h (''/sys/class/scsi_host/'' @ mapGet hba ''host_device'' @ ''/scan'')
                      (c ! 0 @ '' '' @ c ! 1 @ '' '' @ c ! 2) tr1 of
                 (Some err, tr2) \<Rightarrow> scanCtls h hba cs (logPrintf ''failed scan scsi device: %v'' tr2)
               | (None, tr2) \<Rightarrow> scanCtls h hba cs tr2))"

fun scanProcess :: "env \<Rightarrow> (HBA \<times> string list list) list \<Rightarrow> trace \<Rightarrow> unit outcome \<times> trace" where
  "scanProcess h [] tr = (Returns (), tr)"
| "scanProcess h (p # ps) tr =
     (case scanCtls h (fst p) (snd p) tr of
        (Panics msg, tr1) \<Rightarrow> (Panics msg, tr1)
      | (Returns u, tr1) \<Rightarrow> scanProcess h ps tr1)"

fun rescanLoop ::
  "env \<Rightarrow> props \<Rightarrow> bool \<Rightarrow> HBA list \<Rightarrow> (HBA \<times> string list list) list
   \<Rightarrow> (HBA \<times> string list list) list \<Rightarrow> trace \<Rightarrow> unit outcome \<times> trace" where
  "rescanLoop h connProperties broadScan [] process skipped tr = (Returns (), tr)"
| "rescanLoop h connProperties broadScan (hba # hbas) process skipped tr =
     (case getHBAChannelSCSITargetLun h hba connProperties tr of
        (Panics msg, tr1) \<Rightarrow> (Panics msg, tr1)
      | (Returns (ctls, lunsWildcards), tr1) \<Rightarrow>
          (let process1 = (if 0 < length ctls then process @ [(hba, ctls)] else process);
               tr2 = (if 0 < length ctls then tr1
                      else if \<not> broadScan
                      then logPrintf ''skipping HBA %s, nothing to scan, target port not connected to initiator'' tr1
                      else tr1);
               skipped1 = (if 0 < length ctls then skipped
                           else if \<not> broadScan then skipped
                           else if length process = 0
                           then skipped @ [(hba, map (\<lambda>k. [''-'', ''-'', k]) lunsWildcards)]
                           else skipped);
               process2 = (if length process1 = 0 then skipped1 else process1)
           in case scanProcess h process2 tr2 of
                (Panics msg, tr3) \<Rightarrow> (Panics msg, tr3)
              | (Returns u, tr3) \<Rightarrow> rescanLoop h connProperties broadScan hbas process2 skipped1 tr3))"

definition RescanHosts :: "env \<Rightarrow> HBA list \<Rightarrow> props \<Rightarrow> trace \<Rightarrow> unit outcome \<times> trace" where
  "RescanHosts h hbas connProperties tr =
     (let tr1 = logPrintf ''rescaning HBAs %v with connection properties %#v'' tr;
          tr2 = (if connProperties ''initiator_target_lun_map'' \<noteq> None
                 then logPrintf ''using initiator target map to exclude HBAs: %v'' tr1 else tr1)
      in case connProperties ''enable_wildcard_scan'' of
           None \<Rightarrow> rescanLoop h connProperties True hbas [] [] tr2
         | Some (VBool ews) \<Rightarrow> rescanLoop h connProperties ews hbas [] [] tr2
         | Some _ \<Rightarrow> (Panics ''interface conversion: not bool'', tr2))"

section \<open>SCSI and multipath utilities (initiator/linuxscsi.go)\<close>

text \<open>
  The two regular expressions of the package, written out. \<open>MultipathErrorRegex\<close> is
  \<^verbatim>\<open>\w{3} \d+ \d\d:\d\d:\d\d \|.*$\<close>: \<open>errorRegexAt\<close> matches it at the start of
  a text, \<open>matchMultipathError\<close> anywhere (\<^verbatim>\<open>MatchString\<close>). The run of digits
  is followed by a space, so it is the longest one; \<^verbatim>\<open>.*$\<close> reaches the end of
  the text unless a line feed stands in the way.
\<close>

definition isWord :: "char \<Rightarrow> bool" where
  "isWord c = (c \<in> set (''0123456789_'' @ asciiUpper @ asciiLower))"

definition errorRegexAt :: "string \<Rightarrow> bool" where
  "errorRegexAt s =
     (case s of
        w1 # w2 # w3 # sp # rest \<Rightarrow>
          isWord w1 \<and> isWord w2 \<and> isWord w3 \<and> sp = CHR '' ''
          \<and> takeWhile isDigit rest \<noteq> []
          \<and> (case dropWhile isDigit rest of
                s1 # a # b # c1 # c # d # c2 # e # f # s2 # bar # tail \<Rightarrow>
                  s1 = CHR '' '' \<and> isDigit a \<and> isDigit b \<and> c1 = CHR '':'' \<and> isDigit c \<and> isDigit d
                  \<and> c2 = CHR '':'' \<and> isDigit e \<and> isDigit f \<and> s2 = CHR '' '' \<and> bar = CHR ''|''
                  \<and> CHR 0x0A \<notin> set tail
              | _ \<Rightarrow> False)
      | _ \<Rightarrow> False)"

fun matchMultipathError :: "string \<Rightarrow> bool" where
  "matchMultipathError [] = False"
| "matchMultipathError (c # cs) = (errorRegexAt (c # cs) \<or> matchMultipathError cs)"

text \<open>
  \<open>MultipathWWIDRegex\<close> is \<^verbatim>\<open>\((?P<wwid>.+)\)\<close>. \<open>wwidAt\<close> takes the text after
  an opening parenthesis: the group is greedy, so it ends before the last closing
  parenthesis of the line, and must hold one character at least.
  \<open>findWWIDSubmatch\<close> is \<^verbatim>\<open>FindStringSubmatch\<close>: the leftmost match, as the whole
  match and the group, or the empty list.
\<close>

definition wwidAt :: "string \<Rightarrow> string option" where
  "wwidAt rest =
     (let seg = takeWhile (\<lambda>c. c \<noteq> CHR 0x0A) rest;
          body = rev (dropWhile (\<lambda>c. c \<noteq> CHR '')'') (rev seg))
      in if 2 \<le> length body then Some (butlast body) else None)"

fun findWWIDSubmatch :: "string \<Rightarrow> string list" where
  "findWWIDSubmatch [] = []"
| "findWWIDSubmatch (c # cs) =
     (if c = CHR ''(''
      then (case wwidAt cs of
              Some w \<Rightarrow> [''('' @ w @ '')'', w]
            | None \<Rightarrow> findWWIDSubmatch cs)
      else findWWIDSubmatch cs)"

definition GetSCSIWWN :: "env \<Rightarrow> string \<Rightarrow> trace \<Rightarrow> (string \<times> error option) \<times> trace" where
  "GetSCSIWWN h path tr =
     (case Execute h ''/lib/udev/scsi_id'' [''--page'', ''0x83'', ''--whitelisted'', path] tr of
        ((out, err), tr1) \<Rightarrow> ((strings_TrimSpace out, err), tr1))"

definition WaitForPath :: "env \<Rightarrow> string \<Rightarrow> trace \<Rightarrow> bool \<times> trace" where
  "WaitForPath h path tr =
     (case IsFileExists h path tr of
        (True, tr1) \<Rightarrow> (True, tr1)
      | (False, tr1) \<Rightarrow>
          (case RunWithRetry 3 1
                  (\<lambda>n s. case IsFileExists h path (snd s) of (b, t) \<Rightarrow> (Returns b, (), t)) ((), tr1) of
             (Returns b, c, tr2) \<Rightarrow> (b, tr2)
           | (Panics msg, c, tr2) \<Rightarrow> (False, tr2)))"

definition FindMultipathDevicePath :: "env \<Rightarrow> string \<Rightarrow> trace \<Rightarrow> (error + string) \<times> trace" where
  "FindMultipathDevicePath h deviceWwn tr =
     (case WaitForPath h (''/dev/disk/by-id/dm-uuid-mpath-'' @ deviceWwn) tr of
        (True, tr1) \<Rightarrow> (Inr (''/dev/disk/by-id/dm-uuid-mpath-'' @ deviceWwn), tr1)
      | (False, tr1) \<Rightarrow>
          (case WaitForPath h (''/dev/mapper/'' @ deviceWwn) tr1 of
             (True, tr2) \<Rightarrow> (Inr (''/dev/mapper/'' @ deviceWwn), tr2)
           | (False, tr2) \<Rightarrow>
               (Inl (Errorf ''couldn't find a valid multipath device path for %s'' [deviceWwn]), tr2)))"

text \<open>
  \<^verbatim>\<open>FindMultipathDevice\<close>. A member leg is a \<^verbatim>\<open>map[string]string\<close> with the keys
  of the literal; the result map has four fixed keys, here a record. \<open>parseDeviceLines\<close>
  is the loop over \<^verbatim>\<open>newLines[3:]\<close>.
\<close>

type_synonym MultipathDevice = "(string \<times> string) list"

record MultipathInfo =
  mp_device :: string
  mp_id :: string
  mp_name :: string
  mp_devices :: "MultipathDevice list"

fun parseDeviceLines :: "string list \<Rightarrow> MultipathDevice list outcome" where
  "parseDeviceLines [] = Returns []"
| "parseDeviceLines (l # ls) =
     (if strings_Contains l ''policy'' then parseDeviceLines ls
      else (let devLine = strings_TrimLeft l [CHR '' '', CHR ''|'', CHR ''-'', CHR 0x60];
                devInfo = strings_Split devLine CHR '' '';
                address = strings_Split (devInfo ! 0) CHR '':''
            in if length devInfo < 2 \<or> length address < 4 then Panics ''index out of range''
               else (case parseDeviceLines ls of
                       Panics msg \<Rightarrow> Panics msg
                     | Returns devices \<Rightarrow>
                         Returns ([(''device'', ''/dev/'' @ devInfo ! 1),
                                   (''host'', address ! 0),
                                   (''channel'', address ! 1),
                                   (''id'', address ! 2),
                                   (''lun'', address ! 3)] # devices))))"

definition FindMultipathDevice ::
  "env \<Rightarrow> string \<Rightarrow> trace \<Rightarrow> (error + MultipathInfo option) outcome \<times> trace" where
  "FindMultipathDevice h deviceName tr =
     (case Execute h ''multipath'' [''-l'', deviceName] tr of
        ((out, Some err), tr1) \<Rightarrow> (Returns (Inl err), tr1)
      | ((out, None), tr1) \<Rightarrow>
          (if out = [] then (Returns (Inr None), tr1)
           else (let lines = strings_Split (strings_TrimSpace out) CHR 0x0A;
                     newLines = filter (\<lambda>l. l \<noteq> [] \<and> \<not> matchMultipathError l) lines
                 in if length newLines = 0 then (Returns (Inr None), tr1)
                    else (let ns = strings_Split (newLines ! 0) CHR '' ''
                          in if ns ! 0 \<in> set MultipathDeviceActions \<and> length ns < 2
                             then (Panics ''index out of range'', tr1)
                             else (let mDevName = (if ns ! 0 \<in> set MultipathDeviceActions then ns ! 1 else ns ! 0);
                                       mDev = ''/dev/mapper/'' @ mDevName
                                   in case IsFileExists h mDev tr1 of
                                        (False, tr2) \<Rightarrow>
                                          (Returns (Inl (Errorf ''couldn't find multipath device %s'' [mDev])), tr2)
                                      | (True, tr2) \<Rightarrow>
                                          (let wwidSearch = findWWIDSubmatch (newLines ! 0);
                                               mDevID = (if 0 < length wwidSearch then wwidSearch ! 1 else mDevName)
                                           in if length newLines < 3 then (Panics ''slice bounds out of range'', tr2)
                                              else (case parseDeviceLines (drop 3 newLines) of
                                                      Panics msg \<Rightarrow> (Panics msg, tr2)
                                                    | Returns devices \<Rightarrow>
                                                        (if mDev \<noteq> []
                                                         then (Returns (Inr (Some \<lparr>mp_device = mDev, mp_id = mDevID,
                                                                  mp_name = mDevName, mp_devices = devices\<rparr>)), tr2)
                                                         else (Returns (Inr None), tr2)))))))))"

text \<open>
  \<^verbatim>\<open>WaitForRW\<close>. \<open>checkBlkdevs\<close> is its loop over the lines of the
  \<^verbatim>\<open>lsblk\<close> output; \<^verbatim>\<open>strings.Split\<close> never returns an empty slice, so the
  first and the last part exist.
\<close>

fun checkBlkdevs :: "env \<Rightarrow> string \<Rightarrow> string list \<Rightarrow> trace \<Rightarrow> error option \<times> trace" where
  "checkBlkdevs h deviceWwn [] tr = (None, logPrintf ''Block device %s is not read-only.'' tr)"
| "checkBlkdevs h deviceWwn (l # ls) tr =
     (let blkdevParts = strings_Split l CHR '' '';
          ro = last blkdevParts;
          name = hd blkdevParts
      in case strconv_Atoi ro of
           Inl err \<Rightarrow> (Some err, tr)
         | Inr roi \<Rightarrow>
             (if strings_Contains name deviceWwn \<and> roi = 1
              then (case Execute h ''multipath'' [''-r''] (logPrintf ''block device %s is read-only'' tr) of
                      ((out, err), tr1) \<Rightarrow> (err, tr1))
              else checkBlkdevs h deviceWwn ls tr))"

definition WaitForRW :: "env \<Rightarrow> string \<Rightarrow> string \<Rightarrow> trace \<Rightarrow> error option \<times> trace" where
  "WaitForRW h deviceWwn devicePath tr =
     (case Execute h ''lsblk'' [''-o'', ''NAME,RO'', ''-l'', ''-n'']
             (logPrintf ''checking to see if %s is read-only'' tr) of
        ((out, Some err), tr1) \<Rightarrow> (Some err, tr1)
      | ((out, None), tr1) \<Rightarrow> checkBlkdevs h deviceWwn (strings_Split out CHR 0x0A) tr1)"

definition FlushDeviceIO :: "env \<Rightarrow> string \<Rightarrow> trace \<Rightarrow> error option \<times> trace" where
  "FlushDeviceIO h device tr =
     (case IsFileExists h device tr of
        (True, tr1) \<Rightarrow>
          (case RunWithRetry 3 10
                  (\<lambda>n s. case ExecWithTimeout h 180 ''blockdev'' [''--flushbufs'', device] (snd s) of
                           ((out, Some err), t) \<Rightarrow>
                             (Returns False, (), logPrintf ''failed execute blockdev --flushbufs %s: %s, ERROR: %v'' t)
                         | ((out, None), t) \<Rightarrow>
                             (Returns True, (), logPrintf ''execute blockdev --flushbufs %s: %s'' t)) ((), tr1) of
             (r, c, tr2) \<Rightarrow> (None, tr2))
      | (False, tr1) \<Rightarrow> (None, tr1))"

definition RemoveSCSIDevice :: "env \<Rightarrow> string \<Rightarrow> bool \<Rightarrow> trace \<Rightarrow> error option \<times> trace" where
  "RemoveSCSIDevice h device flush tr =
     (let path = ''/sys/block/'' @ strings_Replace device ''/dev/'' [] 1 @ ''/device/delete''
      in case IsFileExists h path tr of
           (True, tr1) \<Rightarrow>
             (if flush
              then (case FlushDeviceIO h device tr1 of
                      (Some err, tr2) \<Rightarrow> (Some err, tr2)
                    | (None, tr2) \<Rightarrow> EchoSCSICommand h path ''1'' tr2)
              else EchoSCSICommand h path ''1'' tr1)
         | (False, tr1) \<Rightarrow> (None, tr1))"

definition GetNameFromPath :: "env \<Rightarrow> string \<Rightarrow> trace \<Rightarrow> string \<times> trace" where
  "GetNameFromPath h path tr =
     (case filepath_EvalSymlinks h path tr of
        (Inl err, tr1) \<Rightarrow> ([], logPrintf ''failed get realpath for path: %s, ERROR: %v'' tr1)
      | (Inr name, tr1) \<Rightarrow> (if strings_HasPrefix name ''/dev/'' then (name, tr1) else ([], tr1)))"

definition FlushMultipathDevice :: "env \<Rightarrow> string \<Rightarrow> trace \<Rightarrow> trace" where
  "FlushMultipathDevice h wwn tr =
     (case RunWithRetry 3 10
             (\<lambda>n s. case ExecWithTimeout h 180 ''multipath'' [''-f'', wwn] (snd s) of
                      ((out, err), t) \<Rightarrow> (Returns (err = None), (), logPrintf ''exec multipath -f %s: %s'' t))
             ((), logPrintf ''flush multipath device %s'' tr) of
        (r, c, tr1) \<Rightarrow> tr1)"

text \<open>\<^verbatim>\<open>GetDeviceInfo\<close>; \<open>deviceInfoItems\<close> is its loop over the tokens of the line.\<close>

fun deviceInfoItems :: "string list \<Rightarrow> (string \<times> string) list \<Rightarrow> (string \<times> string) list" where
  "deviceInfoItems [] deviceInfo = deviceInfo"
| "deviceInfoItems (item # info) deviceInfo =
     (if strings_Contains item ''=''
      then (let pair = strings_Split item CHR ''=''
            in deviceInfoItems info (mapSet (pair ! 0) (pair ! 1) deviceInfo))
      else if strings_Contains item ''scsi''
      then deviceInfoItems info (mapSet ''host'' (strings_ReplaceAll item ''scsi'' []) deviceInfo)
      else deviceInfoItems info deviceInfo)"

definition GetDeviceInfo :: "env \<Rightarrow> string \<Rightarrow> trace \<Rightarrow> (error + (string \<times> string) list) \<times> trace" where
  "GetDeviceInfo h device tr =
     (case Execute h ''sg_scan'' [device] tr of
        ((out, err), tr1) \<Rightarrow>
          (let tr2 = logPrintf ''exec sg_scan %s: %s'' tr1;
               deviceInfo = [(''device'', device), (''host'', []), (''channel'', []), (''id'', []), (''lun'', [])]
           in case err of
                Some e \<Rightarrow> (Inl (ErrorfWrap ''failed execute sg_scan %s: %v'' [device] e), tr2)
              | None \<Rightarrow>
                  (if out \<noteq> []
                   then (Inr (deviceInfoItems
                           (strings_Split (strings_ReplaceAll (strings_TrimSpace out) (device @ '': '') []) CHR '' '')
                           deviceInfo), tr2)
                   else (Inr deviceInfo, tr2))))"

definition GetDevPath :: "props \<Rightarrow> (string \<times> string) list \<Rightarrow> string" where
  "GetDevPath connProperties deviceInfo =
     (case map_of deviceInfo ''path'' of
        Some path \<Rightarrow> path
      | None \<Rightarrow> (case connProperties ''device_path'' of Some (VStr path) \<Rightarrow> path | _ \<Rightarrow> []))"

definition RequiresFlush :: "env \<Rightarrow> string \<Rightarrow> string \<Rightarrow> bool \<Rightarrow> trace \<Rightarrow> (error + bool) \<times> trace" where
  "RequiresFlush h devicePath pathUsed wasMultipath tr =
     (if pathUsed = [] \<or> wasMultipath then (Inr False, tr)
      else (case filepath_EvalSymlinks h devicePath tr of
              (Inl err, tr1) \<Rightarrow> (Inl (ErrorfWrap ''failed get realpath for path:%s: %v'' [devicePath] err), tr1)
            | (Inr rPath, tr1) \<Rightarrow>
                (case filepath_EvalSymlinks h pathUsed tr1 of
                   (Inl err, tr2) \<Rightarrow> (Inl (ErrorfWrap ''failed get realpath for path:%s: %v'' [pathUsed] err), tr2)
                 | (Inr rPathUsed, tr2) \<Rightarrow>
                     (Inr (rPathUsed = rPath \<or> fst (filepath_Split rPathUsed) \<noteq> ''/dev''), tr2))))"

definition GetDeviceSize :: "env \<Rightarrow> string \<Rightarrow> trace \<Rightarrow> (error + float64) \<times> trace" where
  "GetDeviceSize h path tr =
     (case Execute h ''blockdev'' [''--getsize64'', path] tr of
        ((out, Some err), tr1) \<Rightarrow> (Inl (ErrorfWrap ''failed execute blockdev --getsize64 %s: %v'' [path] err), tr1)
      | ((out, None), tr1) \<Rightarrow>
          (case IsNumeric h (strings_TrimSpace out) of
             (True, f) \<Rightarrow> (Inr f, tr1)
           | (False, f) \<Rightarrow> (Inl (Errorf ''device size not numeric: %s'' [strings_TrimSpace out]), tr1)))"

definition MultipathResizeMap :: "env \<Rightarrow> string \<Rightarrow> trace \<Rightarrow> (string \<times> error option) \<times> trace" where
  "MultipathResizeMap h wwn tr = Execute h ''multipathd'' [''resize'', ''map'', wwn] tr"

definition MultipathReConfigure :: "env \<Rightarrow> trace \<Rightarrow> error option \<times> trace" where
  "MultipathReConfigure h tr =
     (case Execute h ''multipathd'' [''reconfigure''] tr of
        ((out, err), tr1) \<Rightarrow> (err, logPrintf ''execute multipathd reconfigure: %s'' tr1))"

text \<open>
  \<^verbatim>\<open>DoExtendVolume\<close>; \<open>extendPaths\<close> is its loop, which carries \<open>newSize\<close>. A
  failed second size query has already assigned the zero it returns.
\<close>

fun extendPaths :: "env \<Rightarrow> string list \<Rightarrow> float64 \<Rightarrow> trace \<Rightarrow> float64 \<times> trace" where
  "extendPaths h [] newSize tr = (newSize, tr)"
| "extendPaths h (volumePath # rest) newSize tr =
     (case GetDeviceInfo h volumePath tr of
        (Inl err, tr1) \<Rightarrow>
          extendPaths h rest newSize (logPrintf ''failed get device info for path: %s, ERROR: %v'' tr1)
      | (Inr device, tr1) \<Rightarrow>
          (let tr2 = logPrintf ''volume device info: %#v'' tr1;
               deviceId = mapGet device ''host'' @ '':'' @ mapGet device ''channel'' @ '':''
                            @ mapGet device ''id'' @ '':'' @ mapGet device ''lun'';
               scsiPath = ''/sys/bus/scsi/drivers/sd/'' @ deviceId
           in case GetDeviceSize h volumePath tr2 of
                (Inl err, tr3) \<Rightarrow>
                  extendPaths h rest newSize (logPrintf ''failed get device size for path: %s, ERROR: %v'' tr3)
              | (Inr size1, tr3) \<Rightarrow>
                  (case EchoSCSICommand h (scsiPath @ ''/rescan'') ''1'' (logPrintf ''starting size: %f'' tr3) of
                     (err, tr4) \<Rightarrow>
                       (let tr5 = (if err \<noteq> None then logPrintf ''failed echo '1' > %s, ERROR: %s'' tr4 else tr4)
                        in case GetDeviceSize h volumePath tr5 of
                             (Inl err2, tr6) \<Rightarrow>
                               extendPaths h rest (Float ''0'')
                                 (logPrintf ''failed get device size for path: %s, ERROR: %s'' tr6)
                           | (Inr newSize1, tr6) \<Rightarrow>
                               extendPaths h rest newSize1
                                 (logPrintf ''volume size after scsi device rescan %f'' tr6)))))"

definition DoExtendVolume ::
  "env \<Rightarrow> string list \<Rightarrow> bool \<Rightarrow> trace \<Rightarrow> (error + float64) outcome \<times> trace" where
  "DoExtendVolume h volumePaths useMultipath tr =
     (case extendPaths h volumePaths (Float ''0'') (logPrintf ''extending volume %v'' tr) of
        (newSize, tr1) \<Rightarrow>
          (case volumePaths of
             [] \<Rightarrow> (Panics ''index out of range'', tr1)
           | first # others \<Rightarrow>
               (case GetSCSIWWN h first tr1 of
                  ((scsiWWN, Some err), tr2) \<Rightarrow>
                    (Returns (Inl (Errorf ''failed get scsi wwn for path: %s'' [first])), tr2)
                | ((scsiWWN, None), tr2) \<Rightarrow>
                    (if useMultipath
                     then (case FindMultipathDevicePath h scsiWWN tr2 of
                             (Inl err, tr3) \<Rightarrow>
                               (Returns (Inl (ErrorfWrap ''failed find multipath device path for wwn %s : %v'' [scsiWWN] err)), tr3)
                           | (Inr mPathDevice, tr3) \<Rightarrow>
                               (if mPathDevice \<noteq> []
                                then (case MultipathReConfigure h tr3 of
                                        (Some err, tr4) \<Rightarrow>
                                          (Returns (Inl (ErrorfWrap ''failed reconfigure multipath: %v'' [] err)), tr4)
                                      | (None, tr4) \<Rightarrow>
                                          (case GetDeviceSize h mPathDevice tr4 of
                                             (Inl err, tr5) \<Rightarrow>
                                               (Returns (Inl (Errorf ''failed get device size for path %s after reconfigure: '' [mPathDevice])), tr5)
                                           | (Inr size1, tr5) \<Rightarrow>
                                               (case MultipathResizeMap h scsiWWN (logPrintf ''mpath %s current size: %f'' tr5) of
                                                  ((result, Some err), tr6) \<Rightarrow>
                                                    (Returns (Inl (ErrorfWrap ''failed multipath resize map: %v'' [] err)), tr6)
                                                | ((result, None), tr6) \<Rightarrow>
                                                    (if strings_Contains result ''fail''
                                                     then (Returns (Inl (Errorf ''multipathd failed to update the size mapping of multipath device %s volume %v'' [scsiWWN])), tr6)
                                                     else (case GetDeviceSize h mPathDevice tr6 of
                                                             (Inl err, tr7) \<Rightarrow>
                                                               (Returns (Inl (Errorf ''failed get device size for path %s after resize map: '' [mPathDevice])), tr7)
                                                           | (Inr newSize2, tr7) \<Rightarrow> (Returns (Inr newSize2), tr7))))))
                                else (Returns (Inr newSize), tr3)))
                     else (Returns (Inr newSize), tr2)))))"

section \<open>The Fibre Channel connector (package connectors)\<close>

text \<open>A candidate device is a triple (PCI id, target WWPN with \<open>0x\<close>, LUN) of strings.\<close>

type_synonym Device = "string \<times> string \<times> string"

text \<open>
  \<^verbatim>\<open>getPCINum\<close>; \<open>pciNumOf\<close> is its loop over the path segments, with the segment
  before the current one (none before the first: the source then indexes at -1).
\<close>

fun pciNumOf :: "string option \<Rightarrow> string list \<Rightarrow> string outcome" where
  "pciNumOf prev [] = Returns []"
| "pciNumOf prev (v # vs) =
     (if strings_HasPrefix v ''net'' \<or> strings_HasPrefix v ''host''
      then (case prev of None \<Rightarrow> Panics ''index out of range [-1]'' | Some p \<Rightarrow> Returns p)
      else pciNumOf (Some v) vs)"

definition getPCINum :: "HBA \<Rightarrow> string outcome" where
  "getPCINum hba =
     (case map_of hba ''device_path'' of
        Some devicePath \<Rightarrow> pciNumOf None (strings_Split devicePath CHR ''/'')
      | None \<Rightarrow> Returns [])"

fun getPossibleDevices :: "HBA list \<Rightarrow> Target list \<Rightarrow> Device list outcome" where
  "getPossibleDevices [] targets = Returns []"
| "getPossibleDevices (hba # hbas) targets =
     (case getPCINum hba of
        Panics msg \<Rightarrow> Panics msg
      | Returns pciNum \<Rightarrow>
          (case getPossibleDevices hbas targets of
             Panics msg \<Rightarrow> Panics msg
           | Returns rawDevices \<Rightarrow>
               Returns ((if pciNum \<noteq> []
                         then map (\<lambda>t. (pciNum, ''0x'' @ strings_ToLower (fst t), snd t)) targets
                         else []) @ rawDevices)))"

text \<open>
  The pattern of \<^verbatim>\<open>getPossibleHostPathPrefix\<close>,
  \<^verbatim>\<open>(.*)pci-[a-z0-9]{4}:[a-z0-9]{2}:[a-z0-9]{2}.[a-z0-9]+-fc-0x[a-z0-9]{16}-lun-[a-z0-9]+\<close>.
  \<open>pciTailAt\<close> matches what follows the group at the start of a text. The group is
  greedy and cannot cross a line feed: on the first line that holds a match, it is the
  text before the last place where the tail matches. \<open>findHostPathPrefix\<close> is the
  group of \<^verbatim>\<open>FindStringSubmatch\<close>, when the pattern matches.
\<close>

definition isLowerAlnum :: "char \<Rightarrow> bool" where
  "isLowerAlnum c = (c \<in> set (asciiLower @ ''0123456789''))"

definition pciTailAt :: "string \<Rightarrow> bool" where
  "pciTailAt s =
     (strings_HasPrefix s ''pci-''
      \<and> (let s1 = drop 4 s
         in 11 \<le> length s1
            \<and> list_all isLowerAlnum (take 4 s1) \<and> s1 ! 4 = CHR '':''
            \<and> list_all isLowerAlnum (take 2 (drop 5 s1)) \<and> s1 ! 7 = CHR '':''
            \<and> list_all isLowerAlnum (take 2 (drop 8 s1)) \<and> s1 ! 10 \<noteq> CHR 0x0A
            \<and> takeWhile isLowerAlnum (drop 11 s1) \<noteq> []
            \<and> (let s3 = dropWhile isLowerAlnum (drop 11 s1)
               in strings_HasPrefix s3 ''-fc-0x''
                  \<and> 16 \<le> length (drop 6 s3)
                  \<and> list_all isLowerAlnum (take 16 (drop 6 s3))
                  \<and> strings_HasPrefix (drop 22 s3) ''-lun-''
                  \<and> (case drop 27 s3 of [] \<Rightarrow> False | c # cs \<Rightarrow> isLowerAlnum c))))"

definition lastTailIndex :: "string \<Rightarrow> nat option" where
  "lastTailIndex l =
     (case filter (\<lambda>i. pciTailAt (drop i l)) (rev [0..<Suc (length l)]) of
        [] \<Rightarrow> None
      | i # is \<Rightarrow> Some i)"

fun firstLinePrefix :: "string list \<Rightarrow> string option" where
  "firstLinePrefix [] = None"
| "firstLinePrefix (l # ls) =
     (case lastTailIndex l of Some i \<Rightarrow> Some (take i l) | None \<Rightarrow> firstLinePrefix ls)"

definition findHostPathPrefix :: "string \<Rightarrow> string option" where
  "findHostPathPrefix p = firstLinePrefix (strings_Split p CHR 0x0A)"

fun firstPrefix :: "string list \<Rightarrow> trace \<Rightarrow> (error + string) \<times> trace" where
  "firstPrefix [] tr =
     (Inl (Errorf ''no matched path found under search path:%s'' [''/dev/disk/by-path'']), tr)"
| "firstPrefix (p # paths) tr =
     (case findHostPathPrefix p of
        Some pre \<Rightarrow> (Inr pre, logPrintf ''possible host path and prefix: %#v'' tr)
      | None \<Rightarrow> firstPrefix paths (logPrintf ''possible host path and prefix: %#v'' tr))"

definition getPossibleHostPathPrefix :: "env \<Rightarrow> trace \<Rightarrow> (error + string) \<times> trace" where
  "getPossibleHostPathPrefix h tr =
     (let searchPath = ''/dev/disk/by-path''
      in case os_Open h tr searchPath of
           Some err \<Rightarrow> (Inl (ErrorfWrap ''failed read dir %s: %v'' [searchPath] err), tr @ [Open searchPath])
         | None \<Rightarrow>
             (case readdirnames h (tr @ [Open searchPath]) searchPath of
                Inl err \<Rightarrow>
                  (Inl (ErrorfWrap ''failed read dirnames for dir %s: %v'' [searchPath] err),
                   tr @ [Open searchPath, Readdirnames searchPath])
              | Inr paths \<Rightarrow> firstPrefix paths (tr @ [Open searchPath, Readdirnames searchPath])))"

text \<open>The verb \<^verbatim>\<open>%v\<close> on what \<^verbatim>\<open>ProcessLunID\<close> returns.\<close>

fun joinSpace :: "string list \<Rightarrow> string" where
  "joinSpace [] = []"
| "joinSpace [x] = x"
| "joinSpace (x # y # ys) = x @ '' '' @ joinSpace (y # ys)"

fun fmt_v :: "val \<Rightarrow> string" where
  "fmt_v (VInt n) = fmt_d n"
| "fmt_v (VStr s) = s"
| "fmt_v (VIfaces vs) = ''['' @ joinSpace (map fmt_v vs) @ '']''"
| "fmt_v v = ''<nil>''"

definition hostDevicePath :: "string \<Rightarrow> Device \<Rightarrow> val \<Rightarrow> string" where
  "hostDevicePath prefix d lunID =
     ''/dev/disk/by-path/'' @ prefix @ ''pci-'' @ fst d @ ''-fc-'' @ fst (snd d) @ ''-lun-'' @ fmt_v lunID"

text \<open>
  \<^verbatim>\<open>getHostDevices\<close>; \<open>hostDevicesLoop\<close> is its loop, carrying \<open>prefix\<close> and
  \<open>hostDevices\<close>. A failed probe for the prefix assigns the empty prefix it returns
  and skips the candidate.
\<close>

fun hostDevicesLoop ::
  "env \<Rightarrow> Device list \<Rightarrow> string \<Rightarrow> string list \<Rightarrow> trace \<Rightarrow> (error + string list) \<times> trace" where
  "hostDevicesLoop h [] prefix hostDevices tr = (Inr hostDevices, tr)"
| "hostDevicesLoop h (d # ds) prefix hostDevices tr =
     (case ProcessLunID (VStr (snd (snd d))) of
        Inl err \<Rightarrow> (Inl err, tr)
      | Inr lunID \<Rightarrow>
          (case filepath_EvalSymlinks h (hostDevicePath prefix d lunID) tr of
             (rp, tr1) \<Rightarrow>
               (let found = (case rp of Inl err \<Rightarrow> (False, tr1) | Inr p \<Rightarrow> IsFileExists h p tr1)
                in if fst found
                   then hostDevicesLoop h ds prefix (hostDevices @ [hostDevicePath prefix d lunID]) (snd found)
                   else (case getPossibleHostPathPrefix h
                                 (logPrintf ''host device %s with default prefix is not exists, we'll try to find it out''
                                    (snd found)) of
                           (Inl err, tr3) \<Rightarrow>
                             hostDevicesLoop h ds [] hostDevices
                               (logPrintf ''cannot found possible host device for %v under path /dev/disk/by-path/, ERROR: %v'' tr3)
                         | (Inr prefix1, tr3) \<Rightarrow>
                             hostDevicesLoop h ds prefix1 (hostDevices @ [hostDevicePath prefix1 d lunID]) tr3))))"

definition getHostDevices :: "env \<Rightarrow> Device list \<Rightarrow> trace \<Rightarrow> (error + string list) \<times> trace" where
  "getHostDevices h possibleDevs tr = hostDevicesLoop h possibleDevs [] [] tr"

definition getPossibleVolumePaths ::
  "env \<Rightarrow> Target list \<Rightarrow> HBA list \<Rightarrow> trace \<Rightarrow> (error + string list) outcome \<times> trace" where
  "getPossibleVolumePaths h targets hbas tr =
     (case getPossibleDevices hbas targets of
        Panics msg \<Rightarrow> (Panics msg, tr)
      | Returns possibleDevs \<Rightarrow>
          (case getHostDevices h possibleDevs tr of
             (Inl err, tr1) \<Rightarrow> (Returns (Inl err), tr1)
           | (Inr hostPaths, tr1) \<Rightarrow> (Returns (Inr hostPaths), tr1)))"

fun existingPaths :: "env \<Rightarrow> string list \<Rightarrow> trace \<Rightarrow> string list \<times> trace" where
  "existingPaths h [] tr = ([], tr)"
| "existingPaths h (path # devicePaths) tr =
     (case IsFileExists h path tr of
        (b, tr1) \<Rightarrow>
          (case existingPaths h devicePaths tr1 of
             (volumePaths, tr2) \<Rightarrow> (if b then path # volumePaths else volumePaths, tr2)))"

definition GetVolumePaths :: "env \<Rightarrow> Target list \<Rightarrow> trace \<Rightarrow> (error + string list) outcome \<times> trace" where
  "GetVolumePaths h targets tr =
     (case GetFCHBAsInfo h tr of
        (Panics msg, tr1) \<Rightarrow> (Panics msg, tr1)
      | (Returns (Inl err), tr1) \<Rightarrow> (Returns (Inl (ErrorfWrap ''failed get fc HBAs info: %v'' [] err)), tr1)
      | (Returns (Inr hbas), tr1) \<Rightarrow>
          (case getPossibleVolumePaths h targets hbas tr1 of
             (Panics msg, tr2) \<Rightarrow> (Panics msg, tr2)
           | (Returns (Inl err), tr2) \<Rightarrow>
               (Returns (Inl (ErrorfWrap ''failed get possible volume paths: %v'' [] err)), tr2)
           | (Returns (Inr devicePaths), tr2) \<Rightarrow>
               (case existingPaths h devicePaths tr2 of
                  (volumePaths, tr3) \<Rightarrow> (Returns (Inr volumePaths), tr3))))"

text \<open>
  \<^verbatim>\<open>addTargetsToConnectionProperties\<close> writes into the map it is given and returns
  that map, or nil with an error. The model returns the outcome together with the
  contents of the caller's map when the call ends. The two maps it iterates are
  association lists, taken in list order (Go leaves the order open).
\<close>

definition wwnsOf :: "props \<Rightarrow> string list outcome" where
  "wwnsOf connectionProperties =
     (if propGet connectionProperties ''target_wwns'' \<noteq> VNil
      then (case propGet connectionProperties ''target_wwns'' of
              VStrs ws \<Rightarrow> Returns ws
            | _ \<Rightarrow> Panics ''interface conversion: not []string'')
      else (case propGet connectionProperties ''target_wwn'' of
              VStrs ws \<Rightarrow> Returns ws
            | VStr w \<Rightarrow> Returns [w]
            | _ \<Rightarrow> Returns []))"

definition lunsOf :: "props \<Rightarrow> string list outcome" where
  "lunsOf connectionProperties =
     (if propGet connectionProperties ''target_luns'' \<noteq> VNil
      then (case propGet connectionProperties ''target_luns'' of
              VStrs ls \<Rightarrow> Returns ls
            | _ \<Rightarrow> Panics ''interface conversion: not []string'')
      else (case propGet connectionProperties ''target_lun'' of
              VStr l \<Rightarrow> Returns [l]
            | _ \<Rightarrow> Returns []))"

definition storeWwns :: "props \<Rightarrow> string list \<Rightarrow> props" where
  "storeWwns connectionProperties wwns =
     (if propGet connectionProperties ''target_wwns'' \<noteq> VNil
      then connectionProperties(''target_wwns'' \<mapsto> VStrs wwns)
      else if propGet connectionProperties ''target_wwn'' \<noteq> VNil
      then connectionProperties(''target_wwn'' \<mapsto> VStrs wwns)
      else connectionProperties)"

fun appendPorts :: "string \<Rightarrow> string list \<Rightarrow> (string \<times> string list) list \<Rightarrow> (string \<times> string list) list" where
  "appendPorts k [] lowItMap = lowItMap"
| "appendPorts k (port # v) lowItMap =
     appendPorts k v
       (mapSet (strings_ToLower k)
          ((case map_of lowItMap (strings_ToLower k) of None \<Rightarrow> [] | Some ps \<Rightarrow> ps) @ [strings_ToLower port])
          lowItMap)"

fun lowerItMap :: "(string \<times> string list) list \<Rightarrow> (string \<times> string list) list \<Rightarrow> (string \<times> string list) list" where
  "lowerItMap [] lowItMap = lowItMap"
| "lowerItMap (kv # itMap) lowItMap = lowerItMap itMap (appendPorts (fst kv) (snd kv) lowItMap)"

fun wwpnLunMapOf :: "Target list \<Rightarrow> (string \<times> string) list \<Rightarrow> (string \<times> string) list" where
  "wwpnLunMapOf [] m = m"
| "wwpnLunMapOf (t # targets) m = wwpnLunMapOf targets (mapSet (fst t) (snd t) m)"

definition initTargetsOf :: "(string \<times> string) list \<Rightarrow> string list \<Rightarrow> string list" where
  "initTargetsOf wwpnLunMap targetWwpns =
     concat (map (\<lambda>targetWwpn. case map_of wwpnLunMap targetWwpn of None \<Rightarrow> [] | Some w \<Rightarrow> [w]) targetWwpns)"

fun newItMapOf :: "(string \<times> string) list \<Rightarrow> (string \<times> string list) list \<Rightarrow> (string \<times> string list) list
                   \<Rightarrow> (string \<times> string list) list" where
  "newItMapOf wwpnLunMap [] newItMap = newItMap"
| "newItMapOf wwpnLunMap (kv # lowItMap) newItMap =
     newItMapOf wwpnLunMap lowItMap (mapSet (fst kv) (initTargetsOf wwpnLunMap (snd kv)) newItMap)"

definition addTargetsToConnectionProperties :: "props \<Rightarrow> (error + props) outcome \<times> props" where
  "addTargetsToConnectionProperties connectionProperties =
     (case wwnsOf connectionProperties of
        Panics msg \<Rightarrow> (Panics msg, connectionProperties)
      | Returns wwns0 \<Rightarrow>
          (let wwns = map strings_ToLower wwns0;
               cp1 = storeWwns connectionProperties wwns
           in case lunsOf cp1 of
                Panics msg \<Rightarrow> (Panics msg, cp1)
              | Returns luns \<Rightarrow>
                  (if length luns = length wwns \<and> 0 < length luns
                     \<or> length luns = 1 \<and> 1 < length wwns
                   then (let targets = (if length luns = length wwns \<and> 0 < length luns
                                        then zip wwns luns
                                        else map (\<lambda>w. (w, luns ! 0)) wwns);
                             cp2 = cp1(''targets'' \<mapsto> VTargets targets);
                             wwpnLunMap = wwpnLunMapOf targets [];
                             cp3 = (case cp2 ''initiator_target_map'' of
                                      Some (VStrsMap itMap) \<Rightarrow>
                                        (let lowItMap = lowerItMap itMap []
                                         in cp2(''initiator_target_map'' \<mapsto> VStrsMap lowItMap,
                                                ''initiator_target_lun_map'' \<mapsto>
                                                   VStrsMap (newItMapOf wwpnLunMap lowItMap [])))
                                    | _ \<Rightarrow> cp2)
                         in (Returns (Inr cp3), cp3))
                   else (Returns (Inl (Errorf
                           ''unable to find potential volume paths for FC device with luns %#v and wwns %#v'' [])),
                         cp1))))"

definition useMultipathOf :: "props \<Rightarrow> bool" where
  "useMultipathOf connectionProperties =
     (case connectionProperties ''use_multipath'' of Some (VBool umb) \<Rightarrow> umb | _ \<Rightarrow> True)"

text \<open>
  \<^verbatim>\<open>discoverMPathDevice\<close> (connectors/base.go). \<open>waitForRWAttempt\<close> is the
  callback of its write-readiness wait.
\<close>

definition waitForRWAttempt :: "env \<Rightarrow> string \<Rightarrow> string \<Rightarrow> int \<Rightarrow> unit \<times> trace \<Rightarrow> bool outcome \<times> unit \<times> trace" where
  "waitForRWAttempt h deviceWwn devicePath n s =
     (case WaitForRW h deviceWwn devicePath (snd s) of (err, t) \<Rightarrow> (Returns (err = None), (), t))"

definition discoverMPathDevice ::
  "env \<Rightarrow> string \<Rightarrow> props \<Rightarrow> string \<Rightarrow> trace \<Rightarrow> (error + string \<times> string) outcome \<times> trace" where
  "discoverMPathDevice h deviceWwn connProperties deviceName tr =
     (case FindMultipathDevicePath h deviceWwn tr of
        (Inl err, tr1) \<Rightarrow> (Returns (Inl err), tr1)
      | (Inr path, tr1) \<Rightarrow>
          (case (if path = []
                 then (case filepath_EvalSymlinks h deviceName tr1 of
                         (Inl err, tr2) \<Rightarrow> (Returns (Inl err), tr2)
                       | (Inr deviceRealPath, tr2) \<Rightarrow>
                           (case FindMultipathDevice h deviceRealPath tr2 of
                              (Panics msg, tr3) \<Rightarrow> (Panics msg, tr3)
                            | (Returns (Inr (Some mPathInfo)), tr3) \<Rightarrow>
                                (Returns (Inr (mp_device mPathInfo, deviceWwn)), tr3)
                            | (Returns other, tr3) \<Rightarrow> (Returns (Inr (deviceName, [])), tr3)))
                 else (Returns (Inr (path, deviceWwn)), tr1)) of
             (Panics msg, tr4) \<Rightarrow> (Panics msg, tr4)
           | (Returns (Inl err), tr4) \<Rightarrow> (Returns (Inl err), tr4)
           | (Returns (Inr (devicePath, multipathID)), tr4) \<Rightarrow>
               (if connProperties ''access_mode'' \<noteq> None \<and> connProperties ''access_mode'' \<noteq> Some (VStr ''ro'')
                then (case RunWithRetry 5 1 (waitForRWAttempt h deviceWwn devicePath) ((), tr4) of
                        (Returns True, c, tr5) \<Rightarrow> (Returns (Inr (devicePath, multipathID)), tr5)
                      | (other, c, tr5) \<Rightarrow>
                          (Returns (Inr (devicePath, multipathID)),
                           logPrintf ''block device %s is still read-only. Continuing anyway.'' tr5))
                else (Returns (Inr (devicePath, multipathID)), tr4))))"

text \<open>
  \<^verbatim>\<open>ConnectVolume\<close>. \<open>scanCandidates\<close> is the loop of the polling callback over
  the candidate paths, \<open>pollAttempt\<close> the callback; the closure assigns
  \<open>hostDevice\<close> and \<open>deviceName\<close>, the pair it carries. The result map is an
  association list.
\<close>

fun scanCandidates :: "env \<Rightarrow> string list \<Rightarrow> trace \<Rightarrow> (string \<times> string) option \<times> trace" where
  "scanCandidates h [] tr = (None, tr)"
| "scanCandidates h (dev # hostDevices) tr =
     (case IsFileExists h dev tr of
        (False, tr1) \<Rightarrow> scanCandidates h hostDevices tr1
      | (True, tr1) \<Rightarrow>
          (case CheckValidDevice h dev tr1 of
             (False, tr2) \<Rightarrow> scanCandidates h hostDevices tr2
           | (True, tr2) \<Rightarrow>
               (case filepath_EvalSymlinks h dev tr2 of
                  (Inl err, tr3) \<Rightarrow> (Some (dev, []), tr3)
                | (Inr deviceName, tr3) \<Rightarrow> (Some (dev, deviceName), tr3))))"

definition pollAttempt ::
  "env \<Rightarrow> HBA list \<Rightarrow> props \<Rightarrow> string list \<Rightarrow> int \<Rightarrow> (string \<times> string) \<times> trace
   \<Rightarrow> bool outcome \<times> (string \<times> string) \<times> trace" where
  "pollAttempt h hbas connProperties hostDevices n s =
     (case scanCandidates h hostDevices (snd s) of
        (Some found, tr1) \<Rightarrow> (Returns True, found, tr1)
      | (None, tr1) \<Rightarrow>
          (case RescanHosts h hbas connProperties tr1 of
             (Panics msg, tr2) \<Rightarrow> (Panics msg, fst s, tr2)
           | (Returns u, tr2) \<Rightarrow> (Returns False, fst s, tr2)))"

definition ConnectVolume :: "env \<Rightarrow> props \<Rightarrow> trace \<Rightarrow> (error + (string \<times> string) list) outcome \<times> trace" where
  "ConnectVolume h connectionProperties tr =
     (case fst (addTargetsToConnectionProperties connectionProperties) of
        Panics msg \<Rightarrow> (Panics msg, tr)
      | Returns (Inl err) \<Rightarrow> (Returns (Inl err), tr)
      | Returns (Inr connProperties) \<Rightarrow>
          (case GetFCHBAsInfo h (logPrintf ''add Targets To connProps: %#v'' tr) of
             (Panics msg, tr1) \<Rightarrow> (Panics msg, tr1)
           | (Returns (Inl err), tr1) \<Rightarrow> (Returns (Inl err), logPrintf ''FC HBAs Info: %#v'' tr1)
           | (Returns (Inr hbas), tr1) \<Rightarrow>
               (if length hbas = 0
                then (Returns (Inl (Errorf ''we are unable to locate any Fibre Channel devices'' [])),
                      logPrintf ''FC HBAs Info: %#v'' tr1)
                else (case propGet connProperties ''targets'' of
                        VTargets targets \<Rightarrow>
                          (case getPossibleVolumePaths h targets hbas (logPrintf ''FC HBAs Info: %#v'' tr1) of
                             (Panics msg, tr2) \<Rightarrow> (Panics msg, tr2)
                           | (Returns (Inl err), tr2) \<Rightarrow> (Returns (Inl err), tr2)
                           | (Returns (Inr hostDevices), tr2) \<Rightarrow>
                               (case RunWithRetry DeviceScanAttemptsDefault 5
                                       (pollAttempt h hbas connProperties hostDevices)
                                       (([], []), logPrintf ''possibleVolumePaths: %#v'' tr2) of
                                  (Panics msg, c, tr3) \<Rightarrow> (Panics msg, tr3)
                                | (Returns False, c, tr3) \<Rightarrow>
                                    (Returns (Inl (Errorf ''fibre Channel volume device not found'' [])), tr3)
                                | (Returns True, (hostDevice, deviceName), tr3) \<Rightarrow>
                                    (case GetSCSIWWN h hostDevice tr3 of
                                       ((deviceWwn, Some err), tr4) \<Rightarrow> (Returns (Inl err), tr4)
                                     | ((deviceWwn, None), tr4) \<Rightarrow>
                                         (if useMultipathOf connProperties
                                          then (case discoverMPathDevice h deviceWwn connProperties deviceName tr4 of
                                                  (Panics msg, tr5) \<Rightarrow> (Panics msg, tr5)
                                                | (Returns (Inl err), tr5) \<Rightarrow> (Returns (Inl err), tr5)
                                                | (Returns (Inr (devicePath, multipathId)), tr5) \<Rightarrow>
                                                    (Returns (Inr (mapSet ''path'' devicePath
                                                       (if multipathId \<noteq> []
                                                        then mapSet ''multipath_id'' multipathId
                                                               (mapSet ''scsi_wwn'' deviceWwn [(''type'', ''block'')])
                                                        else mapSet ''scsi_wwn'' deviceWwn [(''type'', ''block'')]))), tr5))
                                          else (Returns (Inr (mapSet ''path'' hostDevice
                                                  (mapSet ''scsi_wwn'' deviceWwn [(''type'', ''block'')]))), tr4)))))
                      | other \<Rightarrow> (Panics ''interface conversion: not []initiator.Target'',
                                   logPrintf ''FC HBAs Info: %#v'' tr1)))))"

text \<open>\<^verbatim>\<open>removeDevices\<close>; \<open>removeLoop\<close> is its loop over the devices.\<close>

fun removeLoop ::
  "env \<Rightarrow> string \<Rightarrow> bool \<Rightarrow> (string \<times> string) list list \<Rightarrow> trace \<Rightarrow> error option \<times> trace" where
  "removeLoop h pathUsed wasMultipath [] tr = (None, tr)"
| "removeLoop h pathUsed wasMultipath (device # devices) tr =
     (case RequiresFlush h (mapGet device ''device'') pathUsed wasMultipath tr of
        (Inl err, tr1) \<Rightarrow>
          (Some (Errorf ''failed requires flush: devicePath:%s, pathUsed:%s, wasMultipath:%t''
                   [mapGet device ''device'', pathUsed]), tr1)
      | (Inr flush, tr1) \<Rightarrow>
          (case RemoveSCSIDevice h (mapGet device ''device'') flush tr1 of
             (Some err, tr2) \<Rightarrow>
               (Some (Errorf ''failed remove scsi device: devicePath:%s, flush:%t'' [mapGet device ''device'']), tr2)
           | (None, tr2) \<Rightarrow> removeLoop h pathUsed wasMultipath devices tr2))"

definition removeDevices ::
  "env \<Rightarrow> props \<Rightarrow> (string \<times> string) list list \<Rightarrow> (string \<times> string) list \<Rightarrow> trace \<Rightarrow> error option \<times> trace" where
  "removeDevices h connProperties devices deviceInfo tr =
     (let pathUsed = GetDevPath connProperties deviceInfo;
          wasMultipath = (\<not> strings_Contains pathUsed ''/pci-'')
      in removeLoop h pathUsed wasMultipath devices tr)"

text \<open>
  \<^verbatim>\<open>DisconnectVolume\<close>. \<open>flushStep\<close> is the guarded block at the head of its loop
  body: whether the iteration goes on to collect the device (a \<^verbatim>\<open>continue\<close>
  otherwise), the new \<open>mPathPath\<close>, and the trace. \<open>disconnectPaths\<close> is the loop. A
  failed normalization is logged only: the nil map it returned is then read.
\<close>

definition flushStep :: "env \<Rightarrow> bool \<Rightarrow> string \<Rightarrow> string \<Rightarrow> trace \<Rightarrow> bool \<times> string \<times> trace" where
  "flushStep h useMultipath mPathPath path tr =
     (if useMultipath \<and> mPathPath \<noteq> []
      then (case CheckValidDevice h path tr of
              (False, tr1) \<Rightarrow> (True, mPathPath, tr1)
            | (True, tr1) \<Rightarrow>
                (case GetSCSIWWN h path tr1 of
                   ((wwn, Some err), tr2) \<Rightarrow>
                     (False, mPathPath, logPrintf ''failed get scsi wwn for path %s, ERROR:%v'' tr2)
                 | ((wwn, None), tr2) \<Rightarrow>
                     (case FindMultipathDevicePath h wwn tr2 of
                        (Inl err, tr3) \<Rightarrow>
                          (False, [], logPrintf ''failed find multipath device path for wwn: %s, ERROR:%v'' tr3)
                      | (Inr mPathPath1, tr3) \<Rightarrow>
                          (if mPathPath1 \<noteq> [] then (True, mPathPath1, FlushMultipathDevice h mPathPath1 tr3)
                           else (True, mPathPath1, tr3)))))
      else (True, mPathPath, tr))"

fun disconnectPaths ::
  "env \<Rightarrow> bool \<Rightarrow> string list \<Rightarrow> string \<Rightarrow> (string \<times> string) list list \<Rightarrow> trace
   \<Rightarrow> (string \<times> string) list list \<times> trace" where
  "disconnectPaths h useMultipath [] mPathPath devices tr = (devices, tr)"
| "disconnectPaths h useMultipath (path # volumePaths) mPathPath devices tr =
     (case GetNameFromPath h path tr of
        (realPath, tr1) \<Rightarrow>
          (case flushStep h useMultipath mPathPath path tr1 of
             (False, mPathPath1, tr2) \<Rightarrow> disconnectPaths h useMultipath volumePaths mPathPath1 devices tr2
           | (True, mPathPath1, tr2) \<Rightarrow>
               (case GetDeviceInfo h realPath tr2 of
                  (Inl err, tr3) \<Rightarrow>
                    disconnectPaths h useMultipath volumePaths mPathPath1 devices
                      (logPrintf ''failed get device info for path: %s, ERROR:%v'' tr3)
                | (Inr deviceInfo, tr3) \<Rightarrow>
                    disconnectPaths h useMultipath volumePaths mPathPath1 (devices @ [deviceInfo]) tr3)))"

definition DisconnectVolume ::
  "env \<Rightarrow> props \<Rightarrow> (string \<times> string) list \<Rightarrow> trace \<Rightarrow> error option outcome \<times> trace" where
  "DisconnectVolume h connectionProperties deviceInfo tr =
     (case fst (addTargetsToConnectionProperties connectionProperties) of
        Panics msg \<Rightarrow> (Panics msg, tr)
      | Returns r \<Rightarrow>
          (let connProperties = (case r of Inl err \<Rightarrow> Map.empty | Inr cp \<Rightarrow> cp);
               tr0 = (case r of
                        Inl err \<Rightarrow> logPrintf ''failed addTargetsToConnectionProperties: %#v, ERROR:%v'' tr
                      | Inr cp \<Rightarrow> tr)
           in case propGet connProperties ''targets'' of
                VTargets targets \<Rightarrow>
                  (case GetVolumePaths h targets tr0 of
                     (Panics msg, tr1) \<Rightarrow> (Panics msg, tr1)
                   | (Returns (Inl err), tr1) \<Rightarrow>
                       (Returns (Some (ErrorfWrap ''failed get volume paths: %v'' [] err)), tr1)
                   | (Returns (Inr volumePaths), tr1) \<Rightarrow>
                       (case disconnectPaths h (useMultipathOf connectionProperties) volumePaths [] []
                               (logPrintf ''get volume paths: %#v'' tr1) of
                          (devices, tr2) \<Rightarrow>
                            (if length devices = 0 then (Returns (Some (Errorf ''no device to remove'' [])), tr2)
                             else (case removeDevices h connProperties devices deviceInfo
                                          (logPrintf ''devices to remove = %#v'' tr2) of
                                     (Some err, tr3) \<Rightarrow>
                                       (Returns (Some (ErrorfWrap ''failed remove devices %#v: %v'' [] err)), tr3)
                                   | (None, tr3) \<Rightarrow>
                                       (Returns None, logPrintf ''devices removed successfully'' tr3)))))
              | other \<Rightarrow> (Panics ''interface conversion: interface {} is nil, not []initiator.Target'', tr0)))"

definition ExtendVolume :: "env \<Rightarrow> props \<Rightarrow> trace \<Rightarrow> error option outcome \<times> trace" where
  "ExtendVolume h connectionProperties tr =
     (case fst (addTargetsToConnectionProperties connectionProperties) of
        Panics msg \<Rightarrow> (Panics msg, tr)
      | Returns (Inl err) \<Rightarrow>
          (Returns (Some (ErrorfWrap ''failed add targets to connection properties:%v'' [] err)), tr)
      | Returns (Inr connProperties) \<Rightarrow>
          (case propGet connProperties ''targets'' of
             VTargets targets \<Rightarrow>
               (case GetVolumePaths h targets tr of
                  (Panics msg, tr1) \<Rightarrow> (Panics msg, tr1)
                | (Returns (Inl err), tr1) \<Rightarrow>
                    (Returns (Some (ErrorfWrap ''failed get volume paths: %v'' [] err)), tr1)
                | (Returns (Inr volumePaths), tr1) \<Rightarrow>
                    (if length volumePaths = 0
                     then (Returns (Some (Errorf
                             ''couldn't find any volume paths on the host to extend volume for %#v'' [])), tr1)
                     else (case DoExtendVolume h volumePaths (useMultipathOf connectionProperties) tr1 of
                             (Panics msg, tr2) \<Rightarrow> (Panics msg, tr2)
                           | (Returns (Inl err), tr2) \<Rightarrow> (Returns (Some err), tr2)
                           | (Returns (Inr newSize), tr2) \<Rightarrow>
                               (Returns None, logPrintf ''volume extended to new size: '' tr2))))
           | other \<Rightarrow> (Panics ''interface conversion: not []initiator.Target'', tr)))"

text \<open>Reading a hexadecimal field back, to state what the extended LUN form encodes.\<close>

definition hexDigitVal :: "char \<Rightarrow> nat" where
  "hexDigitVal c = length (takeWhile (\<lambda>d. d \<noteq> c) ''0123456789abcdef'')"

definition hexValue :: "string \<Rightarrow> nat" where
  "hexValue s = foldl (\<lambda>a c. a * 16 + hexDigitVal c) 0 s"

text \<open>
  Concrete hosts for the witnesses. \<open>hostPlain\<close>: nothing exists, every command
  prints nothing and succeeds, no path is a symbolic link.
\<close>

definition hostPlain :: env where
  "hostPlain = \<lparr>os_Stat = (\<lambda>tr p. False), combinedOutput = (\<lambda>tr n a. ([], None)),
     timedOutput = (\<lambda>tr t n a. Inr ([], [])), evalSymlinks = (\<lambda>tr p. Inr p),
     os_Open = (\<lambda>tr p. None), readdirnames = (\<lambda>tr p. Inr []), parseFloatOk = (\<lambda>s. False)\<rparr>"

text \<open>\<open>hostLinks\<close>: a by-path entry that links to \<open>/dev/sdb\<close>, and a broken path.\<close>

definition hostLinks :: env where
  "hostLinks = hostPlain\<lparr>evalSymlinks :=
     (\<lambda>tr p. if p = ''/dev/disk/by-path/pci-0000:05:00.3-fc-0x2100001b32808c84-lun-1'' then Inr ''/dev/sdb''
              else if p = ''/dev/broken'' then Inl (OSError ''lstat /dev/broken: no such file or directory'')
              else Inr p)\<rparr>"

text \<open>Connection descriptors for the witnesses.\<close>

definition descrBroadcast :: props where
  "descrBroadcast = [''target_wwn'' \<mapsto> VStrs [''20210002AC00383D'', ''20220002AC00383D''],
                     ''target_lun'' \<mapsto> VStr ''1'']"

definition descrPaired :: props where
  "descrPaired = [''target_wwns'' \<mapsto> VStrs [''20210002AC00383D'', ''20220002AC00383D''],
                  ''target_luns'' \<mapsto> VStrs [''1'', ''2'']]"

definition descrMalformed :: props where
  "descrMalformed = [''target_wwn'' \<mapsto> VStr ''20210002AC00383D'',
                     ''target_luns'' \<mapsto> VStrs [''1'', ''2'']]"

text \<open>
  \<open>hostReadWrite\<close>: the multipath symlink of one WWN exists and \<^verbatim>\<open>lsblk\<close>
  prints two rows, none read-only, each ended by a line feed.
\<close>

definition lsblkSample :: string where
  "lsblkSample = ''sda                                    0'' @ [CHR 0x0A]
                 @ ''3624a93709a738ed78583fd120013902b (dm-1)  0'' @ [CHR 0x0A]"

definition hostReadWrite :: env where
  "hostReadWrite = hostPlain\<lparr>
     os_Stat := (\<lambda>tr p. p = ''/dev/disk/by-id/dm-uuid-mpath-3624a93709a738ed78583fd120013902b''),
     combinedOutput := (\<lambda>tr n a. if n = ''lsblk'' then (lsblkSample, None) else ([], None))\<rparr>"

text \<open>
  For C10: the arguments of the \<^verbatim>\<open>lsblk\<close> call; the outputs the claim is about
  (the text ends with a line feed, and no row has a name containing the WWN together with
  the read-only flag 1, both read as the code reads them); and the events of one call of
  \<open>WaitForRW\<close> on such an output.
\<close>

definition lsblkArgs :: "string list" where
  "lsblkArgs = [''-o'', ''NAME,RO'', ''-l'', ''-n'']"

definition rwOutputBlocked :: "string \<Rightarrow> string \<Rightarrow> bool" where
  "rwOutputBlocked deviceWwn out =
     (out \<noteq> [] \<and> last out = CHR 0x0A
      \<and> list_all (\<lambda>l. \<not> (strings_Contains (hd (strings_Split l CHR '' '')) deviceWwn
                          \<and> strconv_Atoi (last (strings_Split l CHR '' '')) = Inr 1))
           (strings_Split out CHR 0x0A))"

definition rwAttemptEvents :: "event list" where
  "rwAttemptEvents = [Log ''checking to see if %s is read-only'', Exec ''lsblk'' lsblkArgs]"

text \<open>The text of a list of lines, each ended by a line feed.\<close>

definition unlines :: "string list \<Rightarrow> string" where
  "unlines ls = concat (map (\<lambda>l. l @ [CHR 0x0A]) ls)"

text \<open>
  For C9: the \<^verbatim>\<open>multipath -l\<close> output the claim is about, spelt out. An error line
  is a time stamp, a bar and a message (\<open>errorLine\<close>). The header line is an action
  keyword, the map name, the WWID in parentheses or nothing, and the rest of the line
  (\<open>headerLine\<close>). A leg line is tree drawing, the address
  \<^verbatim>\<open>host:channel:id:lun\<close>, the device name, and the rest of the line
  (\<open>legLine\<close>); \<open>legOf\<close> is the leg it describes. A line is plain when it is not
  empty, holds no line feed and is not an error line.
\<close>

type_synonym ErrorText = "string \<times> string \<times> string \<times> string"

definition errorLine :: "ErrorText \<Rightarrow> string" where
  "errorLine e = (case e of (month, day, time, msg) \<Rightarrow> month @ '' '' @ day @ '' '' @ time @ '' |'' @ msg)"

definition wellFormedError :: "ErrorText \<Rightarrow> bool" where
  "wellFormedError e = (case e of (month, day, time, msg) \<Rightarrow>
     length month = 3 \<and> list_all isWord month \<and> day \<noteq> [] \<and> list_all isDigit day
     \<and> (case time of
           [a, b, c1, c, d, c2, e, f] \<Rightarrow>
             isDigit a \<and> isDigit b \<and> c1 = CHR '':'' \<and> isDigit c \<and> isDigit d \<and> c2 = CHR '':''
             \<and> isDigit e \<and> isDigit f
         | _ \<Rightarrow> False)
     \<and> CHR 0x0A \<notin> set msg \<and> (msg = [] \<or> \<not> isSpace (last msg)))"

definition headerLine :: "string \<Rightarrow> string \<Rightarrow> string option \<Rightarrow> string \<Rightarrow> string" where
  "headerLine action name wwid tail =
     action @ '' '' @ name @ (case wwid of Some w \<Rightarrow> '' ('' @ w @ '')'' | None \<Rightarrow> []) @ tail"

definition wellFormedHeader :: "string \<Rightarrow> string option \<Rightarrow> string \<Rightarrow> bool" where
  "wellFormedHeader name wwid tail =
     (CHR '' '' \<notin> set name \<and> CHR ''('' \<notin> set name
      \<and> (case wwid of
            Some w \<Rightarrow> w \<noteq> [] \<and> CHR '')'' \<notin> set tail
          | None \<Rightarrow> CHR ''('' \<notin> set tail \<and> (tail = [] \<or> hd tail = CHR '' '')))"

record LegText =
  lt_lead :: string
  lt_host :: string
  lt_channel :: string
  lt_id :: string
  lt_lun :: string
  lt_dev :: string
  lt_tail :: string

definition legLine :: "LegText \<Rightarrow> string" where
  "legLine g = lt_lead g @ lt_host g @ '':'' @ lt_channel g @ '':'' @ lt_id g @ '':'' @ lt_lun g
                 @ '' '' @ lt_dev g @ lt_tail g"

definition legOf :: "LegText \<Rightarrow> MultipathDevice" where
  "legOf g = [(''device'', ''/dev/'' @ lt_dev g), (''host'', lt_host g), (''channel'', lt_channel g),
              (''id'', lt_id g), (''lun'', lt_lun g)]"

definition treeChars :: string where
  "treeChars = [CHR '' '', CHR ''|'', CHR ''-'', CHR 0x60]"

definition wellFormedLeg :: "LegText \<Rightarrow> bool" where
  "wellFormedLeg g =
     (list_all (\<lambda>c. c \<in> set treeChars) (lt_lead g)
      \<and> list_all (\<lambda>c. c \<notin> set treeChars) (lt_host g)
      \<and> CHR '':'' \<notin> set (lt_host g)
      \<and> CHR '' '' \<notin> set (lt_channel g) \<and> CHR '':'' \<notin> set (lt_channel g)
      \<and> CHR '' '' \<notin> set (lt_id g) \<and> CHR '':'' \<notin> set (lt_id g)
      \<and> CHR '' '' \<notin> set (lt_lun g) \<and> CHR '':'' \<notin> set (lt_lun g)
      \<and> CHR '' '' \<notin> set (lt_dev g)
      \<and> (lt_tail g = [] \<or> hd (lt_tail g) = CHR '' ''))"

definition plainLine :: "string \<Rightarrow> bool" where
  "plainLine l = (l \<noteq> [] \<and> CHR 0x0A \<notin> set l \<and> \<not> matchMultipathError l)"

text \<open>
  Sample outputs of \<^verbatim>\<open>multipath -l\<close>: an error line followed by a block with the
  WWID in parentheses (\<open>listingSample\<close>), a block without it (\<open>listingBare\<close>), and
  error lines only (\<open>listingNoise\<close>). On \<open>hostListing\<close> the command prints them
  for \<open>/dev/sdb\<close>, \<open>/dev/sdc\<close> and \<open>/dev/sde\<close>, and nothing for any other
  device; both mapper devices exist.
\<close>

definition listingLegs :: "string list" where
  "listingLegs =
     [''|-+- policy='round-robin 0' prio=0 status=active'',
      ''| `- 6:0:2:1 sdb 8:16 active undef running'',
      ''|-+- policy='round-robin 0' prio=0 status=enabled'',
      ''| `- 7:1:0:1 sdc 8:32 active undef running'',
      ''`-+- policy='round-robin 0' prio=0 status=enabled'',
      ''  `- 8:3:4:1 sdd 8:48 active undef running'']"

definition listingSample :: string where
  "listingSample = unlines
     ([''Nov 01 10:15:02 | /etc/multipath.conf line 12, invalid keyword: getuid_callout'',
       ''create: mpathb (36001405d27e5d898829468b90ce4ef8c) dm-2 LIO-ORG,disk'',
       ''size=1.0G features='0' hwhandler='0' wp=rw''] @ listingLegs)"

definition listingBare :: string where
  "listingBare = unlines
     ([''reload: 36001405d27e5d898829468b90ce4ef8c dm-2 LIO-ORG,disk'',
       ''size=1.0G features='0' hwhandler='0' wp=rw''] @ listingLegs)"

definition listingNoise :: string where
  "listingNoise = unlines
     [''Nov 01 10:15:02 | /etc/multipath.conf line 12, invalid keyword: getuid_callout'',
      ''Nov 01 10:15:02 | DM multipath kernel driver not loaded'']"

definition hostListing :: env where
  "hostListing = hostPlain\<lparr>
     os_Stat := (\<lambda>tr p. p = ''/dev/mapper/mpathb'' \<or> p = ''/dev/mapper/36001405d27e5d898829468b90ce4ef8c''),
     combinedOutput := (\<lambda>tr n a.
        if n = ''multipath'' \<and> a = [''-l'', ''/dev/sdb''] then (listingSample, None)
        else if n = ''multipath'' \<and> a = [''-l'', ''/dev/sdc''] then (listingBare, None)
        else if n = ''multipath'' \<and> a = [''-l'', ''/dev/sde''] then (listingNoise, None)
        else ([], None))\<rparr>"

definition sampleLegs :: "LegText list" where
  "sampleLegs =
     [\<lparr>lt_lead = ''| `- '', lt_host = ''6'', lt_channel = ''0'', lt_id = ''2'', lt_lun = ''1'',
       lt_dev = ''sdb'', lt_tail = '' 8:16 active undef running''\<rparr>,
      \<lparr>lt_lead = ''| `- '', lt_host = ''7'', lt_channel = ''1'', lt_id = ''0'', lt_lun = ''1'',
       lt_dev = ''sdc'', lt_tail = '' 8:32 active undef running''\<rparr>,
      \<lparr>lt_lead = ''  `- '', lt_host = ''8'', lt_channel = ''3'', lt_id = ''4'', lt_lun = ''1'',
       lt_dev = ''sdd'', lt_tail = '' 8:48 active undef running''\<rparr>]"

text \<open>
  For C7: a rescan is observed by the first statement of \<open>RescanHosts\<close>, its log line;
  \<open>rescanCount\<close> counts the rescans in a trace.
\<close>

definition isRescanLog :: "event \<Rightarrow> bool" where
  "isRescanLog e = (e = Log ''rescaning HBAs %v with connection properties %#v'')"

text \<open>The paths of the existence checks in a trace, in order.\<close>

definition statPaths :: "trace \<Rightarrow> string list" where
  "statPaths tr = concat (map (\<lambda>e. case e of Stat p \<Rightarrow> [p] | _ \<Rightarrow> []) tr)"

definition rescanCount :: "trace \<Rightarrow> nat" where
  "rescanCount tr = length (filter isRescanLog tr)"

text \<open>
  A host with two HBAs (\<open>host6\<close>, \<open>host7\<close>) for the end-to-end witnesses: the output
  of \<^verbatim>\<open>systool\<close>, of the \<^verbatim>\<open>grep\<close> over the FC transport targets (each HBA sees
  one of the two target ports), of the WWN query and of \<^verbatim>\<open>sg_scan\<close>.
\<close>

definition quoted :: "string \<Rightarrow> string \<Rightarrow> string" where
  "quoted k v = k @ '' = '' @ [CHR 0x22] @ v @ [CHR 0x22]"

definition systoolSample :: string where
  "systoolSample = unlines
     [quoted ''Class'' ''fc_host'',
      [],
      ''  '' @ quoted ''Class Device'' ''host6'',
      ''  '' @ quoted ''Class Device path'' ''/sys/devices/pci0000:00/0000:05:00.3/host6/fc_host/host6'',
      ''    '' @ quoted ''node_name'' ''0x20000000c9a1b2c3'',
      ''    '' @ quoted ''port_name'' ''0x10000000c9a1b2c3'',
      [],
      [],
      ''  '' @ quoted ''Class Device'' ''host7'',
      ''  '' @ quoted ''Class Device path'' ''/sys/devices/pci0000:00/0000:05:00.4/host7/fc_host/host7'',
      ''    '' @ quoted ''node_name'' ''0x20000000c9a1b2c4'',
      ''    '' @ quoted ''port_name'' ''0x10000000c9a1b2c4'',
      [],
      []]"

definition grepCommand :: "string \<Rightarrow> string \<Rightarrow> string" where
  "grepCommand wwpn host =
     ''grep -Gil '' @ [CHR 0x22] @ wwpn @ [CHR 0x22] @ '' /sys/class/fc_transport/target'' @ host @ '':*/port_name''"

definition scanCommand :: "string \<Rightarrow> string \<Rightarrow> string" where
  "scanCommand host triple =
     ''echo '' @ [CHR 0x27] @ triple @ [CHR 0x27] @ '' > /sys/class/scsi_host/'' @ host @ ''/scan''"

definition candidatePath :: string where
  "candidatePath = ''/dev/disk/by-path/pci-0000:05:00.3-fc-0x20210002ac00383d-lun-1''"

definition fcOutputs :: "trace \<Rightarrow> string \<Rightarrow> string list \<Rightarrow> string \<times> error option" where
  "fcOutputs tr n a =
     (if n = ''systool'' then (systoolSample, None)
      else if n = ''sh'' \<and> a = [''-c'', grepCommand ''20210002ac00383d'' ''6'']
      then (''/sys/class/fc_transport/target6:0:0/port_name'' @ [CHR 0x0A], None)
      else if n = ''sh'' \<and> a = [''-c'', grepCommand ''20220002ac00383d'' ''7'']
      then (''/sys/class/fc_transport/target7:0:1/port_name'' @ [CHR 0x0A], None)
      else if n = ''sh'' \<and> strings_HasPrefix (last a) ''grep'' then ([], Some (OSError ''exit status 1''))
      else if n = ''/lib/udev/scsi_id'' then (''36001405d27e5d898829468b90ce4ef8c'' @ [CHR 0x0A], None)
      else if n = ''sg_scan'' then (''/dev/sdb: scsi6 channel=0 id=0 lun=1'' @ [CHR 0x0A], None)
      else ([], None))"

text \<open>
  \<open>hostAttached\<close>: the path of the first HBA to the first target port exists, links to
  \<open>/dev/sdb\<close> and reads; no multipath device exists. \<open>hostAfterRescan\<close>: the same
  once the scan of \<open>host6\<close> has been written. \<open>hostNoDevice\<close>: the path never appears
  (the by-path directory holds another volume's entry). \<open>hostWwnFails\<close>: as
  \<open>hostAttached\<close>, but the WWN query fails.
\<close>

definition hostAttached :: env where
  "hostAttached = \<lparr>
     os_Stat = (\<lambda>tr p. p \<in> set [''/sys/class/fc_host'', candidatePath, ''/dev/sdb'', ''/sys/block/sdb/device/delete'']),
     combinedOutput = fcOutputs,
     timedOutput = (\<lambda>tr t n a. Inr ([], [])),
     evalSymlinks = (\<lambda>tr p. if p = candidatePath \<or> p = ''/dev/sdb'' then Inr ''/dev/sdb''
                              else Inl (OSError ''no such file or directory'')),
     os_Open = (\<lambda>tr p. None),
     readdirnames = (\<lambda>tr p. Inr [''pci-0000:05:00.3-fc-0x20210002ac00383d-lun-7'']),
     parseFloatOk = (\<lambda>s. False)\<rparr>"

definition host6Scanned :: "trace \<Rightarrow> bool" where
  "host6Scanned tr = (Exec ''sh'' [''-c'', scanCommand ''host6'' ''0 0 1''] \<in> set tr)"

definition hostAfterRescan :: env where
  "hostAfterRescan = hostAttached\<lparr>
     os_Stat := (\<lambda>tr p. p = ''/sys/class/fc_host'' \<or> (p = candidatePath \<or> p = ''/dev/sdb'') \<and> host6Scanned tr),
     evalSymlinks := (\<lambda>tr p. if (p = candidatePath \<or> p = ''/dev/sdb'') \<and> host6Scanned tr then Inr ''/dev/sdb''
                              else Inl (OSError ''no such file or directory''))\<rparr>"

definition hostNoDevice :: env where
  "hostNoDevice = hostAttached\<lparr>
     os_Stat := (\<lambda>tr p. p = ''/sys/class/fc_host''),
     evalSymlinks := (\<lambda>tr p. Inl (OSError ''no such file or directory''))\<rparr>"

definition hostWwnFails :: env where
  "hostWwnFails = hostAttached\<lparr>
     combinedOutput := (\<lambda>tr n a. if n = ''/lib/udev/scsi_id'' then ([], Some (OSError ''exit status 1''))
                                  else fcOutputs tr n a)\<rparr>"

definition descrSinglePath :: props where
  "descrSinglePath = descrBroadcast(''use_multipath'' \<mapsto> VBool False)"

text \<open>
  What the preparation of \<open>ConnectVolume\<close> yields on these hosts: the normalized
  descriptor, the two HBAs, the two targets and the four candidate paths.
\<close>

definition fcTargets :: "Target list" where
  "fcTargets = [(''20210002ac00383d'', ''1''), (''20220002ac00383d'', ''1'')]"

definition descrSingleNormalized :: props where
  "descrSingleNormalized = descrSinglePath
     (''target_wwn'' \<mapsto> VStrs [''20210002ac00383d'', ''20220002ac00383d''],
      ''targets'' \<mapsto> VTargets fcTargets)"

definition fcHBAs :: "HBA list" where
  "fcHBAs =
     [[(''port_name'', ''10000000c9a1b2c3''), (''node_name'', ''20000000c9a1b2c3''),
       (''host_device'', ''host6''),
       (''device_path'', ''/sys/devices/pci0000:00/0000:05:00.3/host6/fc_host/host6'')],
      [(''port_name'', ''10000000c9a1b2c4''), (''node_name'', ''20000000c9a1b2c4''),
       (''host_device'', ''host7''),
       (''device_path'', ''/sys/devices/pci0000:00/0000:05:00.4/host7/fc_host/host7'')]]"

definition fcCandidates :: "string list" where
  "fcCandidates =
     [''/dev/disk/by-path/pci-0000:05:00.3-fc-0x20210002ac00383d-lun-1'',
      ''/dev/disk/by-path/pci-0000:05:00.3-fc-0x20220002ac00383d-lun-1'',
      ''/dev/disk/by-path/pci-0000:05:00.4-fc-0x20210002ac00383d-lun-1'',
      ''/dev/disk/by-path/pci-0000:05:00.4-fc-0x20220002ac00383d-lun-1'']"

text \<open>
  The trace when polling starts on a host (\<open>preparedTrace\<close>), and after the first and
  the second failed attempt with its rescan and the wait that follows
  (\<open>afterAttempt1\<close>, \<open>afterAttempt2\<close>); the events of a trace after its last
  rescan (\<open>afterLastRescan\<close>).
\<close>

definition preparedTrace :: "env \<Rightarrow> trace" where
  "preparedTrace h =
     snd (getPossibleVolumePaths h fcTargets fcHBAs
            (snd (GetFCHBAsInfo h ([] @ [Log ''add Targets To connProps: %#v''])) @ [Log ''FC HBAs Info: %#v'']))
     @ [Log ''possibleVolumePaths: %#v'']"

definition afterAttempt1 :: "env \<Rightarrow> trace" where
  "afterAttempt1 h =
     snd (RescanHosts h fcHBAs descrSingleNormalized (snd (scanCandidates h fcCandidates (preparedTrace h))))
     @ [Tick 5]"

definition afterAttempt2 :: "env \<Rightarrow> trace" where
  "afterAttempt2 h =
     snd (RescanHosts h fcHBAs descrSingleNormalized (snd (scanCandidates h fcCandidates (afterAttempt1 h))))
     @ [Tick 5]"

definition afterLastRescan :: "trace \<Rightarrow> trace" where
  "afterLastRescan tr = rev (takeWhile (\<lambda>e. \<not> isRescanLog e) (rev tr))"

text \<open>
  The commands a trace ran, in order (\<open>commands\<close>). \<open>hostMultipathAttached\<close> is
  \<open>hostAttached\<close> with the multipath device of the volume present under its
  \<^verbatim>\<open>dm-uuid-mpath-\<close> link (\<open>mpathLink\<close>).
\<close>

fun commandOf :: "event \<Rightarrow> (string \<times> string list) option" where
  "commandOf (Exec n a) = Some (n, a)"
| "commandOf (ExecTimeout t n a) = Some (n, a)"
| "commandOf e = None"

definition commands :: "trace \<Rightarrow> (string \<times> string list) list" where
  "commands tr = List.map_filter commandOf tr"

definition mpathLink :: string where
  "mpathLink = ''/dev/disk/by-id/dm-uuid-mpath-36001405d27e5d898829468b90ce4ef8c''"

definition hostMultipathAttached :: env where
  "hostMultipathAttached = hostAttached\<lparr>
     os_Stat := (\<lambda>tr p. p \<in> set [''/sys/class/fc_host'', candidatePath, ''/dev/sdb'',
                                   ''/sys/block/sdb/device/delete'', mpathLink])\<rparr>"

text \<open>
  The writes to the scan control files in a trace, in order (\<open>scanWrites\<close>); the
  normalized form of \<open>descrBroadcast\<close>; and \<open>hostSecondHBAOnly\<close>, where the first
  HBA sees neither target port and the second sees one.
\<close>

definition isScanWrite :: "event \<Rightarrow> bool" where
  "isScanWrite e = (case e of
      Exec n a \<Rightarrow> n = ''sh'' \<and> length a = 2 \<and> strings_HasPrefix (last a) ''echo ''
    | _ \<Rightarrow> False)"

definition scanWrites :: "trace \<Rightarrow> string list" where
  "scanWrites tr = map (\<lambda>e. case e of Exec n a \<Rightarrow> last a | _ \<Rightarrow> []) (filter isScanWrite tr)"

definition descrBroadcastNormalized :: props where
  "descrBroadcastNormalized = descrBroadcast
     (''target_wwn'' \<mapsto> VStrs [''20210002ac00383d'', ''20220002ac00383d''],
      ''targets'' \<mapsto> VTargets fcTargets)"

definition hostSecondHBAOnly :: env where
  "hostSecondHBAOnly = hostAttached\<lparr>
     combinedOutput := (\<lambda>tr n a. if n = ''sh'' \<and> a = [''-c'', grepCommand ''20210002ac00383d'' ''6'']
                                  then ([], Some (OSError ''exit status 1'')) else fcOutputs tr n a)\<rparr>"

definition wildcards :: "string list \<Rightarrow> string list list" where
  "wildcards lunsWildcards = map (\<lambda>k. [''-'', ''-'', k]) lunsWildcards"

text \<open>
  The trace of a rescan of \<open>fcHBAs\<close> from the empty trace when the first HBA has been
  probed (\<open>firstProbed\<close>) and when its entry has then been scanned (\<open>firstScanned\<close>).
\<close>

definition firstProbed :: "env \<Rightarrow> trace" where
  "firstProbed h =
     snd (getHBAChannelSCSITargetLun h (hd fcHBAs) descrBroadcastNormalized
            ([] @ [Log ''rescaning HBAs %v with connection properties %#v'']))"

definition firstScanned :: "env \<Rightarrow> string list list \<Rightarrow> trace" where
  "firstScanned h triples = snd (scanProcess h [(hd fcHBAs, triples)] (firstProbed h))"


text \<open>
  For C7: the raw read that probes a candidate (\<open>rawRead\<close>), whether it succeeds after
  a trace (\<open>readable\<close>), and the record of an attempt in which no candidate proves
  valid (\<open>checksOf\<close>): each candidate in turn is checked for existence and, where it
  exists, read; the read that fails is logged.
\<close>

definition rawRead :: "string \<Rightarrow> event" where
  "rawRead dev = Exec ''dd'' [''if='' @ dev, ''of=/dev/null'', ''count=1'']"

definition readable :: "env \<Rightarrow> trace \<Rightarrow> string \<Rightarrow> bool" where
  "readable h t dev = (snd (combinedOutput h t ''dd'' [''if='' @ dev, ''of=/dev/null'', ''count=1'']) = None)"

fun checksOf :: "env \<Rightarrow> trace \<Rightarrow> string list \<Rightarrow> event list" where
  "checksOf h t [] = []"
| "checksOf h t (dev # devs) =
     (if os_Stat h t dev
      then [Stat dev, rawRead dev, Log ''failed to access the device on the path '']
           @ checksOf h (t @ [Stat dev, rawRead dev, Log ''failed to access the device on the path '']) devs
      else [Stat dev] @ checksOf h (t @ [Stat dev]) devs)"

text \<open>
  \<open>hostUnreadable\<close>: as \<open>hostAttached\<close>, but the raw read of every device fails.
\<close>

definition hostUnreadable :: env where
  "hostUnreadable = hostAttached\<lparr>
     combinedOutput := (\<lambda>tr n a. if n = ''dd'' then ([], Some (OSError ''exit status 1''))
                                  else fcOutputs tr n a)\<rparr>"

section \<open>Verification: LUN normalization\<close>

lemma digitsBase_value:
  "2 \<le> b \<Longrightarrow> foldl (\<lambda>a d. a * b + d) 0 (digitsBase b n) = n"
proof (induction b n rule: digitsBase.induct)
  case (1 b n)
  show ?case
  proof (cases "n < b \<or> b < 2")
    case True
    then show ?thesis by (simp add: digitsBase.simps)
  next
    case False
    with 1 have "foldl (\<lambda>a d. a * b + d) 0 (digitsBase b (n div b)) = n div b" by simp
    with False show ?thesis by (subst digitsBase.simps) simp
  qed
qed

lemma digitsBase_digit:
  "2 \<le> b \<Longrightarrow> d \<in> set (digitsBase b n) \<Longrightarrow> d < b"
proof (induction b n rule: digitsBase.induct)
  case (1 b n)
  show ?case
  proof (cases "n < b \<or> b < 2")
    case True
    with 1(2,3) show ?thesis by (simp add: digitsBase.simps)
  next
    case False
    with 1(3) have "d \<in> set (digitsBase b (n div b)) \<or> d = n mod b"
      by (subst (asm) digitsBase.simps) auto
    with 1(1)[OF False] 1(2) False show ?thesis by auto
  qed
qed

lemma length_digitsBase:
  "2 \<le> b \<Longrightarrow> n < b ^ Suc k \<Longrightarrow> length (digitsBase b n) \<le> Suc k"
proof (induction k arbitrary: n)
  case 0
  then show ?case by (simp add: digitsBase.simps)
next
  case (Suc k)
  show ?case
  proof (cases "n < b")
    case True
    then show ?thesis by (simp add: digitsBase.simps)
  next
    case False
    have "n div b < b ^ Suc k"
      using Suc.prems by (simp add: less_mult_imp_div_less mult.commute)
    then have "length (digitsBase b (n div b)) \<le> Suc k" using Suc by simp
    with False Suc.prems(1) show ?thesis by (subst digitsBase.simps) simp
  qed
qed

lemma hexDigitVal_hexDigit: "d < 16 \<Longrightarrow> hexDigitVal (hexDigit d) = d"
proof -
  assume "d < 16"
  then have "d \<in> {0,1,2,3,4,5,6,7,8,9,10,11,12,13,14,15}"
    by (simp only: insert_iff empty_iff) arith
  then show ?thesis by (auto simp: hexDigitVal_def hexDigit_def)
qed

lemma hexValue_map_hexDigit:
  "\<forall>d \<in> set ds. d < 16 \<Longrightarrow>
   foldl (\<lambda>a c. a * 16 + hexDigitVal c) acc (map hexDigit ds) = foldl (\<lambda>a d. a * 16 + d) acc ds"
  by (induction ds arbitrary: acc) (simp_all add: hexDigitVal_hexDigit)

lemma hexValue_replicate0:
  "foldl (\<lambda>a c. a * 16 + hexDigitVal c) 0 (replicate k CHR ''0'') = 0"
  by (induction k) (simp_all add: hexDigitVal_def)

lemma fmt_04x_spec:
  assumes "0 \<le> n" "n < 65536"
  shows "length (fmt_04x n) = 4 \<and> hexValue (fmt_04x n) = nat n"
proof -
  let ?ds = "digitsBase 16 (nat n)"
  have len: "length ?ds \<le> 4"
    using length_digitsBase [of 16 "nat n" 3] assms by simp
  have dig: "\<forall>d \<in> set ?ds. d < 16" using digitsBase_digit [of 16] by auto
  have val: "foldl (\<lambda>a d. a * 16 + d) 0 ?ds = nat n"
    using digitsBase_value [of 16 "nat n"] by simp
  have "hexValue (padZero 4 (map hexDigit ?ds)) = nat n"
    unfolding hexValue_def padZero_def
    by (simp add: hexValue_replicate0 hexValue_map_hexDigit [OF dig] val)
  moreover have "length (padZero 4 (map hexDigit ?ds)) = 4"
    using len by (simp add: padZero_def)
  ultimately show ?thesis using assms by (simp add: fmt_04x_def)
qed

lemma and_ffff: "(n::int) AND 0xffff = n mod 65536"
proof -
  have "(0xffff::int) = mask 16" by (simp add: mask_eq_exp_minus_1)
  then show ?thesis by (simp only: flip: take_bit_eq_mask) (simp add: take_bit_eq_mod)
qed

lemma formatLunID_extended:
  assumes "256 \<le> n"
  shows "\<exists>lo hi. formatLunID (VInt n) = Inr (VStr (''0x'' @ lo @ hi @ ''00000000''))
           \<and> length lo = 4 \<and> length hi = 4
           \<and> hexValue lo = nat (n mod 65536) \<and> hexValue hi = nat (n div 65536 mod 65536)"
proof -
  have lo: "length (fmt_04x (n AND 0xffff)) = 4 \<and> hexValue (fmt_04x (n AND 0xffff)) = nat (n mod 65536)"
    using fmt_04x_spec [of "n mod 65536"] by (simp add: and_ffff)
  have hi: "length (fmt_04x (drop_bit 16 n AND 0xffff)) = 4
      \<and> hexValue (fmt_04x (drop_bit 16 n AND 0xffff)) = nat (n div 65536 mod 65536)"
    using fmt_04x_spec [of "n div 65536 mod 65536"] by (simp add: and_ffff drop_bit_eq_div)
  from assms have "formatLunID (VInt n) =
      Inr (VStr (''0x'' @ fmt_04x (n AND 0xffff) @ fmt_04x (drop_bit 16 n AND 0xffff) @ ''00000000''))"
    by (simp add: formatLunID_def)
  with lo hi show ?thesis by blast
qed

text \<open>
  C5 (as amended). An integer LUN below 256 is returned as it is. An integer LUN of 256 or
  more becomes the text \<open>0x\<close>, four hexadecimal digits of its low 16 bits, four of its
  next 16 bits, and eight zeros. A string LUN that \<open>strconv.Atoi\<close> accepts with a value
  below 256 becomes that integer, and one that it rejects is an error. In particular
  5 gives 5, 300 gives \<open>0x012c000000000000\<close>, the string \<open>42\<close> gives 42 and the string
  \<open>abc\<close> fails.
\<close>

theorem C5_lun_normalization:
  "(n < 256 \<longrightarrow> ProcessLunID (VInt n) = Inr (VInt n))
   \<and> (256 \<le> n \<longrightarrow>
        (\<exists>lo hi. ProcessLunID (VInt n) = Inr (VStr (''0x'' @ lo @ hi @ ''00000000''))
           \<and> length lo = 4 \<and> length hi = 4
           \<and> hexValue lo = nat (n mod 65536) \<and> hexValue hi = nat (n div 65536 mod 65536)))
   \<and> (strconv_Atoi s = Inr i \<and> i < 256 \<longrightarrow> ProcessLunID (VStr s) = Inr (VInt i))
   \<and> (strconv_Atoi s = Inl e \<longrightarrow> (\<exists>e'. ProcessLunID (VStr s) = Inl e'))
   \<and> ProcessLunID (VInt 5) = Inr (VInt 5)
   \<and> ProcessLunID (VInt 300) = Inr (VStr ''0x012c000000000000'')
   \<and> ProcessLunID (VStr ''42'') = Inr (VInt 42)
   \<and> ProcessLunID (VStr ''abc'') = Inl (Errorf ''lun_id cannot convert to int: %s'' [''abc''])"
proof -
  have a: "n < 256 \<longrightarrow> ProcessLunID (VInt n) = Inr (VInt n)"
    by (simp add: ProcessLunID_def formatLunID_def)
  have b: "256 \<le> n \<longrightarrow>
        (\<exists>lo hi. ProcessLunID (VInt n) = Inr (VStr (''0x'' @ lo @ hi @ ''00000000''))
           \<and> length lo = 4 \<and> length hi = 4
           \<and> hexValue lo = nat (n mod 65536) \<and> hexValue hi = nat (n div 65536 mod 65536))"
    using formatLunID_extended [of n] by (simp add: ProcessLunID_def)
  have c: "strconv_Atoi s = Inr i \<and> i < 256 \<longrightarrow> ProcessLunID (VStr s) = Inr (VInt i)"
    by (simp add: ProcessLunID_def formatLunID_def)
  have d: "strconv_Atoi s = Inl e \<longrightarrow> (\<exists>e'. ProcessLunID (VStr s) = Inl e')"
    by (simp add: ProcessLunID_def formatLunID_def)
  have e1: "ProcessLunID (VInt 5) = Inr (VInt 5)" by code_simp
  have e2: "ProcessLunID (VInt 300) = Inr (VStr ''0x012c000000000000'')" by code_simp
  have e3: "ProcessLunID (VStr ''42'') = Inr (VInt 42)" by code_simp
  have e4: "ProcessLunID (VStr ''abc'') = Inl (Errorf ''lun_id cannot convert to int: %s'' [''abc''])"
    by code_simp
  from a b c d e1 e2 e3 e4 show ?thesis by blast
qed

theorem C5_lun_normalization_witness:
  "ProcessLunID (VInt 7) = Inr (VInt 7)
   \<and> (\<exists>lo hi. ProcessLunID (VInt 70000) = Inr (VStr (''0x'' @ lo @ hi @ ''00000000''))
         \<and> length lo = 4 \<and> length hi = 4 \<and> hexValue lo = 4464 \<and> hexValue hi = 1)
   \<and> ProcessLunID (VStr ''255'') = Inr (VInt 255)
   \<and> (\<exists>e'. ProcessLunID (VStr ''1x'') = Inl e')"
proof -
  have h1: "strconv_Atoi ''255'' = Inr 255" by code_simp
  have h2: "strconv_Atoi ''1x'' = Inl (NumError ''Atoi'' ''1x'' ''invalid syntax'')" by code_simp
  show ?thesis
    using C5_lun_normalization [of 7 "''255''" 255]
      C5_lun_normalization [of 70000 "''1x''" 0 "NumError ''Atoi'' ''1x'' ''invalid syntax''"] h1 h2
    by simp
qed

text \<open>
  C5 as stated fails: 300 is \<open>0x012c\<close>, so its extended form is not
  \<open>0x002c000000000000\<close>; and the numeric string \<open>300\<close> is returned as the integer
  300, not in the extended form.
\<close>

theorem C5_counterexample:
  "ProcessLunID (VInt 300) \<noteq> Inr (VStr ''0x002c000000000000'')
   \<and> ProcessLunID (VStr ''300'') = Inr (VInt 300)"
  by code_simp

section \<open>Verification: the flush policy\<close>

text \<open>The directory part of \<open>filepath.Split\<close> is empty or ends with the separator.\<close>

lemma filepath_Split_dir_ne: "fst (filepath_Split p) \<noteq> ''/dev''"
proof -
  let ?file = "rev (takeWhile (\<lambda>c. c \<noteq> CHR ''/'') (rev p))"
  let ?dir = "take (length p - length ?file) p"
  have "?dir = [] \<or> last ?dir = CHR ''/''"
  proof (cases "dropWhile (\<lambda>c. c \<noteq> CHR ''/'') (rev p)")
    case Nil
    then have "takeWhile (\<lambda>c. c \<noteq> CHR ''/'') (rev p) = rev p"
      by (metis append_Nil2 takeWhile_dropWhile_id)
    then have "length ?file = length p" by (metis length_rev)
    then show ?thesis by simp
  next
    case (Cons a as)
    then have a: "a = CHR ''/''" using hd_dropWhile [of "\<lambda>c. c \<noteq> CHR ''/''" "rev p"] by auto
    have "rev p = takeWhile (\<lambda>c. c \<noteq> CHR ''/'') (rev p) @ a # as"
      using Cons by (metis takeWhile_dropWhile_id)
    then have "p = rev as @ [a] @ ?file" by (metis rev_append rev_rev_ident rev.simps(2) append_assoc append_Cons append_Nil)
    then have "?dir = rev as @ [a]"
      by (metis append_assoc append_eq_conv_conj add_diff_cancel_right' length_append)
    with a show ?thesis by simp
  qed
  then show ?thesis by (auto simp: filepath_Split_def Let_def)
qed

text \<open>
  C3 (as amended). \<open>RequiresFlush\<close> returns false, touching nothing, when
  \<open>pathUsed\<close> is empty or \<open>wasMultipath\<close> is true. Otherwise it resolves the
  real target of the candidate and then of the used path, fails if either does not
  resolve, and returns true whenever the two real targets are identical and whenever the
  used path's real target does not lie directly under \<open>/dev\<close> (a redirection
  outside \<open>/dev\<close> requires a flush).
\<close>

theorem C3_requires_flush:
  "(pathUsed = [] \<or> wasMultipath \<longrightarrow>
      RequiresFlush h devicePath pathUsed wasMultipath tr = (Inr False, tr))
   \<and> (pathUsed \<noteq> [] \<and> \<not> wasMultipath
        \<and> evalSymlinks h tr devicePath = Inr rPath
        \<and> evalSymlinks h (tr @ [EvalSymlinks devicePath]) pathUsed = Inr rPathUsed
        \<and> (rPathUsed = rPath \<or> fst (filepath_Split rPathUsed) \<noteq> ''/dev/'') \<longrightarrow>
      fst (RequiresFlush h devicePath pathUsed wasMultipath tr) = Inr True)
   \<and> (pathUsed \<noteq> [] \<and> \<not> wasMultipath \<and> evalSymlinks h tr devicePath = Inl err \<longrightarrow>
      (\<exists>e. fst (RequiresFlush h devicePath pathUsed wasMultipath tr) = Inl e))
   \<and> (pathUsed \<noteq> [] \<and> \<not> wasMultipath
        \<and> evalSymlinks h tr devicePath = Inr rPath
        \<and> evalSymlinks h (tr @ [EvalSymlinks devicePath]) pathUsed = Inl err \<longrightarrow>
      (\<exists>e. fst (RequiresFlush h devicePath pathUsed wasMultipath tr) = Inl e))"
  using filepath_Split_dir_ne [of rPathUsed]
  by (auto simp: RequiresFlush_def filepath_EvalSymlinks_def)

theorem C3_requires_flush_witness:
  "RequiresFlush hostLinks ''/dev/sdb'' [] False [] = (Inr False, [])
   \<and> RequiresFlush hostLinks ''/dev/sdb'' ''/dev/mapper/mpatha'' True [] = (Inr False, [])
   \<and> fst (RequiresFlush hostLinks ''/dev/sdb''
            ''/dev/disk/by-path/pci-0000:05:00.3-fc-0x2100001b32808c84-lun-1'' False []) = Inr True
   \<and> fst (RequiresFlush hostLinks ''/dev/sdb'' ''/dev/mapper/crypt-1'' False []) = Inr True
   \<and> (\<exists>e. fst (RequiresFlush hostLinks ''/dev/broken'' ''/dev/sdb'' False []) = Inl e)
   \<and> (\<exists>e. fst (RequiresFlush hostLinks ''/dev/sdb'' ''/dev/broken'' False []) = Inl e)"
proof -
  let ?bp = "''/dev/disk/by-path/pci-0000:05:00.3-fc-0x2100001b32808c84-lun-1''"
  have e1: "evalSymlinks hostLinks [] ''/dev/sdb'' = Inr ''/dev/sdb''"
    by (simp add: hostLinks_def hostPlain_def)
  have e2: "evalSymlinks hostLinks ([] @ [EvalSymlinks ''/dev/sdb'']) ?bp = Inr ''/dev/sdb''"
    by (simp add: hostLinks_def hostPlain_def)
  have e3: "evalSymlinks hostLinks ([] @ [EvalSymlinks ''/dev/sdb'']) ''/dev/mapper/crypt-1'' = Inr ''/dev/mapper/crypt-1''"
    by (simp add: hostLinks_def hostPlain_def)
  have e4: "fst (filepath_Split ''/dev/mapper/crypt-1'') \<noteq> ''/dev/''"
    by (simp add: filepath_Split_def)
  have e5: "evalSymlinks hostLinks [] ''/dev/broken'' = Inl (OSError ''lstat /dev/broken: no such file or directory'')"
    by (simp add: hostLinks_def hostPlain_def)
  have e6: "evalSymlinks hostLinks ([] @ [EvalSymlinks ''/dev/sdb'']) ''/dev/broken'' = Inl (OSError ''lstat /dev/broken: no such file or directory'')"
    by (simp add: hostLinks_def hostPlain_def)
  show ?thesis
    using C3_requires_flush [of "[]" False hostLinks "''/dev/sdb''" "[]"]
      C3_requires_flush [of "''/dev/mapper/mpatha''" True hostLinks "''/dev/sdb''" "[]"]
      C3_requires_flush [of ?bp False hostLinks "''/dev/sdb''" "[]" "''/dev/sdb''" "''/dev/sdb''"]
      C3_requires_flush [of "''/dev/mapper/crypt-1''" False hostLinks "''/dev/sdb''" "[]" "''/dev/sdb''" "''/dev/mapper/crypt-1''"]
      C3_requires_flush [of "''/dev/sdb''" False hostLinks "''/dev/broken''" "[]" _ _ "OSError ''lstat /dev/broken: no such file or directory''"]
      C3_requires_flush [of "''/dev/broken''" False hostLinks "''/dev/sdb''" "[]" "''/dev/sdb''" _ "OSError ''lstat /dev/broken: no such file or directory''"]
      e1 e2 e3 e4 e5 e6
    by simp
qed

text \<open>
  C3 as stated fails: when the used path resolves to the candidate itself, directly under
  \<open>/dev\<close>, the claim promises false, and the code returns true (the single path
  that was used must be flushed).
\<close>

theorem C3_counterexample:
  "fst (RequiresFlush hostLinks ''/dev/sdb'' ''/dev/sdb'' False []) = Inr True
   \<and> filepath_Split ''/dev/sdb'' = (''/dev/'', ''sdb'')"
  by (simp add: RequiresFlush_def filepath_EvalSymlinks_def hostLinks_def hostPlain_def filepath_Split_def)

section \<open>Verification: property normalization\<close>

lemma lunsOf_storeWwns: "lunsOf (storeWwns cp ws) = lunsOf cp"
  by (simp add: lunsOf_def storeWwns_def propGet_def)

lemma toLowerByte_not_upper: "toLowerByte c \<notin> set asciiUpper"
  by (simp add: toLowerByte_def asciiUpper_def asciiLower_def)

lemma strings_ToLower_not_upper: "\<forall>c \<in> set (strings_ToLower w). c \<notin> set asciiUpper"
  by (simp add: strings_ToLower_def toLowerByte_not_upper)

text \<open>
  C4. Let \<open>wwns\<close> and \<open>luns\<close> be the WWN and LUN lists that normalization reads
  from the descriptor. When they have equal non-zero length, or there are several WWNs
  and exactly one LUN, \<open>addTargetsToConnectionProperties\<close> succeeds and stores a
  \<open>targets\<close> list of \<open>max (length wwns) (length luns)\<close> pairs: the lower-cased
  WWNs in order, each with its own LUN (paired) or with the shared LUN (broadcast), and
  no upper-case letter is left in a WWN. For every other combination of lengths it
  returns the validation error and leaves the \<open>targets\<close> entry of the descriptor as it
  was.
\<close>

theorem C4_normalization:
  assumes "wwnsOf cp = Returns wwns" and "lunsOf cp = Returns luns"
  shows "(length wwns = length luns \<and> 0 < length luns \<or> length luns = 1 \<and> 1 < length wwns \<longrightarrow>
            (\<exists>cp' ts. addTargetsToConnectionProperties cp = (Returns (Inr cp'), cp')
               \<and> cp' ''targets'' = Some (VTargets ts)
               \<and> length ts = max (length wwns) (length luns)
               \<and> map fst ts = map strings_ToLower wwns
               \<and> map snd ts = (if length luns = length wwns then luns else replicate (length wwns) (luns ! 0))
               \<and> (\<forall>t \<in> set ts. \<forall>c \<in> set (fst t). c \<notin> set asciiUpper)))
       \<and> (\<not> (length wwns = length luns \<and> 0 < length luns \<or> length luns = 1 \<and> 1 < length wwns) \<longrightarrow>
            (\<exists>cp1. addTargetsToConnectionProperties cp =
                 (Returns (Inl (Errorf
                    ''unable to find potential volume paths for FC device with luns %#v and wwns %#v'' [])), cp1)
               \<and> cp1 ''targets'' = cp ''targets''))"
proof (intro conjI impI)
  assume ok: "length wwns = length luns \<and> 0 < length luns \<or> length luns = 1 \<and> 1 < length wwns"
  define ts where "ts = (if length luns = length wwns
                         then zip (map strings_ToLower wwns) luns
                         else map (\<lambda>w. (w, luns ! 0)) (map strings_ToLower wwns))"
  have run: "\<exists>cp'. addTargetsToConnectionProperties cp = (Returns (Inr cp'), cp')
                 \<and> cp' ''targets'' = Some (VTargets ts)"
    using assms ok unfolding ts_def
    by (auto simp: addTargetsToConnectionProperties_def lunsOf_storeWwns Let_def
          split: option.split val.split)
  have len: "length ts = max (length wwns) (length luns)"
    using ok by (auto simp: ts_def)
  have fsts: "map fst ts = map strings_ToLower wwns"
    using ok by (auto simp: ts_def comp_def)
  have snds: "map snd ts = (if length luns = length wwns then luns else replicate (length wwns) (luns ! 0))"
    using ok by (auto simp: ts_def comp_def map_replicate_const)
  have low: "\<forall>t \<in> set ts. \<forall>c \<in> set (fst t). c \<notin> set asciiUpper"
  proof
    fix t assume "t \<in> set ts"
    then have "fst t \<in> set (map fst ts)" by simp
    then obtain w where "fst t = strings_ToLower w" unfolding fsts by auto
    then show "\<forall>c \<in> set (fst t). c \<notin> set asciiUpper"
      using strings_ToLower_not_upper by simp
  qed
  from run len fsts snds low
  show "\<exists>cp' ts. addTargetsToConnectionProperties cp = (Returns (Inr cp'), cp')
               \<and> cp' ''targets'' = Some (VTargets ts)
               \<and> length ts = max (length wwns) (length luns)
               \<and> map fst ts = map strings_ToLower wwns
               \<and> map snd ts = (if length luns = length wwns then luns else replicate (length wwns) (luns ! 0))
               \<and> (\<forall>t \<in> set ts. \<forall>c \<in> set (fst t). c \<notin> set asciiUpper)"
    by blast
next
  assume bad: "\<not> (length wwns = length luns \<and> 0 < length luns \<or> length luns = 1 \<and> 1 < length wwns)"
  have "addTargetsToConnectionProperties cp =
      (Returns (Inl (Errorf ''unable to find potential volume paths for FC device with luns %#v and wwns %#v'' [])),
       storeWwns cp (map strings_ToLower wwns))"
    using assms bad
    by (simp add: addTargetsToConnectionProperties_def lunsOf_storeWwns Let_def)
  moreover have "storeWwns cp (map strings_ToLower wwns) ''targets'' = cp ''targets''"
    by (simp add: storeWwns_def)
  ultimately show "\<exists>cp1. addTargetsToConnectionProperties cp =
                 (Returns (Inl (Errorf
                    ''unable to find potential volume paths for FC device with luns %#v and wwns %#v'' [])), cp1)
               \<and> cp1 ''targets'' = cp ''targets''"
    by blast
qed

theorem C4_normalization_witness:
  "(\<exists>cp' ts. addTargetsToConnectionProperties descrBroadcast = (Returns (Inr cp'), cp')
       \<and> cp' ''targets'' = Some (VTargets ts) \<and> length ts = 2
       \<and> map fst ts = [''20210002ac00383d'', ''20220002ac00383d''] \<and> map snd ts = [''1'', ''1''])
   \<and> (\<exists>cp' ts. addTargetsToConnectionProperties descrPaired = (Returns (Inr cp'), cp')
       \<and> cp' ''targets'' = Some (VTargets ts) \<and> length ts = 2
       \<and> map fst ts = [''20210002ac00383d'', ''20220002ac00383d''] \<and> map snd ts = [''1'', ''2''])
   \<and> (\<exists>cp1. addTargetsToConnectionProperties descrMalformed =
          (Returns (Inl (Errorf
              ''unable to find potential volume paths for FC device with luns %#v and wwns %#v'' [])), cp1)
       \<and> cp1 ''targets'' = None)"
proof -
  have w1: "wwnsOf descrBroadcast = Returns [''20210002AC00383D'', ''20220002AC00383D'']"
    by (simp add: wwnsOf_def descrBroadcast_def propGet_def)
  have l1: "lunsOf descrBroadcast = Returns [''1'']"
    by (simp add: lunsOf_def descrBroadcast_def propGet_def)
  have w2: "wwnsOf descrPaired = Returns [''20210002AC00383D'', ''20220002AC00383D'']"
    by (simp add: wwnsOf_def descrPaired_def propGet_def)
  have l2: "lunsOf descrPaired = Returns [''1'', ''2'']"
    by (simp add: lunsOf_def descrPaired_def propGet_def)
  have w3: "wwnsOf descrMalformed = Returns [''20210002AC00383D'']"
    by (simp add: wwnsOf_def descrMalformed_def propGet_def)
  have l3: "lunsOf descrMalformed = Returns [''1'', ''2'']"
    by (simp add: lunsOf_def descrMalformed_def propGet_def)
  have lo: "map strings_ToLower [''20210002AC00383D'', ''20220002AC00383D'']
              = [''20210002ac00383d'', ''20220002ac00383d'']"
    by code_simp
  have t3: "descrMalformed ''targets'' = None" by (simp add: descrMalformed_def)
  have a: "\<exists>cp' ts. addTargetsToConnectionProperties descrBroadcast = (Returns (Inr cp'), cp')
       \<and> cp' ''targets'' = Some (VTargets ts) \<and> length ts = 2
       \<and> map fst ts = [''20210002ac00383d'', ''20220002ac00383d''] \<and> map snd ts = [''1'', ''1'']"
    using C4_normalization [OF w1 l1] lo by (auto simp: numeral_2_eq_2)
  have b: "\<exists>cp' ts. addTargetsToConnectionProperties descrPaired = (Returns (Inr cp'), cp')
       \<and> cp' ''targets'' = Some (VTargets ts) \<and> length ts = 2
       \<and> map fst ts = [''20210002ac00383d'', ''20220002ac00383d''] \<and> map snd ts = [''1'', ''2'']"
    using C4_normalization [OF w2 l2] lo by (auto simp: numeral_2_eq_2)
  have c: "\<exists>cp1. addTargetsToConnectionProperties descrMalformed =
          (Returns (Inl (Errorf
              ''unable to find potential volume paths for FC device with luns %#v and wwns %#v'' [])), cp1)
       \<and> cp1 ''targets'' = None"
    using C4_normalization [OF w3 l3] t3 by auto
  from a b c show ?thesis by blast
qed

section \<open>Verification: waiting for write-readiness\<close>

lemma strings_Split_nonempty: "strings_Split s sep \<noteq> []"
  by (induction s) (auto split: list.splits)

lemma strings_Split_snoc: "strings_Split (s @ [sep]) sep = strings_Split s sep @ [[]]"
  by (induction s) (auto split: list.splits simp: strings_Split_nonempty)

lemma strconv_Atoi_empty: "strconv_Atoi [] = Inl (NumError ''Atoi'' [] ''invalid syntax'')"
  by (simp add: strconv_Atoi_def)

lemma checkBlkdevs_blocked:
  assumes "[] \<in> set ls"
    and "list_all (\<lambda>l. \<not> (strings_Contains (hd (strings_Split l CHR '' '')) deviceWwn
                          \<and> strconv_Atoi (last (strings_Split l CHR '' '')) = Inr 1)) ls"
  shows "\<exists>e. checkBlkdevs h deviceWwn ls tr = (Some e, tr)"
  using assms
proof (induction ls)
  case Nil
  then show ?case by simp
next
  case (Cons l ls)
  show ?case
  proof (cases "strconv_Atoi (last (strings_Split l CHR '' ''))")
    case (Inl e)
    then show ?thesis by (simp add: Let_def)
  next
    case (Inr roi)
    with Cons.prems have "l \<noteq> []" by (auto simp: strconv_Atoi_empty)
    with Cons.prems have "[] \<in> set ls" by auto
    with Cons Inr show ?thesis by (auto simp: Let_def)
  qed
qed

lemma WaitForRW_blocked:
  assumes "rwOutputBlocked deviceWwn (fst (combinedOutput h (tr @ [Log ''checking to see if %s is read-only'']) ''lsblk'' lsblkArgs))"
  shows "\<exists>e. WaitForRW h deviceWwn devicePath tr =
           (Some e, tr @ [Log ''checking to see if %s is read-only'', Exec ''lsblk'' lsblkArgs])"
proof -
  let ?tr = "tr @ [Log ''checking to see if %s is read-only'']"
  obtain out err where oe: "combinedOutput h ?tr ''lsblk'' lsblkArgs = (out, err)" by force
  with assms have b: "rwOutputBlocked deviceWwn out" by simp
  then obtain s where s: "out = s @ [CHR 0x0A]"
    unfolding rwOutputBlocked_def by (metis append_butlast_last_id)
  then have "[] \<in> set (strings_Split out CHR 0x0A)" by (simp add: strings_Split_snoc)
  with b have "\<exists>e. checkBlkdevs h deviceWwn (strings_Split out CHR 0x0A) (?tr @ [Exec ''lsblk'' lsblkArgs])
      = (Some e, ?tr @ [Exec ''lsblk'' lsblkArgs])"
    unfolding rwOutputBlocked_def by (intro checkBlkdevs_blocked) simp_all
  with oe show ?thesis
    by (cases err) (auto simp: WaitForRW_def Execute_def logPrintf_def lsblkArgs_def)
qed

lemma waitForRWAttempt_blocked:
  assumes "\<forall>t. rwOutputBlocked deviceWwn (fst (combinedOutput h t ''lsblk'' lsblkArgs))"
  shows "waitForRWAttempt h deviceWwn devicePath n (c, t) = (Returns False, (), t @ rwAttemptEvents)"
proof -
  obtain e where "WaitForRW h deviceWwn devicePath t = (Some e, t @ rwAttemptEvents)"
    using WaitForRW_blocked [of deviceWwn h t devicePath] assms
    unfolding rwAttemptEvents_def by blast
  then show ?thesis by (simp add: waitForRWAttempt_def)
qed

lemma retry_blocked:
  assumes "\<forall>t. rwOutputBlocked deviceWwn (fst (combinedOutput h t ''lsblk'' lsblkArgs))"
  shows "RunWithRetry 5 iv (waitForRWAttempt h deviceWwn devicePath) ((), tr) =
           (Returns False, (),
            tr @ rwAttemptEvents @ [Tick iv] @ rwAttemptEvents @ [Tick iv] @ rwAttemptEvents @ [Tick iv]
               @ rwAttemptEvents @ [Tick iv] @ rwAttemptEvents @ [Tick iv])"
  by (simp add: RunWithRetry_def retryLoop.simps waitForRWAttempt_blocked [OF assms])

lemma FindMultipathDevicePath_nonempty:
  "FindMultipathDevicePath h wwn tr = (Inr path, tr1) \<Longrightarrow> path \<noteq> []"
  by (auto simp: FindMultipathDevicePath_def split: prod.splits bool.splits)

text \<open>
  C10. When the \<^verbatim>\<open>lsblk\<close> output ends with a line feed and has no read-only row
  for the WWN, \<open>WaitForRW\<close> returns an error, never the nil that means "not
  read-only". When every \<^verbatim>\<open>lsblk\<close> output is of that kind, the write-readiness
  retry makes its five attempts and gives up; \<open>discoverMPathDevice\<close> (reached with an
  access mode other than \<open>ro\<close>) runs exactly these five attempts after the symlink
  wait, each a call of \<^verbatim>\<open>lsblk\<close> followed by a wait of one second, then logs that the
  device is still read-only and continues.
\<close>

theorem C10_waitForRW_trailing_newline:
  "(rwOutputBlocked deviceWwn
        (fst (combinedOutput h (tr @ [Log ''checking to see if %s is read-only'']) ''lsblk'' lsblkArgs)) \<longrightarrow>
      (\<exists>e. fst (WaitForRW h deviceWwn devicePath tr) = Some e))
   \<and> ((\<forall>t. rwOutputBlocked deviceWwn (fst (combinedOutput h t ''lsblk'' lsblkArgs))) \<longrightarrow>
        RunWithRetry 5 1 (waitForRWAttempt h deviceWwn devicePath) ((), tr) =
           (Returns False, (),
            tr @ rwAttemptEvents @ [Tick 1] @ rwAttemptEvents @ [Tick 1] @ rwAttemptEvents @ [Tick 1]
               @ rwAttemptEvents @ [Tick 1] @ rwAttemptEvents @ [Tick 1])
        \<and> (\<forall>path tr1 am. FindMultipathDevicePath h deviceWwn tr = (Inr path, tr1)
              \<and> connProperties ''access_mode'' = Some am \<and> am \<noteq> VStr ''ro'' \<longrightarrow>
              discoverMPathDevice h deviceWwn connProperties deviceName tr =
                 (Returns (Inr (path, deviceWwn)),
                  tr1 @ rwAttemptEvents @ [Tick 1] @ rwAttemptEvents @ [Tick 1] @ rwAttemptEvents @ [Tick 1]
                      @ rwAttemptEvents @ [Tick 1] @ rwAttemptEvents @ [Tick 1]
                      @ [Log ''block device %s is still read-only. Continuing anyway.''])))"
proof (intro conjI impI allI)
  assume "rwOutputBlocked deviceWwn
        (fst (combinedOutput h (tr @ [Log ''checking to see if %s is read-only'']) ''lsblk'' lsblkArgs))"
  from WaitForRW_blocked [OF this, of devicePath]
  show "\<exists>e. fst (WaitForRW h deviceWwn devicePath tr) = Some e" by auto
next
  assume a: "\<forall>t. rwOutputBlocked deviceWwn (fst (combinedOutput h t ''lsblk'' lsblkArgs))"
  show "RunWithRetry 5 1 (waitForRWAttempt h deviceWwn devicePath) ((), tr) =
           (Returns False, (),
            tr @ rwAttemptEvents @ [Tick 1] @ rwAttemptEvents @ [Tick 1] @ rwAttemptEvents @ [Tick 1]
               @ rwAttemptEvents @ [Tick 1] @ rwAttemptEvents @ [Tick 1])"
    by (rule retry_blocked [OF a])
next
  fix path tr1 am
  assume a: "\<forall>t. rwOutputBlocked deviceWwn (fst (combinedOutput h t ''lsblk'' lsblkArgs))"
    and b: "FindMultipathDevicePath h deviceWwn tr = (Inr path, tr1)
              \<and> connProperties ''access_mode'' = Some am \<and> am \<noteq> VStr ''ro''"
  from b have ne: "path \<noteq> []" using FindMultipathDevicePath_nonempty by blast
  from b ne show "discoverMPathDevice h deviceWwn connProperties deviceName tr =
                 (Returns (Inr (path, deviceWwn)),
                  tr1 @ rwAttemptEvents @ [Tick 1] @ rwAttemptEvents @ [Tick 1] @ rwAttemptEvents @ [Tick 1]
                      @ rwAttemptEvents @ [Tick 1] @ rwAttemptEvents @ [Tick 1]
                      @ [Log ''block device %s is still read-only. Continuing anyway.''])"
    by (simp add: discoverMPathDevice_def retry_blocked [OF a] logPrintf_def)
qed

theorem C10_waitForRW_trailing_newline_witness:
  "(\<exists>e. fst (WaitForRW hostReadWrite ''3624a93709a738ed78583fd120013902b'' ''/dev/dm-1'' []) = Some e)
   \<and> fst (RunWithRetry 5 1 (waitForRWAttempt hostReadWrite ''3624a93709a738ed78583fd120013902b'' ''/dev/dm-1'')
            ((), [])) = Returns False
   \<and> discoverMPathDevice hostReadWrite ''3624a93709a738ed78583fd120013902b''
                [''access_mode'' \<mapsto> VStr ''rw''] ''/dev/sdb'' [] =
          (Returns (Inr (''/dev/disk/by-id/dm-uuid-mpath-3624a93709a738ed78583fd120013902b'',
                         ''3624a93709a738ed78583fd120013902b'')),
           [Stat ''/dev/disk/by-id/dm-uuid-mpath-3624a93709a738ed78583fd120013902b'',
            Log ''checking to see if %s is read-only'', Exec ''lsblk'' [''-o'', ''NAME,RO'', ''-l'', ''-n''], Tick 1,
            Log ''checking to see if %s is read-only'', Exec ''lsblk'' [''-o'', ''NAME,RO'', ''-l'', ''-n''], Tick 1,
            Log ''checking to see if %s is read-only'', Exec ''lsblk'' [''-o'', ''NAME,RO'', ''-l'', ''-n''], Tick 1,
            Log ''checking to see if %s is read-only'', Exec ''lsblk'' [''-o'', ''NAME,RO'', ''-l'', ''-n''], Tick 1,
            Log ''checking to see if %s is read-only'', Exec ''lsblk'' [''-o'', ''NAME,RO'', ''-l'', ''-n''], Tick 1,
            Log ''block device %s is still read-only. Continuing anyway.''])"
proof -
  let ?wwn = "''3624a93709a738ed78583fd120013902b''"
  have blocked: "rwOutputBlocked ?wwn lsblkSample" by code_simp
  have out: "\<And>t. fst (combinedOutput hostReadWrite t ''lsblk'' lsblkArgs) = lsblkSample"
    by (simp add: hostReadWrite_def hostPlain_def)
  have fm: "FindMultipathDevicePath hostReadWrite ?wwn [] =
      (Inr (''/dev/disk/by-id/dm-uuid-mpath-'' @ ?wwn), [Stat (''/dev/disk/by-id/dm-uuid-mpath-'' @ ?wwn)])"
    by (simp add: FindMultipathDevicePath_def WaitForPath_def IsFileExists_def hostReadWrite_def hostPlain_def)
  show ?thesis
    using C10_waitForRW_trailing_newline
      [of ?wwn hostReadWrite "[]" "''/dev/dm-1''" "[''access_mode'' \<mapsto> VStr ''rw'']" "''/dev/sdb''"]
      blocked out fm
    by (simp add: rwAttemptEvents_def lsblkArgs_def)
qed

section \<open>Verification: parsing the multipath listing\<close>

lemma strings_Split_sep:
  "sep \<notin> set a \<Longrightarrow> strings_Split (a @ sep # b) sep = a # strings_Split b sep"
  by (induction a) (auto split: list.splits simp: strings_Split_nonempty)

lemma strings_Split_none: "sep \<notin> set a \<Longrightarrow> strings_Split a sep = [a]"
  by (induction a) (auto split: list.splits)

lemma strings_Split_token:
  assumes "sep \<notin> set a" and "tail = [] \<or> hd tail = sep"
  shows "\<exists>rest. strings_Split (a @ tail) sep = a # rest"
proof (cases tail)
  case Nil
  with assms show ?thesis by (simp add: strings_Split_none)
next
  case (Cons c cs)
  with assms have "tail = sep # cs" by simp
  with assms show ?thesis by (simp add: strings_Split_sep)
qed

lemma strings_Split_unlines:
  "list_all (\<lambda>l. CHR 0x0A \<notin> set l) ls \<Longrightarrow> strings_Split (unlines ls) (CHR 0x0A) = ls @ [[]]"
  by (induction ls) (simp_all add: unlines_def strings_Split_sep)

lemma unlines_snoc: "unlines (ls @ [l]) = unlines ls @ l @ [CHR 0x0A]"
  by (simp add: unlines_def)

lemma strings_TrimSpace_line:
  assumes "s \<noteq> []" and "\<not> isSpace (hd s)" and "\<not> isSpace (last s)"
  shows "strings_TrimSpace (s @ [CHR 0x0A]) = s"
proof -
  from assms obtain c s' where s: "s = c # s'" by (cases s) auto
  with assms have l: "dropWhile isSpace (s @ [CHR 0x0A]) = s @ [CHR 0x0A]" by simp
  have nl: "isSpace (CHR 0x0A)" by (simp add: isSpace_def)
  from assms have "rev s = last s # rev (butlast s)"
    by (metis append_butlast_last_id rev.simps(2) rev_rev_ident rev_append append_Nil rev_singleton_conv append_Cons)
  moreover from assms(3) have "dropWhile isSpace (last s # rev (butlast s)) = last s # rev (butlast s)"
    by simp
  ultimately have "dropWhile isSpace (rev s) = rev s" by (simp only:)
  with nl show ?thesis unfolding strings_TrimSpace_def l by simp
qed

lemma lines_of_output:
  assumes "ls \<noteq> []" and "list_all (\<lambda>l. CHR 0x0A \<notin> set l) ls"
    and "hd ls \<noteq> []" and "\<not> isSpace (hd (hd ls))"
    and "last ls \<noteq> []" and "\<not> isSpace (last (last ls))"
  shows "strings_Split (strings_TrimSpace (unlines ls)) (CHR 0x0A) = ls"
proof -
  define s where "s = unlines (butlast ls) @ last ls"
  from assms(1) have u: "unlines ls = s @ [CHR 0x0A]"
    unfolding s_def using unlines_snoc [of "butlast ls" "last ls"] by simp
  from assms(5) have sne: "s \<noteq> []" and sl: "last s = last (last ls)" by (simp_all add: s_def)
  have sh: "hd s = hd (hd ls)"
  proof (cases "butlast ls")
    case Nil
    with assms(1) have "ls = [last ls]" by (metis append_butlast_last_id append_Nil)
    then have "hd ls = last ls" by (metis list.sel(1))
    with Nil show ?thesis by (simp add: s_def unlines_def)
  next
    case (Cons l ls')
    with assms(1) have "ls = l # ls' @ [last ls]" by (metis append_butlast_last_id append_Cons)
    then have "hd ls = l" by (metis list.sel(1))
    with Cons assms(3) show ?thesis by (simp add: s_def unlines_def)
  qed
  from sne sh sl assms have t: "strings_TrimSpace (unlines ls) = s"
    unfolding u by (intro strings_TrimSpace_line) simp_all
  from strings_Split_unlines [OF assms(2)] have "strings_Split s (CHR 0x0A) @ [[]] = ls @ [[]]"
    unfolding u strings_Split_snoc .
  then show ?thesis unfolding t by simp
qed

lemma not_isDigit_space: "\<not> isDigit (CHR '' '')"
  by (simp add: isDigit_def)

lemma isWord_not_space: "isWord c \<Longrightarrow> \<not> isSpace c \<and> c \<noteq> CHR 0x0A"
  by (auto simp: isWord_def isSpace_def asciiUpper_def asciiLower_def)

lemma isDigit_not_newline: "isDigit c \<Longrightarrow> c \<noteq> CHR 0x0A"
  by (auto simp: isDigit_def)

lemma errorLine_matches:
  assumes "wellFormedError e"
  shows "matchMultipathError (errorLine e)"
    and "errorLine e \<noteq> []" and "\<not> isSpace (hd (errorLine e))"
    and "\<not> isSpace (last (errorLine e))" and "CHR 0x0A \<notin> set (errorLine e)"
proof -
  obtain month day time msg where e: "e = (month, day, time, msg)" by (cases e) auto
  from assms e obtain w1 w2 w3 where m: "month = [w1, w2, w3]"
    by (auto simp: wellFormedError_def length_Suc_conv numeral_3_eq_3)
  from assms e obtain a b c d f g where t: "time = [a, b, CHR '':'', c, d, CHR '':'', f, g]"
    and td: "isDigit a" "isDigit b" "isDigit c" "isDigit d" "isDigit f" "isDigit g"
    by (auto simp: wellFormedError_def split: list.splits)
  from assms e m have w: "isWord w1" "isWord w2" "isWord w3"
    and d: "day \<noteq> []" "\<forall>x\<in>set day. isDigit x"
    and ms: "CHR 0x0A \<notin> set msg" "msg = [] \<or> \<not> isSpace (last msg)"
    by (auto simp: wellFormedError_def list_all_iff)
  have tw: "\<And>rest. takeWhile isDigit (day @ CHR '' '' # rest) = day"
    using d(2) not_isDigit_space by (simp add: takeWhile_append2)
  have dw: "\<And>rest. dropWhile isDigit (day @ CHR '' '' # rest) = CHR '' '' # rest"
    using d(2) not_isDigit_space by (simp add: dropWhile_append2)
  have at: "errorRegexAt (errorLine e)"
    unfolding errorLine_def e m
    using w d(1) td ms(1) by (simp add: errorRegexAt_def tw dw t)
  show "errorLine e \<noteq> []" by (simp add: errorLine_def e m)
  with at show "matchMultipathError (errorLine e)" by (cases "errorLine e") auto
  show "\<not> isSpace (hd (errorLine e))" using w(1) by (simp add: errorLine_def e m isWord_not_space)
  show "\<not> isSpace (last (errorLine e))" using ms(2) by (auto simp: errorLine_def e isSpace_def)
  from w have nm: "w1 \<noteq> CHR 0x0A" "w2 \<noteq> CHR 0x0A" "w3 \<noteq> CHR 0x0A"
    using isWord_not_space by blast+
  from d(2) have nd: "CHR 0x0A \<notin> set day" using isDigit_not_newline by blast
  from td have "a \<noteq> CHR 0x0A" "b \<noteq> CHR 0x0A" "c \<noteq> CHR 0x0A" "d \<noteq> CHR 0x0A"
    "f \<noteq> CHR 0x0A" "g \<noteq> CHR 0x0A"
    using isDigit_not_newline by blast+
  then have nt: "CHR 0x0A \<notin> set time" unfolding t by simp
  have "set (errorLine e) = set month \<union> set day \<union> set time \<union> set msg \<union> {CHR '' '', CHR ''|''}"
    unfolding errorLine_def e by auto
  with nm nd nt ms(1) show "CHR 0x0A \<notin> set (errorLine e)" unfolding m by simp
qed

lemma filter_error_lines:
  assumes "list_all wellFormedError noise" and "list_all plainLine block"
  shows "filter (\<lambda>l. l \<noteq> [] \<and> \<not> matchMultipathError l) (map errorLine noise @ block) = block"
proof -
  from assms(1) have "filter (\<lambda>l. l \<noteq> [] \<and> \<not> matchMultipathError l) (map errorLine noise) = []"
    by (induction noise) (simp_all add: errorLine_matches(1))
  moreover from assms(2) have "filter (\<lambda>l. l \<noteq> [] \<and> \<not> matchMultipathError l) block = block"
    by (induction block) (simp_all add: plainLine_def)
  ultimately show ?thesis by simp
qed

lemma action_chars:
  assumes "action \<in> set MultipathDeviceActions"
  shows "CHR '' '' \<notin> set action" and "CHR ''('' \<notin> set action"
    and "action \<noteq> []" and "\<not> isSpace (hd action)"
  using assms by (auto simp: MultipathDeviceActions_def isSpace_def)

lemma header_tokens:
  assumes "action \<in> set MultipathDeviceActions" and "wellFormedHeader name wwid tail"
  shows "\<exists>rest. strings_Split (headerLine action name wwid tail) (CHR '' '') = action # name # rest"
proof -
  from assms(2) have n: "CHR '' '' \<notin> set name" by (simp add: wellFormedHeader_def)
  have "\<exists>rest. strings_Split (name @ (case wwid of Some w \<Rightarrow> '' ('' @ w @ '')'' | None \<Rightarrow> []) @ tail) (CHR '' '')
          = name # rest"
  proof (cases wwid)
    case None
    with assms(2) have "tail = [] \<or> hd tail = CHR '' ''" by (simp add: wellFormedHeader_def)
    from strings_Split_token [OF n this] None show ?thesis by simp
  next
    case (Some w)
    from n show ?thesis unfolding Some by (simp add: strings_Split_sep)
  qed
  then obtain rest where
    "strings_Split (name @ (case wwid of Some w \<Rightarrow> '' ('' @ w @ '')'' | None \<Rightarrow> []) @ tail) (CHR '' '')
          = name # rest" by blast
  with action_chars(1) [OF assms(1)] show ?thesis
    unfolding headerLine_def by (simp add: strings_Split_sep)
qed

lemma findWWIDSubmatch_skip: "CHR ''('' \<notin> set a \<Longrightarrow> findWWIDSubmatch (a @ b) = findWWIDSubmatch b"
  by (induction a) auto

lemma findWWIDSubmatch_none: "CHR ''('' \<notin> set a \<Longrightarrow> findWWIDSubmatch a = []"
  by (induction a) auto

lemma wwidAt_group:
  assumes "w \<noteq> []" and "CHR '')'' \<notin> set t" and "CHR 0x0A \<notin> set w" and "CHR 0x0A \<notin> set t"
  shows "wwidAt (w @ CHR '')'' # t) = Some w"
proof -
  from assms(3,4) have seg: "takeWhile (\<lambda>c. c \<noteq> CHR 0x0A) (w @ CHR '')'' # t) = w @ CHR '')'' # t"
    by (intro takeWhile_eq_all_conv [THEN iffD2]) auto
  have "dropWhile (\<lambda>c. c \<noteq> CHR '')'') (rev t @ CHR '')'' # rev w)
          = dropWhile (\<lambda>c. c \<noteq> CHR '')'') (CHR '')'' # rev w)"
    by (rule dropWhile_append2) (use assms(2) in auto)
  then have "dropWhile (\<lambda>c. c \<noteq> CHR '')'') (rev t @ CHR '')'' # rev w) = CHR '')'' # rev w"
    by simp
  then have body: "rev (dropWhile (\<lambda>c. c \<noteq> CHR '')'') (rev (w @ CHR '')'' # t))) = w @ [CHR '')'']"
    by simp
  from assms(1) show ?thesis unfolding wwidAt_def seg Let_def body
    by (cases w) simp_all
qed

lemma header_wwid:
  assumes "action \<in> set MultipathDeviceActions" and "wellFormedHeader name wwid tail"
    and "CHR 0x0A \<notin> set (headerLine action name wwid tail)"
  shows "findWWIDSubmatch (headerLine action name wwid tail) =
           (case wwid of Some w \<Rightarrow> [''('' @ w @ '')'', w] | None \<Rightarrow> [])"
proof (cases wwid)
  case None
  with assms(2) action_chars(2) [OF assms(1)] have "CHR ''('' \<notin> set (headerLine action name wwid tail)"
    by (simp add: headerLine_def wellFormedHeader_def)
  then show ?thesis using None by (simp add: findWWIDSubmatch_none)
next
  case (Some w)
  with assms(2) have w: "w \<noteq> []" "CHR '')'' \<notin> set tail" "CHR ''('' \<notin> set name"
    by (simp_all add: wellFormedHeader_def)
  from assms(3) Some have nl: "CHR 0x0A \<notin> set w" "CHR 0x0A \<notin> set tail" by (simp_all add: headerLine_def)
  have pre: "CHR ''('' \<notin> set (action @ '' '' @ name @ '' '')"
    using action_chars(2) [OF assms(1)] w(3) by simp
  have "headerLine action name wwid tail = (action @ '' '' @ name @ '' '') @ CHR ''('' # (w @ CHR '')'' # tail)"
    by (simp add: headerLine_def Some)
  then have "findWWIDSubmatch (headerLine action name wwid tail) = findWWIDSubmatch (CHR ''('' # (w @ CHR '')'' # tail))"
    using findWWIDSubmatch_skip [OF pre] by simp
  also have "\<dots> = [''('' @ w @ '')'', w]"
    by (simp add: wwidAt_group [OF w(1,2) nl])
  finally show ?thesis by (simp add: Some)
qed

lemma leg_parse:
  assumes "wellFormedLeg g"
  shows "strings_Split (strings_TrimLeft (legLine g) [CHR '' '', CHR ''|'', CHR ''-'', CHR 0x60]) (CHR '' '') ! 0
           = lt_host g @ CHR '':'' # lt_channel g @ CHR '':'' # lt_id g @ CHR '':'' # lt_lun g"
    and "strings_Split (strings_TrimLeft (legLine g) [CHR '' '', CHR ''|'', CHR ''-'', CHR 0x60]) (CHR '' '') ! 1
           = lt_dev g"
    and "2 \<le> length (strings_Split (strings_TrimLeft (legLine g) [CHR '' '', CHR ''|'', CHR ''-'', CHR 0x60]) (CHR '' ''))"
    and "strings_Split (lt_host g @ CHR '':'' # lt_channel g @ CHR '':'' # lt_id g @ CHR '':'' # lt_lun g) (CHR '':'')
           = [lt_host g, lt_channel g, lt_id g, lt_lun g]"
proof -
  let ?addr = "lt_host g @ CHR '':'' # lt_channel g @ CHR '':'' # lt_id g @ CHR '':'' # lt_lun g"
  let ?body = "?addr @ CHR '' '' # (lt_dev g @ lt_tail g)"
  from assms have lead: "\<forall>c\<in>set (lt_lead g). c \<in> set treeChars"
    unfolding wellFormedLeg_def list_all_iff by (elim conjE)
  from assms have host: "\<forall>c\<in>set (lt_host g). c \<notin> set treeChars"
    unfolding wellFormedLeg_def list_all_iff by (elim conjE)
  from assms have hc: "CHR '':'' \<notin> set (lt_host g)"
    and chan: "CHR '' '' \<notin> set (lt_channel g)" "CHR '':'' \<notin> set (lt_channel g)"
    and ident: "CHR '' '' \<notin> set (lt_id g)" "CHR '':'' \<notin> set (lt_id g)"
    and lun: "CHR '' '' \<notin> set (lt_lun g)" "CHR '':'' \<notin> set (lt_lun g)"
    and dev: "CHR '' '' \<notin> set (lt_dev g)"
    and tail: "lt_tail g = [] \<or> hd (lt_tail g) = CHR '' ''"
    by (simp_all add: wellFormedLeg_def)
  have sp_tree: "CHR '' '' \<in> set treeChars" and colon_tree: "CHR '':'' \<notin> set treeChars"
    by (simp_all add: treeChars_def)
  from host sp_tree have hs: "CHR '' '' \<notin> set (lt_host g)" by blast
  have first: "hd ?body \<notin> set treeChars"
  proof (cases "lt_host g")
    case Nil
    then show ?thesis using colon_tree by simp
  next
    case (Cons c cs)
    with host have "c \<notin> set treeChars" by simp
    with Cons show ?thesis by simp
  qed
  have bne: "?body \<noteq> []" by simp
  have ll: "legLine g = lt_lead g @ ?body" by (simp add: legLine_def)
  have "dropWhile (\<lambda>c. c \<in> set treeChars) (lt_lead g @ ?body) = dropWhile (\<lambda>c. c \<in> set treeChars) ?body"
    by (rule dropWhile_append2) (use lead in blast)
  also from first bne have "\<dots> = ?body"
    by (metis dropWhile.simps(2) list.collapse)
  finally have tl: "strings_TrimLeft (legLine g) [CHR '' '', CHR ''|'', CHR ''-'', CHR 0x60] = ?body"
    unfolding strings_TrimLeft_def ll treeChars_def .
  have as: "CHR '' '' \<notin> set ?addr" using hs chan(1) ident(1) lun(1) by simp
  from strings_Split_token [OF dev tail] obtain rest where
    r: "strings_Split (lt_dev g @ lt_tail g) (CHR '' '') = lt_dev g # rest" by blast
  have sp: "strings_Split (strings_TrimLeft (legLine g) [CHR '' '', CHR ''|'', CHR ''-'', CHR 0x60]) (CHR '' '')
              = ?addr # lt_dev g # rest"
    unfolding tl strings_Split_sep [OF as] r ..
  show "strings_Split (strings_TrimLeft (legLine g) [CHR '' '', CHR ''|'', CHR ''-'', CHR 0x60]) (CHR '' '') ! 0 = ?addr"
    unfolding sp by simp
  show "strings_Split (strings_TrimLeft (legLine g) [CHR '' '', CHR ''|'', CHR ''-'', CHR 0x60]) (CHR '' '') ! 1 = lt_dev g"
    unfolding sp by simp
  show "2 \<le> length (strings_Split (strings_TrimLeft (legLine g) [CHR '' '', CHR ''|'', CHR ''-'', CHR 0x60]) (CHR '' ''))"
    unfolding sp by simp
  show "strings_Split ?addr (CHR '':'') = [lt_host g, lt_channel g, lt_id g, lt_lun g]"
    unfolding strings_Split_sep [OF hc] strings_Split_sep [OF chan(2)] strings_Split_sep [OF ident(2)]
      strings_Split_none [OF lun(2)] ..
qed

lemma parseDeviceLines_legs:
  assumes "filter (\<lambda>l. \<not> strings_Contains l ''policy'') deviceLines = map legLine legs"
    and "list_all wellFormedLeg legs"
  shows "parseDeviceLines deviceLines = Returns (map legOf legs)"
  using assms
proof (induction deviceLines arbitrary: legs)
  case Nil
  then show ?case by simp
next
  case (Cons l ls)
  show ?case
  proof (cases "strings_Contains l ''policy''")
    case True
    with Cons show ?thesis by simp
  next
    case False
    with Cons.prems(1) obtain g gs where legs: "legs = g # gs" and l: "l = legLine g"
      and rest: "filter (\<lambda>l. \<not> strings_Contains l ''policy'') ls = map legLine gs"
      by (cases legs) auto
    from Cons.prems(2) legs have wf: "wellFormedLeg g" and wfs: "list_all wellFormedLeg gs" by simp_all
    note p = leg_parse [OF wf]
    from Cons.IH [OF rest wfs] have ih: "parseDeviceLines ls = Returns (map legOf gs)" .
    have np: "\<not> strings_Contains (legLine g) ''policy''" using False l by simp
    show ?thesis
      unfolding legs l
      using np p(3) by (simp add: Let_def p(1,4) p(2) [unfolded One_nat_def] ih legOf_def del: strings_Contains.simps)
  qed
qed

lemma unlines_nonempty: "ls \<noteq> [] \<Longrightarrow> unlines ls \<noteq> []"
  by (cases ls) (simp_all add: unlines_def)

lemma noise_lines:
  assumes "list_all wellFormedError noise" and "noise \<noteq> []"
  shows "strings_Split (strings_TrimSpace (unlines (map errorLine noise))) (CHR 0x0A) = map errorLine noise"
proof (rule lines_of_output)
  from assms(2) show "map errorLine noise \<noteq> []" by simp
  from assms(1) show "list_all (\<lambda>l. CHR 0x0A \<notin> set l) (map errorLine noise)"
    by (simp add: list_all_iff errorLine_matches(5))
  from assms obtain e es where n: "noise = e # es" by (cases noise) auto
  with assms(1) have e: "wellFormedError e" by simp
  from e show "hd (map errorLine noise) \<noteq> []" "\<not> isSpace (hd (hd (map errorLine noise)))"
    unfolding n by (simp_all add: errorLine_matches(2,3))
  from assms have l: "wellFormedError (last noise)" by (simp add: list_all_iff)
  from assms(2) have "last (map errorLine noise) = errorLine (last noise)" by (simp add: last_map)
  with l show "last (map errorLine noise) \<noteq> []" "\<not> isSpace (last (last (map errorLine noise)))"
    by (simp_all add: errorLine_matches(2,4))
qed

lemma block_lines:
  assumes "list_all wellFormedError noise" and "action \<in> set MultipathDeviceActions"
    and "list_all plainLine (headerLine action name wwid tail # l1 # l2 # deviceLines)"
    and "\<not> isSpace (last (last (l2 # deviceLines)))"
  shows "strings_Split (strings_TrimSpace
            (unlines (map errorLine noise @ headerLine action name wwid tail # l1 # l2 # deviceLines))) (CHR 0x0A)
         = map errorLine noise @ headerLine action name wwid tail # l1 # l2 # deviceLines"
proof (rule lines_of_output)
  let ?h = "headerLine action name wwid tail"
  let ?ls = "map errorLine noise @ ?h # l1 # l2 # deviceLines"
  show "?ls \<noteq> []" by simp
  from assms(1,3) show "list_all (\<lambda>l. CHR 0x0A \<notin> set l) ?ls"
    by (auto simp: list_all_iff errorLine_matches(5) plainLine_def)
  have hh: "?h \<noteq> []" "hd ?h = hd action"
    using action_chars(3) [OF assms(2)] by (simp_all add: headerLine_def)
  show "hd ?ls \<noteq> []"
  proof (cases noise)
    case Nil
    with hh show ?thesis by simp
  next
    case (Cons e es)
    with assms(1) show ?thesis by (simp add: errorLine_matches(2))
  qed
  show "\<not> isSpace (hd (hd ?ls))"
  proof (cases noise)
    case Nil
    with hh action_chars(4) [OF assms(2)] show ?thesis by simp
  next
    case (Cons e es)
    with assms(1) show ?thesis by (simp add: errorLine_matches(3))
  qed
  have l: "last ?ls = last (l2 # deviceLines)" by simp
  from assms(3) have "last (l2 # deviceLines) \<noteq> []"
    by (cases deviceLines rule: rev_cases) (simp_all add: plainLine_def)
  then show "last ?ls \<noteq> []" unfolding l .
  from assms(4) show "\<not> isSpace (last (last ?ls))" unfolding l .
qed



section \<open>Verification: rescans in the trace of ConnectVolume\<close>

text \<open>
  Frame lemmas: of all the functions \<open>ConnectVolume\<close> calls, only \<open>RescanHosts\<close>
  adds a rescan to the trace, and it adds exactly one.
\<close>

lemma rescanCount_append [simp]: "rescanCount (a @ b) = rescanCount a + rescanCount b"
  by (simp add: rescanCount_def)

lemma rescanCount_Nil [simp]: "rescanCount [] = 0"
  by (simp add: rescanCount_def)

lemma rescanCount_Cons [simp]:
  "rescanCount (Stat p # t) = rescanCount t"
  "rescanCount (Exec n a # t) = rescanCount t"
  "rescanCount (ExecTimeout k n a # t) = rescanCount t"
  "rescanCount (EvalSymlinks p # t) = rescanCount t"
  "rescanCount (Open p # t) = rescanCount t"
  "rescanCount (Readdirnames p # t) = rescanCount t"
  "rescanCount (Tick k # t) = rescanCount t"
  "rescanCount (Log s # t) =
     (if s = ''rescaning HBAs %v with connection properties %#v'' then 1 else 0) + rescanCount t"
  by (simp_all add: rescanCount_def isRescanLog_def)

lemma rc_logPrintf [simp]:
  "rescanCount (logPrintf f tr) =
     rescanCount tr + (if f = ''rescaning HBAs %v with connection properties %#v'' then 1 else 0)"
  by (simp add: logPrintf_def)

lemma frameE: "rescanCount (snd f) = n \<Longrightarrow> f = (r, t) \<Longrightarrow> rescanCount t = n"
  by simp

lemma rc_IsFileExists [simp]: "rescanCount (snd (IsFileExists h p tr)) = rescanCount tr"
  by (simp add: IsFileExists_def)

lemma rc_Execute [simp]: "rescanCount (snd (Execute h n a tr)) = rescanCount tr"
  by (simp add: Execute_def)

lemma rc_ExecWithTimeout [simp]: "rescanCount (snd (ExecWithTimeout h k n a tr)) = rescanCount tr"
  by (simp add: ExecWithTimeout_def split: sum.split prod.split)

lemma rc_EvalSymlinks [simp]: "rescanCount (snd (filepath_EvalSymlinks h p tr)) = rescanCount tr"
  by (simp add: filepath_EvalSymlinks_def)

lemma rc_CheckValidDevice [simp]: "rescanCount (snd (CheckValidDevice h p tr)) = rescanCount tr"
proof -
  obtain out err t where e: "Execute h ''dd'' [''if='' @ p, ''of=/dev/null'', ''count=1''] tr = ((out, err), t)"
    by (metis surj_pair)
  then have "rescanCount t = rescanCount tr" using rc_Execute by (metis snd_conv)
  with e show ?thesis by (simp add: CheckValidDevice_def)
qed

lemma rc_GetFCHBAs [simp]: "rescanCount (snd (GetFCHBAs h tr)) = rescanCount tr"
  by (simp add: GetFCHBAs_def HasFCSupport_def IsFileExists_def Execute_def Let_def
        split: prod.split bool.split option.split)

lemma rc_GetFCHBAsInfo [simp]: "rescanCount (snd (GetFCHBAsInfo h tr)) = rescanCount tr"
proof -
  have "snd (GetFCHBAsInfo h tr) = snd (GetFCHBAs h tr)"
    by (simp add: GetFCHBAsInfo_def split: prod.split outcome.split sum.split)
  then show ?thesis by simp
qed

lemma rc_firstPrefix [simp]: "rescanCount (snd (firstPrefix ps tr)) = rescanCount tr"
  by (induction ps arbitrary: tr) (simp_all split: option.split)

lemma rc_getPossibleHostPathPrefix [simp]:
  "rescanCount (snd (getPossibleHostPathPrefix h tr)) = rescanCount tr"
  by (simp add: getPossibleHostPathPrefix_def Let_def split: option.split sum.split)

lemma rc_hostDevicesLoop [simp]:
  "rescanCount (snd (hostDevicesLoop h ds prefix hds tr)) = rescanCount tr"
proof (induction ds arbitrary: prefix hds tr)
  case Nil
  then show ?case by simp
next
  case (Cons d ds)
  show ?case
  proof (cases "ProcessLunID (VStr (snd (snd d)))")
    case (Inl e)
    then show ?thesis by simp
  next
    case (Inr lunID)
    obtain rp t1 where ev: "filepath_EvalSymlinks h (hostDevicePath prefix d lunID) tr = (rp, t1)"
      by force
    then have t1: "rescanCount t1 = rescanCount tr" using rc_EvalSymlinks by (metis snd_conv)
    define found where "found = (case rp of Inl err \<Rightarrow> (False, t1) | Inr p \<Rightarrow> IsFileExists h p t1)"
    have f: "rescanCount (snd found) = rescanCount tr"
      using t1 by (simp add: found_def split: sum.split)
    show ?thesis
    proof (cases "fst found")
      case True
      with Inr ev f Cons show ?thesis by (simp add: found_def [symmetric])
    next
      case False
      obtain r t3 where g: "getPossibleHostPathPrefix h
          (logPrintf ''host device %s with default prefix is not exists, we'll try to find it out'' (snd found)) = (r, t3)"
        by force
      have "rescanCount (snd (getPossibleHostPathPrefix h
          (logPrintf ''host device %s with default prefix is not exists, we'll try to find it out'' (snd found))))
          = rescanCount tr"
        using f by simp
      with g have "rescanCount t3 = rescanCount tr" by simp
      with Inr ev False g Cons show ?thesis
        by (cases r) (simp_all add: found_def [symmetric])
    qed
  qed
qed

lemma rc_getPossibleVolumePaths [simp]:
  "rescanCount (snd (getPossibleVolumePaths h targets hbas tr)) = rescanCount tr"
proof (cases "getPossibleDevices hbas targets")
  case (Returns devs)
  obtain r t where "hostDevicesLoop h devs [] [] tr = (r, t)" by force
  moreover from this have "rescanCount t = rescanCount tr"
    using rc_hostDevicesLoop [of h devs "[]" "[]" tr] by simp
  ultimately show ?thesis
    using Returns by (cases r) (simp_all add: getPossibleVolumePaths_def getHostDevices_def)
next
  case (Panics msg)
  then show ?thesis by (simp add: getPossibleVolumePaths_def)
qed

lemma rc_GetSCSIWWN [simp]: "rescanCount (snd (GetSCSIWWN h p tr)) = rescanCount tr"
  by (simp add: GetSCSIWWN_def Execute_def split: prod.split)

lemma scanCandidates_Cons:
  "scanCandidates h (dev # hds) t =
     (if \<not> os_Stat h t dev then scanCandidates h hds (t @ [Stat dev])
      else if snd (combinedOutput h (t @ [Stat dev]) ''dd'' [''if='' @ dev, ''of=/dev/null'', ''count=1'']) \<noteq> None
      then scanCandidates h hds
             (t @ [Stat dev, Exec ''dd'' [''if='' @ dev, ''of=/dev/null'', ''count=1''],
                   Log ''failed to access the device on the path ''])
      else (Some (dev, case evalSymlinks h
                            (t @ [Stat dev, Exec ''dd'' [''if='' @ dev, ''of=/dev/null'', ''count=1'']]) dev of
                         Inl err \<Rightarrow> [] | Inr deviceName \<Rightarrow> deviceName),
            t @ [Stat dev, Exec ''dd'' [''if='' @ dev, ''of=/dev/null'', ''count=1''], EvalSymlinks dev]))"
  by (simp add: IsFileExists_def CheckValidDevice_def Execute_def filepath_EvalSymlinks_def logPrintf_def
        split: prod.split sum.split)

lemma scanCandidates_trace:
  "\<exists>evs. snd (scanCandidates h hds t) = t @ evs \<and> rescanCount evs = 0
      \<and> (fst (scanCandidates h hds t) = None \<longrightarrow> statPaths evs = hds)"
proof (induction hds arbitrary: t)
  case Nil
  then show ?case by (simp add: statPaths_def)
next
  case (Cons dev hds)
  define dd where "dd = Exec ''dd'' [''if='' @ dev, ''of=/dev/null'', ''count=1'']"
  define lg where "lg = Log ''failed to access the device on the path ''"
  define ok where "ok = (snd (combinedOutput h (t @ [Stat dev]) ''dd'' [''if='' @ dev, ''of=/dev/null'', ''count=1'']) = None)"
  have rc: "rescanCount [Stat dev, dd, lg] = 0" "rescanCount [Stat dev, dd, EvalSymlinks dev] = 0"
    by (simp_all add: dd_def lg_def)
  have sp: "statPaths [Stat dev, dd, lg] = [dev]" "statPaths [Stat dev] = [dev]"
    by (simp_all add: dd_def lg_def statPaths_def)
  have sa: "\<And>a b. statPaths (a @ b) = statPaths a @ statPaths b" by (simp add: statPaths_def)
  have unf: "scanCandidates h (dev # hds) t =
     (if \<not> os_Stat h t dev then scanCandidates h hds (t @ [Stat dev])
      else if \<not> ok then scanCandidates h hds (t @ [Stat dev, dd, lg])
      else (Some (dev, case evalSymlinks h (t @ [Stat dev, dd]) dev of
                         Inl err \<Rightarrow> [] | Inr deviceName \<Rightarrow> deviceName),
            t @ [Stat dev, dd, EvalSymlinks dev]))"
    unfolding dd_def lg_def ok_def by (rule scanCandidates_Cons)
  show ?case
  proof (cases "os_Stat h t dev")
    case False
    from Cons [of "t @ [Stat dev]"] obtain evs where e:
      "snd (scanCandidates h hds (t @ [Stat dev])) = (t @ [Stat dev]) @ evs" "rescanCount evs = 0"
      "fst (scanCandidates h hds (t @ [Stat dev])) = None \<longrightarrow> statPaths evs = hds"
      by (elim exE conjE) (rule that; assumption)
    have eq: "scanCandidates h (dev # hds) t = scanCandidates h hds (t @ [Stat dev])"
      unfolding unf using False by (simp only: if_True not_False_eq_True)
    have "snd (scanCandidates h (dev # hds) t) = t @ ([Stat dev] @ evs)"
      unfolding eq e(1) by (simp only: append_assoc)
    moreover have "rescanCount ([Stat dev] @ evs) = 0"
      using e(2) by (simp only: rescanCount_append rescanCount_Cons rescanCount_Nil)
    moreover have "fst (scanCandidates h (dev # hds) t) = None \<longrightarrow> statPaths ([Stat dev] @ evs) = dev # hds"
      unfolding eq sa sp using e(3) by (simp only: append_Cons append_Nil list.inject simp_thms)
    ultimately show ?thesis by (intro exI conjI)
  next
    case True
    show ?thesis
    proof (cases ok)
      case False
      from Cons [of "t @ [Stat dev, dd, lg]"] obtain evs where e:
        "snd (scanCandidates h hds (t @ [Stat dev, dd, lg])) = (t @ [Stat dev, dd, lg]) @ evs"
        "rescanCount evs = 0"
        "fst (scanCandidates h hds (t @ [Stat dev, dd, lg])) = None \<longrightarrow> statPaths evs = hds"
        by (elim exE conjE) (rule that; assumption)
      have eq: "scanCandidates h (dev # hds) t = scanCandidates h hds (t @ [Stat dev, dd, lg])"
        unfolding unf using True False by (simp only: if_True if_False not_False_eq_True not_True_eq_False)
      have "snd (scanCandidates h (dev # hds) t) = t @ ([Stat dev, dd, lg] @ evs)"
        unfolding eq e(1) by (simp only: append_assoc)
      moreover have "rescanCount ([Stat dev, dd, lg] @ evs) = 0"
        using e(2) rc(1) by (simp only: rescanCount_append add_0)
      moreover have "fst (scanCandidates h (dev # hds) t) = None \<longrightarrow> statPaths ([Stat dev, dd, lg] @ evs) = dev # hds"
        unfolding eq sa sp using e(3) by (simp only: append_Cons append_Nil list.inject simp_thms)
      ultimately show ?thesis by (intro exI conjI)
    next
      case ok: True
      have eq: "scanCandidates h (dev # hds) t =
          (Some (dev, case evalSymlinks h (t @ [Stat dev, dd]) dev of
                         Inl err \<Rightarrow> [] | Inr deviceName \<Rightarrow> deviceName),
            t @ [Stat dev, dd, EvalSymlinks dev])"
        unfolding unf using True ok by (simp only: if_True if_False not_True_eq_False)
      have "snd (scanCandidates h (dev # hds) t) = t @ [Stat dev, dd, EvalSymlinks dev]"
        unfolding eq by (simp only: snd_conv)
      moreover have "fst (scanCandidates h (dev # hds) t) = None \<longrightarrow>
          statPaths [Stat dev, dd, EvalSymlinks dev] = dev # hds"
        unfolding eq by (simp only: fst_conv option.distinct simp_thms)
      ultimately show ?thesis using rc(2) by (intro exI conjI)
    qed
  qed
qed

lemma rc_scanCandidates [simp]: "rescanCount (snd (scanCandidates h hds t)) = rescanCount t"
  using scanCandidates_trace [of h hds t] by auto

lemma rc_EchoSCSICommand [simp]: "rescanCount (snd (EchoSCSICommand h p c tr)) = rescanCount tr"
  by (simp add: EchoSCSICommand_def Execute_def split: prod.split)

lemma rc_scanTargets [simp]:
  "rescanCount (snd (scanTargets h path ts ctls lnf tr)) = rescanCount tr"
proof (induction ts arbitrary: ctls lnf tr)
  case Nil
  then show ?case by simp
next
  case (Cons t ts)
  let ?cmd = "[''-c'', ''grep -Gil '' @ [CHR 0x22] @ fst t @ [CHR 0x22] @ '' '' @ path @ ''*/port_name'']"
  obtain out err where ex: "combinedOutput h tr ''sh'' ?cmd = (out, err)" by force
  define tr2 where "tr2 = (if err \<noteq> None
      then logPrintf ''could not get HBA channel and SCSI target ID, path: %s, resaon:%v'' (tr @ [Exec ''sh'' ?cmd])
      else tr @ [Exec ''sh'' ?cmd])"
  have t2: "rescanCount tr2 = rescanCount tr" by (simp add: tr2_def)
  show ?case
  proof (cases "ctlsOfLines path (snd t) (strings_Split out CHR 0x0A)")
    case (Panics msg)
    with ex t2 show ?thesis by (simp add: Execute_def Let_def tr2_def [symmetric])
  next
    case (Returns cs)
    with ex t2 Cons show ?thesis by (simp add: Execute_def Let_def tr2_def [symmetric])
  qed
qed

lemma rc_getHBAChannelSCSITargetLun [simp]:
  "rescanCount (snd (getHBAChannelSCSITargetLun h hba cp tr)) = rescanCount tr"
proof -
  let ?tr1 = "logPrintf ''getHBAChannelSCSITargetLun: HBA: %#v, connProp: %#v'' tr"
  have t1: "rescanCount ?tr1 = rescanCount tr" by simp
  have "snd (getHBAChannelSCSITargetLun h hba cp tr) = ?tr1
        \<or> (\<exists>path ts. snd (getHBAChannelSCSITargetLun h hba cp tr) = snd (scanTargets h path ts [] [] ?tr1))"
  proof (cases "propGet cp ''targets''")
    case (VTargets targets0)
    define override where "override =
                    (if cp ''initiator_target_map'' \<noteq> None
                     then (case cp ''initiator_target_lun_map'' of
                             Some (VIfaceMap lm) \<Rightarrow> map_of lm (mapGet hba ''port_name'')
                           | _ \<Rightarrow> None)
                     else None)"
    show ?thesis
    proof (cases override)
      case None
      with VTargets show ?thesis
        unfolding getHBAChannelSCSITargetLun_def Let_def override_def [symmetric]
        by (auto simp del: scanTargets.simps)
    next
      case (Some v)
      with VTargets show ?thesis
        unfolding getHBAChannelSCSITargetLun_def Let_def override_def [symmetric]
        by (cases v) (auto simp del: scanTargets.simps)
    qed
  qed (simp_all add: getHBAChannelSCSITargetLun_def Let_def)
  with t1 show ?thesis by (auto simp del: rc_logPrintf)
qed

lemma rc_scanCtls [simp]: "rescanCount (snd (scanCtls h hba cs tr)) = rescanCount tr"
proof (induction cs arbitrary: tr)
  case Nil
  then show ?case by simp
next
  case (Cons c cs)
  show ?case
  proof (cases "length c < 3")
    case True
    then show ?thesis by simp
  next
    case False
    let ?t1 = "logPrintf ''scanning host:%v, wwnn:%s, c:%v, t:%v, l:%v'' tr"
    obtain err t2 where ec: "EchoSCSICommand h (''/sys/class/scsi_host/'' @ mapGet hba ''host_device'' @ ''/scan'')
                      (c ! 0 @ '' '' @ c ! 1 @ '' '' @ c ! 2) ?t1 = (err, t2)" by force
    have t2: "rescanCount t2 = rescanCount tr"
      using frameE [OF rc_EchoSCSICommand ec] by simp
    from False ec t2 Cons show ?thesis by (cases err) (simp_all add: Let_def)
  qed
qed

lemma rc_scanProcess [simp]: "rescanCount (snd (scanProcess h ps tr)) = rescanCount tr"
proof (induction ps arbitrary: tr)
  case Nil
  then show ?case by simp
next
  case (Cons p ps)
  obtain r t where sc: "scanCtls h (fst p) (snd p) tr = (r, t)" by force
  then have "rescanCount t = rescanCount tr" using rc_scanCtls [of h "fst p" "snd p" tr] by simp
  with sc Cons show ?case by (cases r) simp_all
qed

lemma rc_rescanLoop [simp]:
  "rescanCount (snd (rescanLoop h cp broadScan hbas process skipped tr)) = rescanCount tr"
proof (induction hbas arbitrary: process skipped tr)
  case Nil
  then show ?case by simp
next
  case (Cons hba hbas)
  obtain r t1 where g: "getHBAChannelSCSITargetLun h hba cp tr = (r, t1)" by force
  then have t1: "rescanCount t1 = rescanCount tr"
    using rc_getHBAChannelSCSITargetLun [of h hba cp tr] by simp
  show ?case
  proof (cases r)
    case (Panics msg)
    with g t1 show ?thesis by simp
  next
    case (Returns cl)
    obtain ctls lunsWildcards where cl: "cl = (ctls, lunsWildcards)" by force
    define process1 where "process1 = (if 0 < length ctls then process @ [(hba, ctls)] else process)"
    define tr2 where "tr2 = (if 0 < length ctls then t1
                      else if \<not> broadScan
                      then logPrintf ''skipping HBA %s, nothing to scan, target port not connected to initiator'' t1
                      else t1)"
    define skipped1 where "skipped1 = (if 0 < length ctls then skipped
                           else if \<not> broadScan then skipped
                           else if length process = 0
                           then skipped @ [(hba, map (\<lambda>k. [''-'', ''-'', k]) lunsWildcards)]
                           else skipped)"
    define process2 where "process2 = (if length process1 = 0 then skipped1 else process1)"
    have t2: "rescanCount tr2 = rescanCount tr" using t1 by (simp add: tr2_def)
    obtain r3 t3 where sp: "scanProcess h process2 tr2 = (r3, t3)" by force
    then have t3: "rescanCount t3 = rescanCount tr"
      using rc_scanProcess [of h process2 tr2] t2 by simp
    have "rescanLoop h cp broadScan (hba # hbas) process skipped tr =
        (case r3 of Panics msg \<Rightarrow> (Panics msg, t3)
         | Returns u \<Rightarrow> rescanLoop h cp broadScan hbas process2 skipped1 t3)"
      unfolding rescanLoop.simps g Returns cl prod.case outcome.case Let_def
      unfolding process1_def [symmetric] tr2_def [symmetric] skipped1_def [symmetric]
      unfolding process2_def [symmetric] sp prod.case
      by (rule refl)
    with t3 Cons show ?thesis by (cases r3) simp_all
  qed
qed

lemma rc_RescanHosts [simp]:
  "rescanCount (snd (RescanHosts h hbas cp tr)) = Suc (rescanCount tr)"
proof -
  define tr2 where "tr2 =
     (if cp ''initiator_target_lun_map'' \<noteq> None
      then logPrintf ''using initiator target map to exclude HBAs: %v''
             (logPrintf ''rescaning HBAs %v with connection properties %#v'' tr)
      else logPrintf ''rescaning HBAs %v with connection properties %#v'' tr)"
  have t2: "rescanCount tr2 = Suc (rescanCount tr)" by (simp add: tr2_def)
  have "snd (RescanHosts h hbas cp tr) = tr2
        \<or> (\<exists>b. snd (RescanHosts h hbas cp tr) = snd (rescanLoop h cp b hbas [] [] tr2))"
  proof (cases "cp ''enable_wildcard_scan''")
    case None
    then show ?thesis
      unfolding RescanHosts_def Let_def tr2_def [symmetric] by auto
  next
    case (Some v)
    then show ?thesis
      unfolding RescanHosts_def Let_def tr2_def [symmetric] by (cases v) auto
  qed
  with t2 show ?thesis by auto
qed

lemma rc_retryLoop:
  assumes "\<And>n s. rescanCount (snd (snd (exec n s))) = rescanCount (snd s)"
  shows "rescanCount (snd (snd (retryLoop m iv exec k s))) = rescanCount (snd s)"
  using assms
proof (induction m iv exec k s rule: retryLoop.induct)
  case (1 maxRetry interval exec tries c tr)
  show ?case
  proof (cases "tries \<ge> maxRetry")
    case True
    then show ?thesis by (subst retryLoop.simps) simp
  next
    case False
    define r where "r = exec tries (c, tr @ [Tick interval])"
    have r: "rescanCount (snd (snd r)) = rescanCount tr"
      using "1.prems" [of tries "(c, tr @ [Tick interval])"] by (simp add: r_def)
    have unf: "retryLoop maxRetry interval exec tries (c, tr) =
        (case fst r of Panics msg \<Rightarrow> r | Returns True \<Rightarrow> r
         | Returns False \<Rightarrow> retryLoop maxRetry interval exec (tries + 1) (snd r))"
      unfolding r_def using False by (subst retryLoop.simps) (simp add: Let_def)
    show ?thesis
    proof (cases "fst r")
      case (Panics msg)
      with unf r show ?thesis by simp
    next
      case (Returns b)
      show ?thesis
      proof (cases b)
        case True
        with Returns unf r show ?thesis by simp
      next
        case b: False
        have "rescanCount (snd (snd (retryLoop maxRetry interval exec (tries + 1) (snd r))))
            = rescanCount (snd (snd r))"
          using "1.IH" "1.prems" False Returns b unfolding r_def
          by (cases "snd (exec tries (c, tr @ [Tick interval]))") simp
        with Returns b unf r show ?thesis by simp
      qed
    qed
  qed
qed

lemma rc_RunWithRetry:
  assumes "\<And>n s. rescanCount (snd (snd (exec n s))) = rescanCount (snd s)"
  shows "rescanCount (snd (snd (RunWithRetry m iv exec s))) = rescanCount (snd s)"
proof -
  define r where "r = exec 1 s"
  have r: "rescanCount (snd (snd r)) = rescanCount (snd s)" using assms by (simp add: r_def)
  have l: "rescanCount (snd (snd (retryLoop m iv exec 1 (snd r)))) = rescanCount (snd (snd r))"
    by (rule rc_retryLoop [OF assms])
  show ?thesis
    unfolding RunWithRetry_def r_def [symmetric] Let_def using r l
    by (cases "fst r") (auto split: bool.split)
qed

lemma rc_WaitForPath [simp]: "rescanCount (snd (WaitForPath h p tr)) = rescanCount tr"
proof -
  let ?exec = "\<lambda>(n::int) (s::unit \<times> trace). case IsFileExists h p (snd s) of (b, t) \<Rightarrow> (Returns b, (), t)"
  have ex: "\<And>n s. rescanCount (snd (snd (?exec n s))) = rescanCount (snd s)"
    by (simp add: IsFileExists_def)
  have "rescanCount (snd (snd (RunWithRetry 3 1 ?exec ((), tr @ [Stat p])))) = rescanCount tr"
    using rc_RunWithRetry [of ?exec 3 1 "((), tr @ [Stat p])", OF ex] by simp
  then show ?thesis
    by (cases "RunWithRetry 3 1 ?exec ((), tr @ [Stat p])")
       (auto simp: WaitForPath_def IsFileExists_def split: outcome.split)
qed

lemma rc_FindMultipathDevicePath [simp]:
  "rescanCount (snd (FindMultipathDevicePath h w tr)) = rescanCount tr"
proof -
  obtain b1 t1 where w1: "WaitForPath h (''/dev/disk/by-id/dm-uuid-mpath-'' @ w) tr = (b1, t1)" by force
  obtain b2 t2 where w2: "WaitForPath h (''/dev/mapper/'' @ w) t1 = (b2, t2)" by force
  have "rescanCount t1 = rescanCount tr" by (rule frameE [OF rc_WaitForPath w1])
  moreover have "rescanCount t2 = rescanCount t1" by (rule frameE [OF rc_WaitForPath w2])
  ultimately show ?thesis
    unfolding FindMultipathDevicePath_def w1 w2 prod.case by (cases b1; cases b2) simp_all
qed

lemma FindMultipathDevice_trace:
  "snd (FindMultipathDevice h dn tr) = tr @ [Exec ''multipath'' [''-l'', dn]]
   \<or> (\<exists>p. snd (FindMultipathDevice h dn tr) = tr @ [Exec ''multipath'' [''-l'', dn], Stat p])"
proof -
  obtain out err where e: "combinedOutput h tr ''multipath'' [''-l'', dn] = (out, err)" by force
  show ?thesis
    unfolding FindMultipathDevice_def Execute_def e prod.case IsFileExists_def Let_def
    by (cases err) (auto split: outcome.split)
qed

lemma rc_FindMultipathDevice [simp]:
  "rescanCount (snd (FindMultipathDevice h dn tr)) = rescanCount tr"
  using FindMultipathDevice_trace [of h dn tr] by auto

lemma rc_checkBlkdevs [simp]: "rescanCount (snd (checkBlkdevs h w ls tr)) = rescanCount tr"
proof (induction ls)
  case Nil
  then show ?case by simp
next
  case (Cons l ls)
  then show ?case
    by (cases "strconv_Atoi (last (strings_Split l CHR '' ''))")
       (simp_all add: Let_def Execute_def split: prod.split)
qed

lemma rc_WaitForRW [simp]: "rescanCount (snd (WaitForRW h w p tr)) = rescanCount tr"
proof -
  obtain out err where e: "combinedOutput h (logPrintf ''checking to see if %s is read-only'' tr)
      ''lsblk'' [''-o'', ''NAME,RO'', ''-l'', ''-n''] = (out, err)" by force
  show ?thesis
    unfolding WaitForRW_def Execute_def e prod.case by (cases err) simp_all
qed

lemma rc_discoverMPathDevice [simp]:
  "rescanCount (snd (discoverMPathDevice h w cp dn tr)) = rescanCount tr"
proof -
  obtain r1 t1 where f: "FindMultipathDevicePath h w tr = (r1, t1)" by force
  have t1: "rescanCount t1 = rescanCount tr" by (rule frameE [OF rc_FindMultipathDevicePath f])
  show ?thesis
  proof (cases r1)
    case (Inl e)
    with f t1 show ?thesis by (simp add: discoverMPathDevice_def)
  next
    case (Inr path)
    define mid where "mid =
       (if path = []
        then (case filepath_EvalSymlinks h dn t1 of
                (Inl err, tr2) \<Rightarrow> (Returns (Inl err), tr2)
              | (Inr deviceRealPath, tr2) \<Rightarrow>
                  (case FindMultipathDevice h deviceRealPath tr2 of
                     (Panics msg, tr3) \<Rightarrow> (Panics msg, tr3)
                   | (Returns (Inr (Some mPathInfo)), tr3) \<Rightarrow>
                       (Returns (Inr (mp_device mPathInfo, w)), tr3)
                   | (Returns other, tr3) \<Rightarrow> (Returns (Inr (dn, [])), tr3)))
        else (Returns (Inr (path, w)), t1))"
    have m: "rescanCount (snd mid) = rescanCount tr"
    proof (cases "path = []")
      case False
      then show ?thesis using t1 by (simp add: mid_def)
    next
      case True
      obtain r2 t2 where ev: "filepath_EvalSymlinks h dn t1 = (r2, t2)" by force
      have t2: "rescanCount t2 = rescanCount tr" using frameE [OF rc_EvalSymlinks ev] t1 by simp
      show ?thesis
      proof (cases r2)
        case (Inl e)
        with True ev t2 show ?thesis by (simp add: mid_def)
      next
        case (Inr real)
        obtain r3 t3 where fm: "FindMultipathDevice h real t2 = (r3, t3)" by force
        have "rescanCount t3 = rescanCount tr" using frameE [OF rc_FindMultipathDevice fm] t2 by simp
        with True ev Inr fm show ?thesis
          by (simp add: mid_def split: outcome.split sum.split option.split)
      qed
    qed
    have body: "discoverMPathDevice h w cp dn tr =
        (case mid of
           (Panics msg, tr4) \<Rightarrow> (Panics msg, tr4)
         | (Returns (Inl err), tr4) \<Rightarrow> (Returns (Inl err), tr4)
         | (Returns (Inr (devicePath, multipathID)), tr4) \<Rightarrow>
               (if cp ''access_mode'' \<noteq> None \<and> cp ''access_mode'' \<noteq> Some (VStr ''ro'')
                then (case RunWithRetry 5 1 (waitForRWAttempt h w devicePath) ((), tr4) of
                        (Returns True, c, tr5) \<Rightarrow> (Returns (Inr (devicePath, multipathID)), tr5)
                      | (other, c, tr5) \<Rightarrow>
                          (Returns (Inr (devicePath, multipathID)),
                           logPrintf ''block device %s is still read-only. Continuing anyway.'' tr5))
                else (Returns (Inr (devicePath, multipathID)), tr4)))"
      unfolding discoverMPathDevice_def f Inr prod.case sum.case mid_def by (rule refl)
    have retry: "\<And>dp t. rescanCount (snd (snd (RunWithRetry 5 1 (waitForRWAttempt h w dp) ((), t)))) = rescanCount t"
    proof -
      fix dp t
      have "\<And>n s. rescanCount (snd (snd (waitForRWAttempt h w dp n s))) = rescanCount (snd s)"
        by (simp add: waitForRWAttempt_def split: prod.split) (metis rc_WaitForRW snd_conv)
      from rc_RunWithRetry [of "waitForRWAttempt h w dp" 5 1 "((), t)", OF this]
      show "rescanCount (snd (snd (RunWithRetry 5 1 (waitForRWAttempt h w dp) ((), t)))) = rescanCount t"
        by simp
    qed
    obtain mr mt where mid: "mid = (mr, mt)" by force
    with m have mt: "rescanCount mt = rescanCount tr" by simp
    show ?thesis
    proof (cases mr)
      case (Panics msg)
      with mid mt show ?thesis unfolding body by simp
    next
      case (Returns x)
      show ?thesis
      proof (cases x)
        case (Inl e)
        with Returns mid mt show ?thesis unfolding body by simp
      next
        case (Inr pr)
        obtain devicePath multipathID where pr: "pr = (devicePath, multipathID)" by force
        obtain rr rc rt where rw: "RunWithRetry 5 1 (waitForRWAttempt h w devicePath) ((), mt) = (rr, rc, rt)"
          by (metis surj_pair)
        have "rescanCount rt = rescanCount tr" using retry [of devicePath mt] rw mt by simp
        with Returns Inr pr mid mt rw show ?thesis
          unfolding body by (auto split: outcome.split bool.split)
      qed
    qed
  qed
qed

lemma poll_first_hit:
  "scanCandidates h hds t = (Some f, t1) \<Longrightarrow>
   RunWithRetry m iv (pollAttempt h hbas cp hds) (c, t) = (Returns True, f, t1)"
  by (simp add: RunWithRetry_def pollAttempt_def)

lemma poll_second_hit:
  assumes "scanCandidates h hds t = (None, t1)" and "RescanHosts h hbas cp t1 = (Returns u1, t2)"
    and "scanCandidates h hds (t2 @ [Tick iv]) = (Some f, t3)"
  shows "RunWithRetry 3 iv (pollAttempt h hbas cp hds) (c, t) = (Returns True, f, t3)"
  using assms by (simp add: RunWithRetry_def pollAttempt_def retryLoop.simps)

lemma poll_exhausted:
  assumes "scanCandidates h hds t = (None, t1)" and "RescanHosts h hbas cp t1 = (Returns u1, t2)"
    and "scanCandidates h hds (t2 @ [Tick iv]) = (None, t3)" and "RescanHosts h hbas cp t3 = (Returns u2, t4)"
    and "scanCandidates h hds (t4 @ [Tick iv]) = (None, t5)" and "RescanHosts h hbas cp t5 = (Returns u3, t6)"
  shows "RunWithRetry 3 iv (pollAttempt h hbas cp hds) (c, t) = (Returns False, c, t6 @ [Tick iv])"
  using assms by (simp add: RunWithRetry_def pollAttempt_def retryLoop.simps)

lemma ConnectVolume_after_prepare:
  assumes "fst (addTargetsToConnectionProperties cp) = Returns (Inr cp')"
    and "cp' ''targets'' = Some (VTargets targets)"
    and "GetFCHBAsInfo h (tr @ [Log ''add Targets To connProps: %#v'']) = (Returns (Inr hbas), tr1)"
    and "hbas \<noteq> []"
    and "getPossibleVolumePaths h targets hbas (tr1 @ [Log ''FC HBAs Info: %#v'']) = (Returns (Inr hostDevices), tr2)"
  shows "ConnectVolume h cp tr =
     (case RunWithRetry 3 5 (pollAttempt h hbas cp' hostDevices)
             (([], []), tr2 @ [Log ''possibleVolumePaths: %#v'']) of
        (Panics msg, c, tr3) \<Rightarrow> (Panics msg, tr3)
      | (Returns False, c, tr3) \<Rightarrow>
          (Returns (Inl (Errorf ''fibre Channel volume device not found'' [])), tr3)
      | (Returns True, (hostDevice, deviceName), tr3) \<Rightarrow>
          (case GetSCSIWWN h hostDevice tr3 of
             ((deviceWwn, Some err), tr4) \<Rightarrow> (Returns (Inl err), tr4)
           | ((deviceWwn, None), tr4) \<Rightarrow>
               (if useMultipathOf cp'
                then (case discoverMPathDevice h deviceWwn cp' deviceName tr4 of
                        (Panics msg, tr5) \<Rightarrow> (Panics msg, tr5)
                      | (Returns (Inl err), tr5) \<Rightarrow> (Returns (Inl err), tr5)
                      | (Returns (Inr (devicePath, multipathId)), tr5) \<Rightarrow>
                          (Returns (Inr (mapSet ''path'' devicePath
                             (if multipathId \<noteq> []
                              then mapSet ''multipath_id'' multipathId
                                     (mapSet ''scsi_wwn'' deviceWwn [(''type'', ''block'')])
                              else mapSet ''scsi_wwn'' deviceWwn [(''type'', ''block'')]))), tr5))
                else (Returns (Inr (mapSet ''path'' hostDevice
                        (mapSet ''scsi_wwn'' deviceWwn [(''type'', ''block'')]))), tr4))))"
  using assms
  by (simp add: ConnectVolume_def propGet_def logPrintf_def DeviceScanAttemptsDefault_def)

lemma ConnectVolume_miss:
  assumes "fst (addTargetsToConnectionProperties cp) = Returns (Inr cp')"
    and "cp' ''targets'' = Some (VTargets targets)"
    and "GetFCHBAsInfo h (tr @ [Log ''add Targets To connProps: %#v'']) = (Returns (Inr hbas), tr1)"
    and "hbas \<noteq> []"
    and "getPossibleVolumePaths h targets hbas (tr1 @ [Log ''FC HBAs Info: %#v'']) = (Returns (Inr hostDevices), tr2)"
    and "RunWithRetry 3 5 (pollAttempt h hbas cp' hostDevices)
             (([], []), tr2 @ [Log ''possibleVolumePaths: %#v'']) = (Returns False, c, t3)"
  shows "ConnectVolume h cp tr = (Returns (Inl (Errorf ''fibre Channel volume device not found'' [])), t3)"
  unfolding ConnectVolume_after_prepare [OF assms(1-5)] assms(6) by simp

lemma ConnectVolume_hit:
  assumes "fst (addTargetsToConnectionProperties cp) = Returns (Inr cp')"
    and "cp' ''targets'' = Some (VTargets targets)"
    and "GetFCHBAsInfo h (tr @ [Log ''add Targets To connProps: %#v'']) = (Returns (Inr hbas), tr1)"
    and "hbas \<noteq> []"
    and "getPossibleVolumePaths h targets hbas (tr1 @ [Log ''FC HBAs Info: %#v'']) = (Returns (Inr hostDevices), tr2)"
    and "RunWithRetry 3 5 (pollAttempt h hbas cp' hostDevices)
             (([], []), tr2 @ [Log ''possibleVolumePaths: %#v'']) = (Returns True, (d, name), t3)"
  shows "rescanCount (snd (ConnectVolume h cp tr)) = rescanCount t3"
    and "GetSCSIWWN h d t3 = ((wwn, None), t4) \<Longrightarrow> \<not> useMultipathOf cp' \<Longrightarrow>
         ConnectVolume h cp tr =
           (Returns (Inr [(''type'', ''block''), (''scsi_wwn'', wwn), (''path'', d)]), t4)"
proof -
  have eq: "ConnectVolume h cp tr =
          (case GetSCSIWWN h d t3 of
             ((deviceWwn, Some err), tr4) \<Rightarrow> (Returns (Inl err), tr4)
           | ((deviceWwn, None), tr4) \<Rightarrow>
               (if useMultipathOf cp'
                then (case discoverMPathDevice h deviceWwn cp' name tr4 of
                        (Panics msg, tr5) \<Rightarrow> (Panics msg, tr5)
                      | (Returns (Inl err), tr5) \<Rightarrow> (Returns (Inl err), tr5)
                      | (Returns (Inr (devicePath, multipathId)), tr5) \<Rightarrow>
                          (Returns (Inr (mapSet ''path'' devicePath
                             (if multipathId \<noteq> []
                              then mapSet ''multipath_id'' multipathId
                                     (mapSet ''scsi_wwn'' deviceWwn [(''type'', ''block'')])
                              else mapSet ''scsi_wwn'' deviceWwn [(''type'', ''block'')]))), tr5))
                else (Returns (Inr (mapSet ''path'' d
                        (mapSet ''scsi_wwn'' deviceWwn [(''type'', ''block'')]))), tr4)))"
    unfolding ConnectVolume_after_prepare [OF assms(1-5)] assms(6) by simp
  obtain w e t4' where g: "GetSCSIWWN h d t3 = ((w, e), t4')" by (metis surj_pair)
  have t4: "rescanCount t4' = rescanCount t3" by (rule frameE [OF rc_GetSCSIWWN g])
  obtain r5 t5 where dm: "discoverMPathDevice h w cp' name t4' = (r5, t5)" by force
  have t5: "rescanCount t5 = rescanCount t3" using frameE [OF rc_discoverMPathDevice dm] t4 by simp
  show "rescanCount (snd (ConnectVolume h cp tr)) = rescanCount t3"
    unfolding eq g prod.case dm using t4 t5
    by (cases e; cases "useMultipathOf cp'") (auto split: outcome.split sum.split)
  show "GetSCSIWWN h d t3 = ((wwn, None), t4) \<Longrightarrow> \<not> useMultipathOf cp' \<Longrightarrow>
         ConnectVolume h cp tr =
           (Returns (Inr [(''type'', ''block''), (''scsi_wwn'', wwn), (''path'', d)]), t4)"
    unfolding eq by simp
qed

section \<open>Verification: polling and rescans in ConnectVolume\<close>

lemma normalize_single:
  "fst (addTargetsToConnectionProperties descrSinglePath) = Returns (Inr descrSingleNormalized)"
proof -
  have lo: "strings_ToLower ''20210002AC00383D'' = ''20210002ac00383d''"
    "strings_ToLower ''20220002AC00383D'' = ''20220002ac00383d''"
    by code_simp+
  show ?thesis
    by (simp add: addTargetsToConnectionProperties_def wwnsOf_def lunsOf_def storeWwns_def propGet_def
          descrSinglePath_def descrBroadcast_def descrSingleNormalized_def fcTargets_def lo Let_def)
qed

lemma prepare_attached:
  "fst (GetFCHBAsInfo hostAttached ([] @ [Log ''add Targets To connProps: %#v''])) = Returns (Inr fcHBAs)"
  "fst (getPossibleVolumePaths hostAttached fcTargets fcHBAs
      (snd (GetFCHBAsInfo hostAttached ([] @ [Log ''add Targets To connProps: %#v''])) @ [Log ''FC HBAs Info: %#v'']))
    = Returns (Inr fcCandidates)"
  by code_simp+

lemma prepare_rescan:
  "fst (GetFCHBAsInfo hostAfterRescan ([] @ [Log ''add Targets To connProps: %#v''])) = Returns (Inr fcHBAs)"
  "fst (getPossibleVolumePaths hostAfterRescan fcTargets fcHBAs
      (snd (GetFCHBAsInfo hostAfterRescan ([] @ [Log ''add Targets To connProps: %#v''])) @ [Log ''FC HBAs Info: %#v'']))
    = Returns (Inr fcCandidates)"
  by code_simp+

lemma prepare_nodevice:
  "fst (GetFCHBAsInfo hostNoDevice ([] @ [Log ''add Targets To connProps: %#v''])) = Returns (Inr fcHBAs)"
  "fst (getPossibleVolumePaths hostNoDevice fcTargets fcHBAs
      (snd (GetFCHBAsInfo hostNoDevice ([] @ [Log ''add Targets To connProps: %#v''])) @ [Log ''FC HBAs Info: %#v'']))
    = Returns (Inr fcCandidates)"
  by code_simp+

lemma poll_attached:
  "fst (scanCandidates hostAttached fcCandidates (preparedTrace hostAttached)) = Some (candidatePath, ''/dev/sdb'')"
  "fst (GetSCSIWWN hostAttached candidatePath (snd (scanCandidates hostAttached fcCandidates (preparedTrace hostAttached))))
     = (''36001405d27e5d898829468b90ce4ef8c'', None)"
  by code_simp+

lemma poll_rescan:
  "fst (scanCandidates hostAfterRescan fcCandidates (preparedTrace hostAfterRescan)) = None"
  "fst (RescanHosts hostAfterRescan fcHBAs descrSingleNormalized
          (snd (scanCandidates hostAfterRescan fcCandidates (preparedTrace hostAfterRescan)))) = Returns ()"
  "fst (scanCandidates hostAfterRescan fcCandidates (afterAttempt1 hostAfterRescan)) = Some (candidatePath, ''/dev/sdb'')"
  by code_simp+

lemma poll_nodevice:
  "fst (scanCandidates hostNoDevice fcCandidates (preparedTrace hostNoDevice)) = None"
  "fst (RescanHosts hostNoDevice fcHBAs descrSingleNormalized
          (snd (scanCandidates hostNoDevice fcCandidates (preparedTrace hostNoDevice)))) = Returns ()"
  "fst (scanCandidates hostNoDevice fcCandidates (afterAttempt1 hostNoDevice)) = None"
  "fst (RescanHosts hostNoDevice fcHBAs descrSingleNormalized
          (snd (scanCandidates hostNoDevice fcCandidates (afterAttempt1 hostNoDevice)))) = Returns ()"
  "fst (scanCandidates hostNoDevice fcCandidates (afterAttempt2 hostNoDevice)) = None"
  "fst (RescanHosts hostNoDevice fcHBAs descrSingleNormalized
          (snd (scanCandidates hostNoDevice fcCandidates (afterAttempt2 hostNoDevice)))) = Returns ()"
  by code_simp+

lemma pair_fstI: "fst p = a \<Longrightarrow> p = (a, snd p)"
  by (cases p) simp

lemma single_normalized_facts:
  "descrSingleNormalized ''targets'' = Some (VTargets fcTargets)"
  "\<not> useMultipathOf descrSingleNormalized"
  "fcHBAs \<noteq> []"
  by (simp_all add: descrSingleNormalized_def descrSinglePath_def useMultipathOf_def fcHBAs_def)

lemma scanCandidates_step:
  "scanCandidates h (dev # hds) t =
     (if \<not> os_Stat h t dev then scanCandidates h hds (t @ [Stat dev])
      else if \<not> readable h (t @ [Stat dev]) dev
      then scanCandidates h hds
             (t @ [Stat dev, rawRead dev, Log ''failed to access the device on the path ''])
      else (Some (dev, case evalSymlinks h (t @ [Stat dev, rawRead dev]) dev of
                         Inl err \<Rightarrow> [] | Inr deviceName \<Rightarrow> deviceName),
            t @ [Stat dev, rawRead dev, EvalSymlinks dev]))"
  unfolding rawRead_def readable_def by (simp only: scanCandidates_Cons not_not)

lemma statPaths_checksOf: "statPaths (checksOf h t ds) = ds"
  by (induction ds arbitrary: t) (simp_all add: statPaths_def rawRead_def)

lemma rescanCount_checksOf: "rescanCount (checksOf h t ds) = 0"
  by (induction ds arbitrary: t) (simp_all add: rawRead_def)

lemma scanCandidates_failed:
  "fst (scanCandidates h ds t) = None \<Longrightarrow> snd (scanCandidates h ds t) = t @ checksOf h t ds"
proof (induction ds arbitrary: t)
  case Nil
  then show ?case by simp
next
  case (Cons dev ds)
  define lg where "lg = Log ''failed to access the device on the path ''"
  note st = scanCandidates_step [of h dev ds t, folded lg_def]
  show ?case
  proof (cases "os_Stat h t dev")
    case False
    then have eq: "scanCandidates h (dev # ds) t = scanCandidates h ds (t @ [Stat dev])"
      unfolding st by simp
    with Cons.prems have "fst (scanCandidates h ds (t @ [Stat dev])) = None" by simp
    from Cons.IH [OF this] False show ?thesis unfolding eq by simp
  next
    case True
    show ?thesis
    proof (cases "readable h (t @ [Stat dev]) dev")
      case False
      with True have eq: "scanCandidates h (dev # ds) t = scanCandidates h ds (t @ [Stat dev, rawRead dev, lg])"
        unfolding st by simp
      with Cons.prems have "fst (scanCandidates h ds (t @ [Stat dev, rawRead dev, lg])) = None" by simp
      from Cons.IH [OF this] True show ?thesis unfolding eq by (simp add: lg_def)
    next
      case r: True
      with True have "fst (scanCandidates h (dev # ds) t) \<noteq> None" unfolding st by simp
      with Cons.prems show ?thesis by simp
    qed
  qed
qed

lemma scanCandidates_hit:
  "scanCandidates h ds t = (Some (d, name), s1) \<Longrightarrow>
   \<exists>pre post. ds = pre @ d # post
      \<and> s1 = t @ checksOf h t pre @ [Stat d, rawRead d, EvalSymlinks d]
      \<and> os_Stat h (t @ checksOf h t pre) d
      \<and> readable h (t @ checksOf h t pre @ [Stat d]) d"
proof (induction ds arbitrary: t)
  case Nil
  then show ?case by simp
next
  case (Cons dev ds)
  define lg where "lg = Log ''failed to access the device on the path ''"
  note st = scanCandidates_step [of h dev ds t, folded lg_def]
  show ?case
  proof (cases "os_Stat h t dev")
    case False
    with Cons.prems have "scanCandidates h ds (t @ [Stat dev]) = (Some (d, name), s1)"
      unfolding st by simp
    from Cons.IH [OF this] obtain pre post where p: "ds = pre @ d # post"
      "s1 = (t @ [Stat dev]) @ checksOf h (t @ [Stat dev]) pre @ [Stat d, rawRead d, EvalSymlinks d]"
      "os_Stat h ((t @ [Stat dev]) @ checksOf h (t @ [Stat dev]) pre) d"
      "readable h ((t @ [Stat dev]) @ checksOf h (t @ [Stat dev]) pre @ [Stat d]) d"
      by blast
    have c: "checksOf h t (dev # pre) = [Stat dev] @ checksOf h (t @ [Stat dev]) pre"
      using False by simp
    show ?thesis
      apply (rule exI [of _ "dev # pre"], rule exI [of _ post])
      unfolding c using p by simp
  next
    case True
    show ?thesis
    proof (cases "readable h (t @ [Stat dev]) dev")
      case False
      with True Cons.prems have "scanCandidates h ds (t @ [Stat dev, rawRead dev, lg]) = (Some (d, name), s1)"
        unfolding st by simp
      from Cons.IH [OF this] obtain pre post where p: "ds = pre @ d # post"
        "s1 = (t @ [Stat dev, rawRead dev, lg]) @ checksOf h (t @ [Stat dev, rawRead dev, lg]) pre
               @ [Stat d, rawRead d, EvalSymlinks d]"
        "os_Stat h ((t @ [Stat dev, rawRead dev, lg]) @ checksOf h (t @ [Stat dev, rawRead dev, lg]) pre) d"
        "readable h ((t @ [Stat dev, rawRead dev, lg]) @ checksOf h (t @ [Stat dev, rawRead dev, lg]) pre @ [Stat d]) d"
        by blast
      have c: "checksOf h t (dev # pre) = [Stat dev, rawRead dev, lg] @ checksOf h (t @ [Stat dev, rawRead dev, lg]) pre"
        using True by (simp add: lg_def)
      show ?thesis
        apply (rule exI [of _ "dev # pre"], rule exI [of _ post])
        unfolding c using p by simp
    next
      case r: True
      with True Cons.prems have "d = dev" "s1 = t @ [Stat dev, rawRead dev, EvalSymlinks dev]"
        unfolding st by auto
      with True r show ?thesis
        by (intro exI [of _ "[]"] exI [of _ ds]) simp
    qed
  qed
qed

lemma discoverMPathDevice_found:
  assumes "FindMultipathDevicePath h deviceWwn tr = (Inr path, tr1)"
  shows "fst (discoverMPathDevice h deviceWwn connProperties deviceName tr) = Returns (Inr (path, deviceWwn))"
proof -
  from assms have "path \<noteq> []" by (rule FindMultipathDevicePath_nonempty)
  with assms show ?thesis
    by (simp add: discoverMPathDevice_def split: prod.split outcome.split bool.split)
qed

lemma ConnectVolume_hit_multipath:
  assumes "fst (addTargetsToConnectionProperties cp) = Returns (Inr cp')"
    and "cp' ''targets'' = Some (VTargets targets)"
    and "GetFCHBAsInfo h (tr @ [Log ''add Targets To connProps: %#v'']) = (Returns (Inr hbas), tr1)"
    and "hbas \<noteq> []"
    and "getPossibleVolumePaths h targets hbas (tr1 @ [Log ''FC HBAs Info: %#v'']) = (Returns (Inr hostDevices), tr2)"
    and "RunWithRetry 3 5 (pollAttempt h hbas cp' hostDevices)
             (([], []), tr2 @ [Log ''possibleVolumePaths: %#v'']) = (Returns True, (d, name), t3)"
    and "GetSCSIWWN h d t3 = ((wwn, None), t4)"
    and "useMultipathOf cp'"
    and "FindMultipathDevicePath h wwn t4 = (Inr mpath, t5)"
  shows "fst (ConnectVolume h cp tr) =
           Returns (Inr ([(''type'', ''block''), (''scsi_wwn'', wwn)]
                         @ (if wwn \<noteq> [] then [(''multipath_id'', wwn)] else [])
                         @ [(''path'', mpath)]))"
proof -
  obtain r5 t6 where dm: "discoverMPathDevice h wwn cp' name t4 = (r5, t6)" by force
  with discoverMPathDevice_found [OF assms(9), of cp' name]
  have r5: "r5 = Returns (Inr (mpath, wwn))" by simp
  show ?thesis
    unfolding ConnectVolume_after_prepare [OF assms(1-5)] assms(6)
    using assms(7,8) dm r5
    by simp
qed

lemma normalize_broadcast:
  "fst (addTargetsToConnectionProperties descrBroadcast) = Returns (Inr descrBroadcastNormalized)"
proof -
  have lo: "strings_ToLower ''20210002AC00383D'' = ''20210002ac00383d''"
    "strings_ToLower ''20220002AC00383D'' = ''20220002ac00383d''"
    by code_simp+
  show ?thesis
    by (simp add: addTargetsToConnectionProperties_def wwnsOf_def lunsOf_def storeWwns_def propGet_def
          descrBroadcast_def descrBroadcastNormalized_def fcTargets_def lo Let_def)
qed

lemma broadcast_normalized_facts:
  "descrBroadcastNormalized ''targets'' = Some (VTargets fcTargets)"
  "useMultipathOf descrBroadcastNormalized"
  by (simp_all add: descrBroadcastNormalized_def descrBroadcast_def useMultipathOf_def)

lemma prepare_multipath:
  "fst (GetFCHBAsInfo hostMultipathAttached ([] @ [Log ''add Targets To connProps: %#v''])) = Returns (Inr fcHBAs)"
  "fst (getPossibleVolumePaths hostMultipathAttached fcTargets fcHBAs
      (snd (GetFCHBAsInfo hostMultipathAttached ([] @ [Log ''add Targets To connProps: %#v''])) @ [Log ''FC HBAs Info: %#v'']))
    = Returns (Inr fcCandidates)"
  by code_simp+

lemma prepare_unreadable:
  "fst (GetFCHBAsInfo hostUnreadable ([] @ [Log ''add Targets To connProps: %#v''])) = Returns (Inr fcHBAs)"
  "fst (getPossibleVolumePaths hostUnreadable fcTargets fcHBAs
      (snd (GetFCHBAsInfo hostUnreadable ([] @ [Log ''add Targets To connProps: %#v''])) @ [Log ''FC HBAs Info: %#v'']))
    = Returns (Inr fcCandidates)"
  by code_simp+

lemma poll_multipath:
  "fst (scanCandidates hostMultipathAttached fcCandidates (preparedTrace hostMultipathAttached))
     = Some (candidatePath, ''/dev/sdb'')"
  "fst (GetSCSIWWN hostMultipathAttached candidatePath
          (snd (scanCandidates hostMultipathAttached fcCandidates (preparedTrace hostMultipathAttached))))
     = (''36001405d27e5d898829468b90ce4ef8c'', None)"
  "fst (FindMultipathDevicePath hostMultipathAttached ''36001405d27e5d898829468b90ce4ef8c''
          (snd (GetSCSIWWN hostMultipathAttached candidatePath
             (snd (scanCandidates hostMultipathAttached fcCandidates (preparedTrace hostMultipathAttached))))))
     = Inr mpathLink"
  by code_simp+

lemma poll_unreadable:
  "fst (scanCandidates hostUnreadable fcCandidates (preparedTrace hostUnreadable)) = None"
  "checksOf hostUnreadable (preparedTrace hostUnreadable) fcCandidates =
     [Stat candidatePath, rawRead candidatePath, Log ''failed to access the device on the path '',
      Stat ''/dev/disk/by-path/pci-0000:05:00.3-fc-0x20220002ac00383d-lun-1'',
      Stat ''/dev/disk/by-path/pci-0000:05:00.4-fc-0x20210002ac00383d-lun-1'',
      Stat ''/dev/disk/by-path/pci-0000:05:00.4-fc-0x20220002ac00383d-lun-1'']"
  by code_simp+




section \<open>Verification: multipath discovery, flush on disconnect, malformed descriptors\<close>

text \<open>
  C1. \<open>discoverMPathDevice\<close> is decided by the symlink wait alone: when
  \<open>FindMultipathDevicePath\<close> misses, its error is returned at once, and otherwise the
  path it found is the result. The lookup by real device name and the raw device path
  are never reached. On \<open>hostAttached\<close> (a valid candidate, no multipath device,
  multipath use requested by default) \<open>ConnectVolume\<close> therefore fails with the
  error of the symlink wait, and \<^verbatim>\<open>multipath -l\<close> is never run.
\<close>

theorem C1_symlink_miss_aborts:
  "(case FindMultipathDevicePath h deviceWwn tr of
      (Inl err, tr1) \<Rightarrow> discoverMPathDevice h deviceWwn connProperties deviceName tr = (Returns (Inl err), tr1)
    | (Inr path, tr1) \<Rightarrow>
        fst (discoverMPathDevice h deviceWwn connProperties deviceName tr) = Returns (Inr (path, deviceWwn)))
   \<and> useMultipathOf descrBroadcast
   \<and> (case ConnectVolume hostAttached descrBroadcast [] of
        (r, t) \<Rightarrow> r = Returns (Inl (Errorf ''couldn't find a valid multipath device path for %s''
                                     [''36001405d27e5d898829468b90ce4ef8c'']))
                  \<and> map fst (commands t) = [''systool'', ''dd'', ''/lib/udev/scsi_id''])"
proof -
  have general: "(case FindMultipathDevicePath h deviceWwn tr of
      (Inl err, tr1) \<Rightarrow> discoverMPathDevice h deviceWwn connProperties deviceName tr = (Returns (Inl err), tr1)
    | (Inr path, tr1) \<Rightarrow>
        fst (discoverMPathDevice h deviceWwn connProperties deviceName tr) = Returns (Inr (path, deviceWwn)))"
  proof (cases "FindMultipathDevicePath h deviceWwn tr")
    case (Pair r tr1)
    show ?thesis
    proof (cases r)
      case (Inl err)
      with Pair show ?thesis by (simp add: discoverMPathDevice_def)
    next
      case (Inr path)
      with Pair have ne: "path \<noteq> []" by (auto dest: FindMultipathDevicePath_nonempty)
      with Pair Inr show ?thesis
        by (simp add: discoverMPathDevice_def split: prod.split outcome.split bool.split)
    qed
  qed
  have mp: "useMultipathOf descrBroadcast" by code_simp
  have run: "(case ConnectVolume hostAttached descrBroadcast [] of
        (r, t) \<Rightarrow> r = Returns (Inl (Errorf ''couldn't find a valid multipath device path for %s''
                                     [''36001405d27e5d898829468b90ce4ef8c'']))
                  \<and> map fst (commands t) = [''systool'', ''dd'', ''/lib/udev/scsi_id''])"
    by code_simp
  from general mp run show ?thesis by (intro conjI)
qed

text \<open>
  C2. The loop of \<open>DisconnectVolume\<close> is entered with \<open>mPathPath\<close> empty, and the
  guard of its flush block asks for a non-empty one: the block is skipped whatever the
  multipath flag, \<open>mPathPath\<close> stays empty, and the loop does with multipath enabled
  exactly what it does with multipath disabled. On \<open>hostMultipathAttached\<close> the
  candidate exists, passes the validity probe and its multipath link exists, and
  multipath use is requested; \<open>DisconnectVolume\<close> removes the device and returns
  nil having run neither the probe, nor the WWN query, nor \<^verbatim>\<open>multipath -f\<close>.
\<close>

theorem C2_flush_never_runs:
  "flushStep h useMultipath [] path tr = (True, [], tr)
   \<and> disconnectPaths h useMultipath volumePaths [] devices tr
       = disconnectPaths h False volumePaths [] devices tr
   \<and> useMultipathOf descrBroadcast
   \<and> fst (IsFileExists hostMultipathAttached candidatePath [])
   \<and> fst (CheckValidDevice hostMultipathAttached candidatePath [])
   \<and> fst (FindMultipathDevicePath hostMultipathAttached ''36001405d27e5d898829468b90ce4ef8c'' [])
       = Inr mpathLink
   \<and> (case DisconnectVolume hostMultipathAttached descrBroadcast [] [] of
        (r, t) \<Rightarrow> r = Returns None \<and> map fst (commands t) = [''systool'', ''sg_scan'', ''sh''])"
proof -
  have step: "\<And>um p t. flushStep h um [] p t = (True, [], t)"
    by (simp add: flushStep_def)
  have loop: "disconnectPaths h useMultipath volumePaths [] devices tr
       = disconnectPaths h False volumePaths [] devices tr"
    by (induction volumePaths arbitrary: devices tr)
       (simp_all add: step split: prod.split sum.split)
  have c1: "useMultipathOf descrBroadcast" by code_simp
  have c2: "fst (IsFileExists hostMultipathAttached candidatePath [])" by code_simp
  have c3: "fst (CheckValidDevice hostMultipathAttached candidatePath [])" by code_simp
  have c4: "fst (FindMultipathDevicePath hostMultipathAttached ''36001405d27e5d898829468b90ce4ef8c'' [])
       = Inr mpathLink" by code_simp
  have c5: "(case DisconnectVolume hostMultipathAttached descrBroadcast [] [] of
        (r, t) \<Rightarrow> r = Returns None \<and> map fst (commands t) = [''systool'', ''sg_scan'', ''sh''])"
    by code_simp
  from step [of useMultipath path tr] loop c1 c2 c3 c4 c5 show ?thesis by (intro conjI)
qed

text \<open>
  C8. Let the cardinalities of the descriptor's WWNs and LUNs be malformed: the lists
  are neither of equal non-zero length, nor one LUN for several WWNs. Then
  \<open>ConnectVolume\<close> returns the validation error and \<open>ExtendVolume\<close> returns it
  wrapped, both without touching the host; but \<open>DisconnectVolume\<close> only logs it, reads
  the targets from the nil map that came with it, and panics on the type assertion: it
  does not return.
\<close>

theorem C8_malformed_descriptor:
  assumes "wwnsOf connectionProperties = Returns wwns"
    and "lunsOf (storeWwns connectionProperties (map strings_ToLower wwns)) = Returns luns"
    and "\<not> (length luns = length wwns \<and> 0 < length luns \<or> length luns = 1 \<and> 1 < length wwns)"
  shows "ConnectVolume h connectionProperties tr =
           (Returns (Inl (Errorf
              ''unable to find potential volume paths for FC device with luns %#v and wwns %#v'' [])), tr)
       \<and> ExtendVolume h connectionProperties tr =
           (Returns (Some (ErrorfWrap ''failed add targets to connection properties:%v'' []
              (Errorf ''unable to find potential volume paths for FC device with luns %#v and wwns %#v'' []))), tr)
       \<and> DisconnectVolume h connectionProperties deviceInfo tr =
           (Panics ''interface conversion: interface {} is nil, not []initiator.Target'',
            tr @ [Log ''failed addTargetsToConnectionProperties: %#v, ERROR:%v''])"
proof -
  have norm: "fst (addTargetsToConnectionProperties connectionProperties) =
      Returns (Inl (Errorf
        ''unable to find potential volume paths for FC device with luns %#v and wwns %#v'' []))"
    using assms by (simp add: addTargetsToConnectionProperties_def Let_def)
  show ?thesis
    by (simp add: norm ConnectVolume_def ExtendVolume_def DisconnectVolume_def
        propGet_def logPrintf_def)
qed

theorem C8_malformed_descriptor_witness:
  "wwnsOf descrMalformed = Returns [''20210002AC00383D'']
   \<and> lunsOf (storeWwns descrMalformed (map strings_ToLower [''20210002AC00383D''])) = Returns [''1'', ''2'']
   \<and> ConnectVolume hostAttached descrMalformed [] =
           (Returns (Inl (Errorf
              ''unable to find potential volume paths for FC device with luns %#v and wwns %#v'' [])), [])
   \<and> ExtendVolume hostAttached descrMalformed [] =
           (Returns (Some (ErrorfWrap ''failed add targets to connection properties:%v'' []
              (Errorf ''unable to find potential volume paths for FC device with luns %#v and wwns %#v'' []))), [])
   \<and> DisconnectVolume hostAttached descrMalformed [] [] =
           (Panics ''interface conversion: interface {} is nil, not []initiator.Target'',
            [Log ''failed addTargetsToConnectionProperties: %#v, ERROR:%v''])"
proof -
  have w: "wwnsOf descrMalformed = Returns [''20210002AC00383D'']" by code_simp
  have l: "lunsOf (storeWwns descrMalformed (map strings_ToLower [''20210002AC00383D''])) = Returns [''1'', ''2'']"
    by code_simp
  have c: "\<not> (length [''1'', ''2''] = length [''20210002AC00383D''] \<and> 0 < length [''1'', ''2'']
              \<or> length [''1'', ''2''] = 1 \<and> 1 < length [''20210002AC00383D''])" by simp
  from C8_malformed_descriptor [OF w l c, of hostAttached "[]" "[]"] w l show ?thesis by simp
qed

section \<open>Verification: the scans of a rescan\<close>

text \<open>
  C6. Two HBAs, wildcard scanning permitted (no \<^verbatim>\<open>enable_wildcard_scan\<close> key) and
  no initiator-target LUN map. The scan loop stands inside the loop over the HBAs: the
  entry of the first HBA (its resolved triples, or its wildcard triples when it resolved
  none) is scanned when the first HBA has been probed, and once the second HBA has
  resolved its triples it is scanned again, together with the entry of the second HBA.
  So the triples of the first HBA are written twice, and its wildcard triples are written
  although another HBA produced a narrow match.
\<close>

theorem C6_rescan_two_hbas:
  assumes "connProperties ''enable_wildcard_scan'' = None"
    and "connProperties ''initiator_target_lun_map'' = None"
    and "getHBAChannelSCSITargetLun h hba1 connProperties
           (tr @ [Log ''rescaning HBAs %v with connection properties %#v'']) =
           (Returns (ctls1, lunsWildcards1), tr1)"
    and "triples1 = (if ctls1 \<noteq> [] then ctls1 else wildcards lunsWildcards1)"
    and "scanProcess h [(hba1, triples1)] tr1 = (Returns (), tr2)"
    and "getHBAChannelSCSITargetLun h hba2 connProperties tr2 = (Returns (c # ctls2, lunsWildcards2), tr3)"
  shows "RescanHosts h [hba1, hba2] connProperties tr =
           scanProcess h [(hba1, triples1), (hba2, c # ctls2)] tr3"
proof (cases "ctls1 = []")
  case True
  with assms show ?thesis
    by (simp add: RescanHosts_def logPrintf_def wildcards_def Let_def
        split: prod.split outcome.split del: scanProcess.simps)
next
  case False
  with assms show ?thesis
    by (simp add: RescanHosts_def logPrintf_def Let_def
        split: prod.split outcome.split del: scanProcess.simps)
qed

theorem C6_rescan_two_hbas_witness:
  "scanWrites (snd (RescanHosts hostAttached [hd fcHBAs, fcHBAs ! 1] descrBroadcastNormalized [])) =
     [scanCommand ''host6'' ''0 0 1'', scanCommand ''host6'' ''0 0 1'', scanCommand ''host7'' ''0 1 1'']
   \<and> scanWrites (snd (RescanHosts hostSecondHBAOnly [hd fcHBAs, fcHBAs ! 1] descrBroadcastNormalized [])) =
     [scanCommand ''host6'' ''- - 1'', scanCommand ''host6'' ''- - 1'', scanCommand ''host7'' ''0 1 1'']
   \<and> fcHBAs = [hd fcHBAs, fcHBAs ! 1]"
proof -
  have k1: "descrBroadcastNormalized ''enable_wildcard_scan'' = None"
    by (simp add: descrBroadcastNormalized_def descrBroadcast_def)
  have k2: "descrBroadcastNormalized ''initiator_target_lun_map'' = None"
    by (simp add: descrBroadcastNormalized_def descrBroadcast_def)
  have ap1: "fst (getHBAChannelSCSITargetLun hostAttached (hd fcHBAs) descrBroadcastNormalized
                    ([] @ [Log ''rescaning HBAs %v with connection properties %#v'']))
             = Returns ([[''0'', ''0'', ''1'']], [''1''])"
    by code_simp
  have at1: "[[''0'', ''0'', ''1'']] =
             (if [[''0'', ''0'', ''1'']] \<noteq> [] then [[''0'', ''0'', ''1'']] else wildcards [''1''])"
    by simp
  have as1: "fst (scanProcess hostAttached [(hd fcHBAs, [[''0'', ''0'', ''1'']])] (firstProbed hostAttached))
             = Returns ()"
    by code_simp
  have ap2: "fst (getHBAChannelSCSITargetLun hostAttached (fcHBAs ! 1) descrBroadcastNormalized
                    (firstScanned hostAttached [[''0'', ''0'', ''1'']]))
             = Returns ([''0'', ''1'', ''1''] # [], [''1''])"
    by code_simp
  note aeq = C6_rescan_two_hbas [OF k1 k2 pair_fstI [OF ap1] at1
      pair_fstI [OF as1, unfolded firstProbed_def]
      pair_fstI [OF ap2, unfolded firstScanned_def firstProbed_def]]
  have aw: "scanWrites (snd (RescanHosts hostAttached [hd fcHBAs, fcHBAs ! 1] descrBroadcastNormalized [])) =
     [scanCommand ''host6'' ''0 0 1'', scanCommand ''host6'' ''0 0 1'', scanCommand ''host7'' ''0 1 1'']"
    unfolding aeq by code_simp
  have bp1: "fst (getHBAChannelSCSITargetLun hostSecondHBAOnly (hd fcHBAs) descrBroadcastNormalized
                    ([] @ [Log ''rescaning HBAs %v with connection properties %#v'']))
             = Returns ([], [''1''])"
    by code_simp
  have bt1: "[[''-'', ''-'', ''1'']] = (if ([]::string list list) \<noteq> [] then [] else wildcards [''1''])"
    by (simp add: wildcards_def)
  have bs1: "fst (scanProcess hostSecondHBAOnly [(hd fcHBAs, [[''-'', ''-'', ''1'']])]
                    (firstProbed hostSecondHBAOnly))
             = Returns ()"
    by code_simp
  have bp2: "fst (getHBAChannelSCSITargetLun hostSecondHBAOnly (fcHBAs ! 1) descrBroadcastNormalized
                    (firstScanned hostSecondHBAOnly [[''-'', ''-'', ''1'']]))
             = Returns ([''0'', ''1'', ''1''] # [], [''1''])"
    by code_simp
  note beq = C6_rescan_two_hbas [OF k1 k2 pair_fstI [OF bp1] bt1
      pair_fstI [OF bs1, unfolded firstProbed_def]
      pair_fstI [OF bp2, unfolded firstScanned_def firstProbed_def]]
  have bw: "scanWrites (snd (RescanHosts hostSecondHBAOnly [hd fcHBAs, fcHBAs ! 1] descrBroadcastNormalized [])) =
     [scanCommand ''host6'' ''- - 1'', scanCommand ''host6'' ''- - 1'', scanCommand ''host7'' ''0 1 1'']"
    unfolding beq by code_simp
  have hbas: "fcHBAs = [hd fcHBAs, fcHBAs ! 1]" by (simp add: fcHBAs_def)
  from aw bw hbas show ?thesis by (intro conjI)
qed

end
